(* ===== verification/Prelude.thy ===== *)
theory Prelude
  imports Complex_Main "HOL-Library.Multiset"
begin

text \<open>
  Shared vocabulary of the development: the named collections the component theories
  fill, Python's indexing and de-duplication idioms as executable list functions, and
  the generic lemmas on lists, keys and sortedness that the components share.
\<close>

named_theorems model_defs "definitions unfolded to evaluate the model on concrete tables"

named_theorems causal_intros "rules showing that a series transformer looks only backwards"

named_theorems take_commute "a causal transformer applied to a prefix: F (take k xs) = take k (F xs)"

section \<open>Definitions\<close>

text \<open>
  \<open>df.iloc[i]\<close> with Python's negative indices: \<open>None\<close> stands for the
  \<open>IndexError\<close> that pandas raises out of range.
\<close>

definition py_index :: "'a list \<Rightarrow> int \<Rightarrow> 'a option" where
  "py_index xs i =
     (let len = int (length xs); k = (if 0 \<le> i then i else len + i)
      in if k < 0 \<or> len \<le> k then None else Some (xs ! nat k))"

fun list_max :: "int list \<Rightarrow> int" where
  "list_max [] = 0"
| "list_max [x] = x"
| "list_max (x # y # ys) = max x (list_max (y # ys))"

text \<open>
  pandas' \<open>drop_duplicates(subset=[k])\<close> and \<open>duplicated(subset=[k])\<close> scan the
  rows in order with a table of the keys seen so far; the first row with a key is kept
  (\<open>keep="first"\<close>), every later one is a duplicate.
\<close>

fun dedup_by :: "('a \<Rightarrow> 'k) \<Rightarrow> 'k list \<Rightarrow> 'a list \<Rightarrow> 'a list" where
  "dedup_by f seen [] = []"
| "dedup_by f seen (x # xs) =
     (if f x \<in> set seen then dedup_by f seen xs else x # dedup_by f (f x # seen) xs)"

fun duplicated_by :: "('a \<Rightarrow> 'k) \<Rightarrow> 'k list \<Rightarrow> 'a list \<Rightarrow> bool list" where
  "duplicated_by f seen [] = []"
| "duplicated_by f seen (x # xs) =
     (if f x \<in> set seen then True # duplicated_by f seen xs
      else False # duplicated_by f (f x # seen) xs)"

section \<open>Python indexing\<close>

lemma py_index_nonneg [simp]:
  "0 \<le> i \<Longrightarrow> nat i < length xs \<Longrightarrow> py_index xs i = Some (xs ! nat i)"
  by (auto simp: py_index_def)

lemma py_index_minus_one [simp]:
  "xs \<noteq> [] \<Longrightarrow> py_index xs (-1) = Some (last xs)"
  by (cases xs rule: rev_cases) (simp_all add: py_index_def nth_append)

section \<open>Integer division by its bounds\<close>

text \<open>Python's \<open>//\<close> and \<open>%\<close> on integers are \<open>div\<close> and \<open>mod\<close>; these pin them down
  from bounds on the dividend, for the calendar and clock arithmetic.\<close>

lemma div_by_bounds:
  fixes x k a :: int
  assumes "k * a \<le> x" "x < k * a + k"
  shows "x div k = a"
  using int_div_pos_eq [of x k a "x - k * a"] assms by simp

lemma mod_by_bounds:
  fixes x k a t :: int
  assumes "x = k * a + t" "0 \<le> t" "t < k"
  shows "x mod k = t"
proof -
  have "x div k = a" using assms by (intro div_by_bounds) simp_all
  then show ?thesis using assms(1) by (metis add_diff_cancel_left' minus_div_mult_eq_mod mult.commute)
qed

section \<open>Maximum of a non-empty list\<close>

lemma list_max_ge: "x \<in> set xs \<Longrightarrow> x \<le> list_max xs"
  by (induction xs rule: list_max.induct) auto

lemma list_max_in: "xs \<noteq> [] \<Longrightarrow> list_max xs \<in> set xs"
  by (induction xs rule: list_max.induct) (auto simp: max_def)

lemma list_max_Max: "xs \<noteq> [] \<Longrightarrow> list_max xs = Max (set xs)"
  by (rule Max_eqI [symmetric]) (auto simp: list_max_ge list_max_in)

lemma list_max_sorted_last:
  "sorted xs \<Longrightarrow> xs \<noteq> [] \<Longrightarrow> list_max xs = last xs"
  by (induction xs rule: list_max.induct) (auto simp: max_def)

section \<open>De-duplication by key, keeping the first occurrence\<close>

lemma set_dedup_by: "set (dedup_by f seen xs) \<subseteq> set xs"
  by (induction xs arbitrary: seen) auto

lemma keys_dedup_by:
  "f ` set (dedup_by f seen xs) = f ` set xs - set seen"
  by (induction xs arbitrary: seen) auto

lemma distinct_dedup_by:
  "distinct (map f (dedup_by f seen xs))"
proof (induction xs arbitrary: seen)
  case Nil
  then show ?case by simp
next
  case (Cons x xs)
  have "f x \<notin> f ` set (dedup_by f (f x # seen) xs)"
    by (simp add: keys_dedup_by)
  with Cons.IH show ?case by auto
qed

lemma dedup_by_distinct_id:
  "distinct (map f xs) \<Longrightarrow> set seen \<inter> f ` set xs = {} \<Longrightarrow> dedup_by f seen xs = xs"
  by (induction xs arbitrary: seen) auto

lemma dedup_by_seen_cong:
  "set s1 = set s2 \<Longrightarrow> dedup_by f s1 xs = dedup_by f s2 xs"
proof (induction xs arbitrary: s1 s2)
  case Nil
  then show ?case by simp
next
  case (Cons x xs)
  have "dedup_by f (f x # s1) xs = dedup_by f (f x # s2) xs"
    using Cons.prems by (intro Cons.IH) simp
  moreover have "dedup_by f s1 xs = dedup_by f s2 xs"
    using Cons.prems by (rule Cons.IH)
  ultimately show ?case using Cons.prems by simp
qed

text \<open>Concatenated tables are de-duplicated block by block: the second block only
  loses the keys the first one already holds.\<close>

lemma dedup_by_append:
  "dedup_by f seen (xs @ ys) = dedup_by f seen xs @ dedup_by f (map f xs @ seen) ys"
proof (induction xs arbitrary: seen)
  case Nil
  then show ?case by simp
next
  case (Cons x xs)
  show ?case
  proof (cases "f x \<in> set seen")
    case True
    have "dedup_by f (map f xs @ seen) ys = dedup_by f (map f (x # xs) @ seen) ys"
      using True by (intro dedup_by_seen_cong) auto
    with True Cons.IH show ?thesis by simp
  next
    case False
    have "dedup_by f (map f xs @ f x # seen) ys = dedup_by f (map f (x # xs) @ seen) ys"
      by (intro dedup_by_seen_cong) auto
    with False Cons.IH [of "f x # seen"] show ?thesis by simp
  qed
qed

lemma length_duplicated_by: "length (duplicated_by f seen xs) = length xs"
  by (induction xs arbitrary: seen) auto

lemma count_duplicated_by:
  "length (filter id (duplicated_by f seen xs)) + length (dedup_by f seen xs) = length xs"
  by (induction xs arbitrary: seen) auto

section \<open>Sorting by key\<close>

lemma strict_sorted_sort_key:
  "distinct (map f xs) \<Longrightarrow> sorted_wrt (<) (map f (sort_key f xs))"
  by (simp add: strict_sorted_iff sorted_sort_key distinct_map)

lemma sort_key_eq_Nil_iff [simp]: "sort_key f xs = [] \<longleftrightarrow> xs = []"
  by (metis length_0_conv length_sort)

lemma set_sort_key [simp]: "set (sort_key f xs) = set xs"
  by (simp add: set_sort)

lemma distinct_map_sort_key [simp]:
  "distinct (map f (sort_key f xs)) = distinct (map f xs)"
  by (metis card_distinct distinct_card length_map length_sort set_map set_sort)

text \<open>Counting rows with a property does not depend on the order of the rows.\<close>

lemma length_filter_sort_key [simp]: "length (filter P (sort_key f xs)) = length (filter P xs)"
  by (metis mset_filter mset_sort size_mset)

lemma sort_key_strict_sorted_id:
  "sorted_wrt (<) (map f xs) \<Longrightarrow> sort_key f xs = xs"
  by (simp add: strict_sorted_iff sort_key_id_if_sorted)

end
