(* ===== verification/Candle.thy ===== *)
theory Candle
  imports Prelude
begin

text \<open>
  The candle table shared by every stage of the pipeline (spec section 3): one row per
  hourly bucket with its UTC timestamp and OHLCV values. Timestamps are Python \<open>int\<close>
  milliseconds since the epoch, as \<open>download_ohlcv.py\<close> handles them
  (\<open>ts_ms\<close>, \<open>since_ms\<close>); pandas' \<open>Timestamp\<close> column is the same instant.
  Prices and volumes are float64 in the code and \<open>real\<close> here. The theory also holds
  the hourly time grid of \<open>pd.date_range(start, end, freq="1h")\<close>, the key-lookup of
  \<open>reindex\<close>, and the exceptions the stages raise.
\<close>

section \<open>Definitions\<close>

record candle =
  timestamp_utc :: int
  open_price :: real
  high :: real
  low :: real
  close :: real
  volume :: real

type_synonym table = "candle list"

text \<open>Exceptions raised by the pipeline's stages, one constructor per \<open>raise\<close> site.\<close>

datatype error =
    UnknownExchange         \<comment> \<open>\<open>_make_exchange\<close>: no such ccxt class\<close>
  | RawFileMissing          \<comment> \<open>\<open>fix_gaps.main\<close>, \<open>make_features.main\<close>, \<open>validate\<close>: no file\<close>
  | EmptyData               \<comment> \<open>\<open>validate\<close>: the file holds no rows\<close>
  | NaTRange                \<comment> \<open>\<open>pd.date_range(NaT, NaT)\<close> on an empty table: ValueError\<close>
  | DuplicateLabels         \<comment> \<open>\<open>reindex\<close> on duplicate timestamps: ValueError\<close>
  | IndexOutOfRange         \<comment> \<open>\<open>iloc\<close> out of range: IndexError\<close>
  | TokenMissing            \<comment> \<open>\<open>require_telegram_token\<close>: RuntimeError\<close>
  | TokenInvalid            \<comment> \<open>\<open>aiogram.Bot(token=...)\<close>: TokenValidationError\<close>

definition hour_ms :: int where
  "hour_ms = 3600000"

text \<open>The validity of one candle, spec section 3: positive prices, non-negative
  volume, \<open>high \<ge> max(open, close)\<close> and \<open>low \<le> min(open, close)\<close>.\<close>

definition candle_valid :: "candle \<Rightarrow> bool" where
  "candle_valid r \<longleftrightarrow>
     0 < open_price r \<and> 0 < high r \<and> 0 < low r \<and> 0 < close r \<and> 0 \<le> volume r \<and>
     max (open_price r) (close r) \<le> high r \<and> low r \<le> min (open_price r) (close r)"

text \<open>
  The table invariant of spec section 3: timestamps strictly increasing, hence unique
  and sorted.
\<close>

definition wf_table :: "table \<Rightarrow> bool" where
  "wf_table t \<longleftrightarrow> sorted_wrt (<) (map timestamp_utc t)"

text \<open>
  \<open>df.sort_values("timestamp_utc")\<close>. pandas' default sort is not stable, but every
  use below either sorts a table with unique timestamps or only counts its rows, where
  any sorting order gives the same result; the stable \<open>sort_key\<close> stands for it.
\<close>

abbreviation sort_by_ts :: "table \<Rightarrow> table" where
  "sort_by_ts t \<equiv> sort_key timestamp_utc t"

text \<open>The span of a table: its first and last timestamp, as \<open>min()\<close>/\<open>max()\<close> compute them.\<close>

abbreviation ts_min :: "table \<Rightarrow> int" where
  "ts_min t \<equiv> Min (timestamp_utc ` set t)"

abbreviation ts_max :: "table \<Rightarrow> int" where
  "ts_max t \<equiv> Max (timestamp_utc ` set t)"

text \<open>\<open>df.set_index("timestamp_utc")\<close> looked up at one label, as \<open>reindex\<close> does.\<close>

definition lookup_ts :: "table \<Rightarrow> int \<Rightarrow> candle option" where
  "lookup_ts t g = find (\<lambda>r. timestamp_utc r = g) t"

text \<open>
  \<open>pd.date_range(start, end, freq="1h", tz="UTC")\<close>: every instant
  \<open>start + k hours\<close> up to \<open>end\<close>, inclusive; empty when \<open>end < start\<close>.
\<close>

definition grid_count :: "int \<Rightarrow> int \<Rightarrow> nat" where
  "grid_count start stop = nat ((stop - start) div hour_ms) + 1"

definition date_range :: "int \<Rightarrow> int \<Rightarrow> int list" where
  "date_range start stop =
     (if stop < start then []
      else map (\<lambda>k. start + int k * hour_ms) [0..<grid_count start stop])"

text \<open>
  A list of timestamps on an unbroken hourly grid: each one exactly one hour after the
  one before. This is the postcondition of the gap regularizer (spec section 4.2) and
  the precondition of the feature engine (section 4.3).
\<close>

fun is_hourly :: "int list \<Rightarrow> bool" where
  "is_hourly (a # b # xs) \<longleftrightarrow> b = a + hour_ms \<and> is_hourly (b # xs)"
| "is_hourly _ \<longleftrightarrow> True"

text \<open>
  The example scenario of spec section 8: hourly candles from 2024-01-01T00:00Z
  (\<open>1704067200000\<close> ms) to 05:00Z with the 02:00 and 03:00 rows missing, closes
  100, 101, 104, 105. Open, high, low and volume are chosen consistent with them.
\<close>

definition spec_example_raw :: table where
  "spec_example_raw = [
    \<lparr>timestamp_utc = 1704067200000, open_price = 100, high = 101, low = 99, close = 100, volume = 10\<rparr>,
    \<lparr>timestamp_utc = 1704070800000, open_price = 100, high = 102, low = 99, close = 101, volume = 12\<rparr>,
    \<lparr>timestamp_utc = 1704081600000, open_price = 101, high = 105, low = 100, close = 104, volume = 9\<rparr>,
    \<lparr>timestamp_utc = 1704085200000, open_price = 104, high = 106, low = 103, close = 105, volume = 11\<rparr>]"

text \<open>The same table after regularization, as spec section 8 states it.\<close>

definition spec_example_fixed :: table where
  "spec_example_fixed = [
    \<lparr>timestamp_utc = 1704067200000, open_price = 100, high = 101, low = 99, close = 100, volume = 10\<rparr>,
    \<lparr>timestamp_utc = 1704070800000, open_price = 100, high = 102, low = 99, close = 101, volume = 12\<rparr>,
    \<lparr>timestamp_utc = 1704074400000, open_price = 101, high = 101, low = 101, close = 101, volume = 0\<rparr>,
    \<lparr>timestamp_utc = 1704078000000, open_price = 101, high = 101, low = 101, close = 101, volume = 0\<rparr>,
    \<lparr>timestamp_utc = 1704081600000, open_price = 101, high = 105, low = 100, close = 104, volume = 9\<rparr>,
    \<lparr>timestamp_utc = 1704085200000, open_price = 104, high = 106, low = 103, close = 105, volume = 11\<rparr>]"

text \<open>A row half an hour after the first one, off the hourly grid.\<close>

definition half_hour_row :: candle where
  "half_hour_row =
     \<lparr>timestamp_utc = 1704069000000, open_price = 100, high = 101, low = 99, close = 100.5, volume = 3\<rparr>"

section \<open>Rows and tables\<close>

lemma hour_ms_pos [simp]: "0 < hour_ms"
  by (simp add: hour_ms_def)

lemma hour_ms_nonneg [simp]: "0 \<le> hour_ms"
  by (simp add: hour_ms_def)

lemma hour_ms_nonzero [simp]: "hour_ms \<noteq> 0"
  by (simp add: hour_ms_def)

lemma wf_table_sort_by_ts:
  "distinct (map timestamp_utc t) \<Longrightarrow> wf_table (sort_by_ts t)"
  by (simp add: wf_table_def strict_sorted_sort_key)

lemma wf_table_distinct: "wf_table t \<Longrightarrow> distinct (map timestamp_utc t)"
  by (simp add: wf_table_def strict_sorted_iff)

lemma wf_table_sorted_id: "wf_table t \<Longrightarrow> sort_by_ts t = t"
  by (simp add: wf_table_def sort_key_strict_sorted_id)

lemma wf_table_hd_Min:
  assumes "wf_table t" "t \<noteq> []"
  shows "timestamp_utc (hd t) = Min (timestamp_utc ` set t)"
proof (rule Min_eqI [symmetric])
  fix y assume "y \<in> timestamp_utc ` set t"
  with assms show "timestamp_utc (hd t) \<le> y"
    by (cases t) (auto simp: wf_table_def)
qed (use assms in auto)

lemma wf_table_last_Max:
  assumes "wf_table t" "t \<noteq> []"
  shows "timestamp_utc (last t) = Max (timestamp_utc ` set t)"
proof (rule Max_eqI [symmetric])
  fix y assume "y \<in> timestamp_utc ` set t"
  with assms show "y \<le> timestamp_utc (last t)"
    by (cases t rule: rev_cases) (auto simp: wf_table_def sorted_wrt_append)
qed (use assms in auto)

lemma lookup_ts_Some: "lookup_ts t g = Some r \<Longrightarrow> r \<in> set t \<and> timestamp_utc r = g"
  by (auto simp: lookup_ts_def find_Some_iff)

lemma lookup_ts_None: "lookup_ts t g = None \<longleftrightarrow> g \<notin> timestamp_utc ` set t"
  by (auto simp: lookup_ts_def find_None_iff)

lemma lookup_ts_distinct:
  "distinct (map timestamp_utc t) \<Longrightarrow> r \<in> set t \<Longrightarrow> lookup_ts t (timestamp_utc r) = Some r"
  by (induction t) (auto simp: lookup_ts_def)

section \<open>The hourly grid\<close>

lemma length_date_range:
  "length (date_range a b) = (if b < a then 0 else grid_count a b)"
  by (simp add: date_range_def)

lemma grid_count_pos: "0 < grid_count a b"
  by (simp add: grid_count_def)

lemma nth_date_range:
  "k < length (date_range a b) \<Longrightarrow> date_range a b ! k = a + int k * hour_ms"
  by (simp add: date_range_def split: if_splits)

lemma date_range_eq_Nil_iff [simp]: "date_range a b = [] \<longleftrightarrow> b < a"
  using grid_count_pos [of a b] by (simp add: date_range_def)

lemma hd_date_range: "a \<le> b \<Longrightarrow> hd (date_range a b) = a"
  using nth_date_range [of 0 a b] by (simp add: hd_conv_nth length_date_range grid_count_pos)

lemma strict_sorted_date_range: "sorted_wrt (<) (date_range a b)"
  by (auto simp: sorted_wrt_iff_nth_less nth_date_range length_date_range split: if_splits)

lemma distinct_date_range: "distinct (date_range a b)"
  using strict_sorted_date_range strict_sorted_iff by blast

lemma less_grid_count_iff:
  assumes "a \<le> b"
  shows "k < grid_count a b \<longleftrightarrow> int k \<le> (b - a) div hour_ms"
proof -
  have "0 \<le> (b - a) div hour_ms"
    using assms by (simp add: pos_imp_zdiv_nonneg_iff)
  then show ?thesis by (simp add: grid_count_def less_Suc_eq_le le_nat_iff)
qed

lemma in_date_range_iff:
  "g \<in> set (date_range a b) \<longleftrightarrow> a \<le> g \<and> g \<le> b \<and> hour_ms dvd (g - a)"
proof
  assume "g \<in> set (date_range a b)"
  then obtain k where k: "int k \<le> (b - a) div hour_ms" "g = a + int k * hour_ms" "a \<le> b"
    by (auto simp: date_range_def less_grid_count_iff split: if_splits)
  then have "int k * hour_ms \<le> ((b - a) div hour_ms) * hour_ms"
    by (simp add: mult_right_mono)
  also have "\<dots> \<le> b - a"
    by (simp add: hour_ms_def)
  finally have "int k * hour_ms \<le> b - a" .
  moreover have "0 \<le> int k * hour_ms"
    using hour_ms_pos by (simp add: zero_le_mult_iff)
  ultimately show "a \<le> g \<and> g \<le> b \<and> hour_ms dvd (g - a)"
    using k by simp
next
  assume g: "a \<le> g \<and> g \<le> b \<and> hour_ms dvd (g - a)"
  then obtain q where q: "g - a = hour_ms * q" by (auto elim: dvdE)
  with g have "0 \<le> hour_ms * q" by simp
  then have q0: "0 \<le> q" using hour_ms_pos by (simp add: zero_le_mult_iff)
  have "q = (g - a) div hour_ms"
    using q by simp
  also have "\<dots> \<le> (b - a) div hour_ms"
    using g by (simp add: zdiv_mono1)
  finally have "int (nat q) \<le> (b - a) div hour_ms"
    using q0 by simp
  then have "nat q < grid_count a b"
    using g by (simp add: less_grid_count_iff)
  moreover have "date_range a b = map (\<lambda>k. a + int k * hour_ms) [0..<grid_count a b]"
    using g by (simp add: date_range_def)
  moreover have "g = a + int (nat q) * hour_ms"
    using q q0 by (simp add: algebra_simps)
  ultimately show "g \<in> set (date_range a b)"
    by (metis (no_types, lifting) atLeastLessThan_iff image_eqI list.set_map set_upt zero_le)
qed

section \<open>Hourly tables\<close>

lemma is_hourly_nth:
  "is_hourly xs \<longleftrightarrow> (\<forall>i. Suc i < length xs \<longrightarrow> xs ! Suc i = xs ! i + hour_ms)"
proof (induction xs rule: is_hourly.induct)
  case (1 a b xs)
  then show ?case
    by (auto simp: nth_Cons split: nat.splits)
qed auto

lemma is_hourly_date_range: "is_hourly (date_range a b)"
  by (auto simp: is_hourly_nth nth_date_range length_date_range algebra_simps)

lemma is_hourly_nth_hd:
  "is_hourly xs \<Longrightarrow> i < length xs \<Longrightarrow> xs ! i = hd xs + int i * hour_ms"
proof (induction i)
  case 0
  then show ?case by (simp add: hd_conv_nth)
next
  case (Suc i)
  then have "xs ! Suc i = xs ! i + hour_ms"
    by (simp add: is_hourly_nth)
  with Suc show ?case by (simp add: algebra_simps)
qed

text \<open>An hourly list of timestamps is the grid from its first to its last element.\<close>

lemma is_hourly_eq_date_range:
  assumes "is_hourly xs" "xs \<noteq> []"
  shows "xs = date_range (hd xs) (last xs)"
proof -
  let ?n = "length xs"
  have last: "last xs = hd xs + int (?n - 1) * hour_ms"
    using assms is_hourly_nth_hd [of xs "?n - 1"] by (simp add: last_conv_nth)
  then have le: "hd xs \<le> last xs" by (simp add: zero_le_mult_iff)
  have "grid_count (hd xs) (last xs) = ?n"
    using last assms(2) by (simp add: grid_count_def)
  then have len: "length (date_range (hd xs) (last xs)) = ?n"
    using le by (simp add: length_date_range)
  show ?thesis
    by (rule nth_equalityI) (simp_all add: len nth_date_range is_hourly_nth_hd assms(1))
qed

lemma wf_table_filter: "wf_table t \<Longrightarrow> wf_table (filter P t)"
  by (simp add: wf_table_def sorted_wrt_map sorted_wrt_filter)

lemma last_filter_max:
  assumes "wf_table rs" and "r \<in> set (filter P rs)"
    and "\<forall>x \<in> set (filter P rs). timestamp_utc x \<le> timestamp_utc r"
  shows "last (filter P rs) = r"
proof -
  let ?xs = "filter P rs"
  have wf: "wf_table ?xs" using assms(1) by (rule wf_table_filter)
  have ne: "?xs \<noteq> []" using assms(2) by (metis empty_iff list.set(1))
  have l: "last ?xs \<in> set ?xs" using ne by (rule last_in_set)
  have "timestamp_utc r \<le> timestamp_utc (last ?xs)"
    using wf_table_last_Max [OF wf ne] assms(2) by simp
  with assms(3) l have "timestamp_utc (last ?xs) = timestamp_utc r" by force
  moreover have "inj_on timestamp_utc (set ?xs)"
    using wf_table_distinct [OF wf] by (simp add: distinct_map)
  ultimately show ?thesis using l assms(2) by (meson inj_onD)
qed

end
