(* ===== verification/Config.thy ===== *)
theory Config
  imports Candle "HOL-Library.Sublist"
begin

text \<open>
  The configuration module \<open>src/common/config.py\<close>: \<open>get_settings\<close> reads eight
  environment variables with their defaults and strips them; the \<open>.env\<close> file is
  loaded with \<open>override=True\<close> before, so the environment here is the merged one. The
  files the stages read and write are a store from paths to the table held there
  (\<open>None\<close> when no file exists). Strings are 8-bit character lists; \<open>str.strip\<close>
  removes the ASCII characters \<open>str.isspace\<close> accepts.
\<close>

section \<open>Definitions\<close>

record settings =
  telegram_token :: string
  model_api_url :: string
  symbol :: string
  timeframe :: string
  exchange_name :: string
  data_raw_path :: string
  data_features_path :: string
  tz :: string

type_synonym env = "string \<Rightarrow> string option"

type_synonym store = "string \<Rightarrow> table option"

text \<open>The ASCII characters of \<open>str.isspace\<close>: space, \<open>\t \n \v \f \r\<close> and the
  separators \<open>0x1C\<close>--\<open>0x1F\<close>.\<close>

definition py_whitespace :: "char list" where
  "py_whitespace = [CHR '' '', CHR 0x09, CHR 0x0A, CHR 0x0B, CHR 0x0C, CHR 0x0D,
                    CHR 0x1C, CHR 0x1D, CHR 0x1E, CHR 0x1F]"

definition py_strip :: "string \<Rightarrow> string" where
  "py_strip s = rev (dropWhile (\<lambda>c. c \<in> set py_whitespace) (rev (dropWhile (\<lambda>c. c \<in> set py_whitespace) s)))"

text \<open>\<open>os.getenv(key, default)\<close>: a variable that is set wins, even when empty.\<close>

definition getenv :: "env \<Rightarrow> string \<Rightarrow> string \<Rightarrow> string" where
  "getenv e k d = (case e k of Some v \<Rightarrow> v | None \<Rightarrow> d)"

text \<open>Module load (lines 9--13): \<open>load_dotenv(ENV_PATH, override=True)\<close> copies every
  variable of the \<open>.env\<close> file into \<open>os.environ\<close>, replacing a value already set
  there; the file's variables are given as an environment of their own.\<close>

definition load_dotenv_override :: "env \<Rightarrow> env \<Rightarrow> env" where
  "load_dotenv_override dotenv os_env k = (case dotenv k of Some v \<Rightarrow> Some v | None \<Rightarrow> os_env k)"

definition get_settings :: "env \<Rightarrow> settings" where
  "get_settings e =
     \<lparr>telegram_token = py_strip (getenv e ''TELEGRAM_TOKEN'' ''''),
      model_api_url = py_strip (getenv e ''MODEL_API_URL'' ''http://127.0.0.1:8000''),
      symbol = py_strip (getenv e ''SYMBOL'' ''BTC/USDT''),
      timeframe = py_strip (getenv e ''TIMEFRAME'' ''1h''),
      exchange_name = py_strip (getenv e ''EXCHANGE'' ''binance''),
      data_raw_path = py_strip (getenv e ''DATA_RAW_PATH'' ''data/raw/btcusdt_1h_fixed.parquet''),
      data_features_path = py_strip (getenv e ''DATA_FEATURES_PATH'' ''data/processed/features_1h.parquet''),
      tz = py_strip (getenv e ''TZ'' ''UTC'')\<rparr>"

text \<open>Python's \<open>s.replace(old, new)\<close>: every non-overlapping occurrence, scanned left
  to right; an empty \<open>old\<close> inserts \<open>new\<close> around every character.\<close>

function str_replace :: "string \<Rightarrow> string \<Rightarrow> string \<Rightarrow> string" where
  "str_replace pat rep s =
     (if pat = [] then concat (map (\<lambda>c. rep @ [c]) s) @ rep
      else if s = [] then []
      else if take (length pat) s = pat then rep @ str_replace pat rep (drop (length pat) s)
      else hd s # str_replace pat rep (tl s))"
  by pat_completeness auto
termination
  by (relation "measure (\<lambda>(_, _, s). length s)") auto

text \<open>Python's \<open>p in s\<close> on strings: \<open>p\<close> occurs at some position of \<open>s\<close>.\<close>

fun is_substring :: "string \<Rightarrow> string \<Rightarrow> bool" where
  "is_substring p [] = (p = [])"
| "is_substring p (c # s) = (take (length p) (c # s) = p \<or> is_substring p s)"

text \<open>The placeholder of the \<open>.env\<close> template, the Cyrillic words for "insert token"
  (\<open>VSTAV'_TOKEN\<close> transliterated), as its UTF-8 bytes. Python compares code points;
  on UTF-8 encoded strings a code-point substring is exactly a byte substring.\<close>

definition token_placeholder :: string where
  "token_placeholder =
     [CHR 0xD0, CHR 0x92, CHR 0xD0, CHR 0xA1, CHR 0xD0, CHR 0xA2, CHR 0xD0, CHR 0x90, CHR 0xD0,
      CHR 0x92, CHR 0xD0, CHR 0xAC, CHR 0x5F, CHR 0xD0, CHR 0xA2, CHR 0xD0, CHR 0x9E, CHR 0xD0,
      CHR 0x9A, CHR 0xD0, CHR 0x95, CHR 0xD0, CHR 0x9D]"

text \<open>\<open>require_telegram_token()\<close> (lines 41--48): the stripped \<open>TELEGRAM_TOKEN\<close>, or a
  \<open>RuntimeError\<close> when it is empty or still holds the placeholder.\<close>

definition require_telegram_token :: "env \<Rightarrow> error + string" where
  "require_telegram_token e =
     (let token = py_strip (getenv e ''TELEGRAM_TOKEN'' '''')
      in if token = [] \<or> is_substring token_placeholder token then Inl TokenMissing else Inr token)"

text \<open>The environment with nothing set.\<close>

definition empty_env :: env where
  "empty_env k = None"

declare str_replace.simps [simp del]

section \<open>Lemmas\<close>

lemma default_paths:
  "data_raw_path (get_settings empty_env) = ''data/raw/btcusdt_1h_fixed.parquet'' \<and>
   timeframe (get_settings empty_env) = ''1h'' \<and>
   exchange_name (get_settings empty_env) = ''binance''"
  by (simp add: get_settings_def getenv_def empty_env_def py_strip_def py_whitespace_def)

text \<open>\<open>str.strip\<close> removes exactly a whitespace prefix and a whitespace suffix: a
  value is its stripped text padded on both sides, and padding a text that starts and
  ends with non-whitespace is undone by the strip.\<close>

lemma py_strip_split:
  "\<exists>ws1 ws2. s = ws1 @ py_strip s @ ws2 \<and> list_all (\<lambda>c. c \<in> set py_whitespace) (ws1 @ ws2)"
proof -
  let ?P = "\<lambda>c. c \<in> set py_whitespace"
  let ?u = "dropWhile ?P s"
  have s: "s = takeWhile ?P s @ ?u" by simp
  have "rev ?u = takeWhile ?P (rev ?u) @ dropWhile ?P (rev ?u)" by simp
  then have u: "?u = py_strip s @ rev (takeWhile ?P (rev ?u))"
    by (metis py_strip_def rev_append rev_rev_ident)
  have "list_all ?P (takeWhile ?P s @ rev (takeWhile ?P (rev ?u)))"
    by (auto simp: list_all_iff dest: set_takeWhileD)
  then show ?thesis using s u by (metis append.assoc)
qed

lemma py_strip_pad:
  assumes "list_all (\<lambda>c. c \<in> set py_whitespace) (ws1 @ ws2)" "t \<noteq> []"
    and "hd t \<notin> set py_whitespace" "last t \<notin> set py_whitespace"
  shows "py_strip (ws1 @ t @ ws2) = t"
proof -
  let ?P = "\<lambda>c. c \<in> set py_whitespace"
  have "dropWhile ?P (ws1 @ t @ ws2) = t @ ws2"
    using assms by (cases t) (auto simp: list_all_iff dropWhile_append2)
  moreover have "dropWhile ?P (rev (t @ ws2)) = rev t"
  proof -
    have "rev t \<noteq> []" "hd (rev t) \<notin> set py_whitespace" using assms by (simp_all add: hd_rev)
    then have "dropWhile ?P (rev t) = rev t" by (cases "rev t") simp_all
    moreover have "\<forall>x\<in>set (rev ws2). ?P x" using assms(1) by (simp add: list_all_iff)
    ultimately show ?thesis by (subst rev_append, subst dropWhile_append2) auto
  qed
  ultimately show ?thesis by (simp add: py_strip_def)
qed

text \<open>A variable of the \<open>.env\<close> file wins over the process environment; one the file
  does not set is read from the process environment.\<close>

lemma getenv_load_dotenv:
  "getenv (load_dotenv_override dotenv os_env) k d =
     (case dotenv k of Some v \<Rightarrow> v | None \<Rightarrow> getenv os_env k d)"
  by (simp add: getenv_def load_dotenv_override_def split: option.splits)

lemma is_substring_sublist: "is_substring p s \<longleftrightarrow> sublist p s"
proof (induction s)
  case Nil
  then show ?case by simp
next
  case (Cons c s)
  have "take (length p) (c # s) = p \<longleftrightarrow> prefix p (c # s)"
  proof
    assume "take (length p) (c # s) = p"
    then show "prefix p (c # s)" using take_is_prefix [of "length p" "c # s"] by simp
  next
    assume "prefix p (c # s)"
    then obtain zs where "c # s = p @ zs" by (auto simp: prefix_def)
    then show "take (length p) (c # s) = p" by simp
  qed
  then show ?case using Cons by (simp add: sublist_Cons_right)
qed

text \<open>Replacing a pattern by a longer one never shortens the string, and it changes
  every string in which the pattern occurs.\<close>

lemma length_str_replace:
  "pat \<noteq> [] \<Longrightarrow> length pat \<le> length rep \<Longrightarrow> length s \<le> length (str_replace pat rep s)"
proof (induction pat rep s rule: str_replace.induct)
  case (1 pat rep s)
  show ?case
  proof (cases "s = []")
    case False
    show ?thesis
    proof (cases "take (length pat) s = pat")
      case True
      have "length (drop (length pat) s) \<le> length (str_replace pat rep (drop (length pat) s))"
        using "1.IH"(1) "1.prems" False True by blast
      with True False "1.prems" show ?thesis by (subst str_replace.simps) simp
    next
      case nt: False
      have "length (tl s) \<le> length (str_replace pat rep (tl s))"
        using "1.IH"(2) "1.prems" False nt by blast
      with nt False "1.prems" show ?thesis by (subst str_replace.simps) (simp add: length_tl)
    qed
  qed (simp add: str_replace.simps "1.prems")
qed

lemma str_replace_grows:
  "pat \<noteq> [] \<Longrightarrow> length pat < length rep \<Longrightarrow> take (length pat) (drop i s) = pat \<Longrightarrow>
   str_replace pat rep s \<noteq> s"
proof (induction pat rep s arbitrary: i rule: str_replace.induct)
  case (1 pat rep s)
  have ne: "s \<noteq> []" using "1.prems" by auto
  show ?case
  proof (cases "take (length pat) s = pat")
    case True
    have "length (drop (length pat) s) \<le> length (str_replace pat rep (drop (length pat) s))"
      using "1.prems" by (intro length_str_replace) simp_all
    then have "length s < length (str_replace pat rep s)"
      using True ne "1.prems" by (subst str_replace.simps) simp
    then show ?thesis by auto
  next
    case False
    then have "i \<noteq> 0" using "1.prems" by (cases i) auto
    then have "take (length pat) (drop (i - 1) (tl s)) = pat"
      using "1.prems" by (cases s) (simp_all add: drop_Cons')
    then have "str_replace pat rep (tl s) \<noteq> tl s" using "1.IH"(2) "1.prems" ne False by blast
    then show ?thesis using False ne "1.prems" by (subst str_replace.simps) (metis list.collapse list.inject)
  qed
qed

text \<open>A \<open>.env\<close> file still holding the template's placeholder token makes the bot
  refuse to start even when the shell exports a real token: the file overrides it.\<close>

lemma dotenv_placeholder_shadows_token:
  assumes "dotenv ''TELEGRAM_TOKEN'' = Some token_placeholder"
  shows "require_telegram_token (load_dotenv_override dotenv os_env) = Inl TokenMissing"
proof -
  have "py_strip token_placeholder = token_placeholder"
    by (simp add: py_strip_def token_placeholder_def py_whitespace_def)
  moreover have "is_substring token_placeholder token_placeholder"
    by (simp add: is_substring_sublist)
  ultimately show ?thesis
    using assms by (simp add: require_telegram_token_def getenv_load_dotenv)
qed

end
