(* ===== verification/PandasSeries.thy ===== *)
theory PandasSeries
  imports Prelude
begin

text \<open>
  The pandas \<open>Series\<close> operations that \<open>src/data_pipeline/make_features.py\<close> and
  \<open>src/bot/services/indicators.py\<close> build their columns from. A float column is a
  \<open>real option list\<close>, \<open>None\<close> standing for NaN; a NaN-free column is a
  \<open>real list\<close>. Each operation is written as pandas computes it on a default
  \<open>RangeIndex\<close>: \<open>diff()\<close>, \<open>shift(k)\<close>, \<open>clip(lower=0)\<close>, \<open>rolling(w)\<close> with
  its default \<open>min_periods = w\<close>, \<open>mean()\<close>, \<open>std()\<close> (\<open>ddof = 1\<close>), and
  \<open>ewm(span, adjust=False).mean()\<close>. A transformer is \<^emph>\<open>causal\<close> when its value at a
  row depends only on that row and the rows before it: it commutes with \<open>take\<close>.
\<close>

section \<open>Definitions\<close>

type_synonym series = "real option list"

text \<open>A binary float operation on two columns: NaN if either operand is NaN.\<close>

definition lift2 :: "(real \<Rightarrow> real \<Rightarrow> real) \<Rightarrow> real option \<Rightarrow> real option \<Rightarrow> real option" where
  "lift2 f a b = (case (a, b) of (Some x, Some y) \<Rightarrow> Some (f x y) | _ \<Rightarrow> None)"

text \<open>\<open>s.diff()\<close>: \<open>s[i] - s[i-1]\<close>, NaN at row 0.\<close>

definition pdiff :: "series \<Rightarrow> series" where
  "pdiff xs = (case xs of [] \<Rightarrow> [] | _ # ys \<Rightarrow> None # map2 (lift2 (\<lambda>a b. b - a)) xs ys)"

text \<open>\<open>s.shift(k)\<close>: moves the values \<open>k\<close> rows down (\<open>k \<ge> 0\<close>) or \<open>-k\<close> rows up,
  filling with NaN and keeping the length.\<close>

definition shift :: "int \<Rightarrow> 'a option list \<Rightarrow> 'a option list" where
  "shift k xs =
     (if 0 \<le> k then take (length xs) (replicate (nat k) None @ xs)
      else drop (nat (- k)) xs @ replicate (min (length xs) (nat (- k))) None)"

text \<open>\<open>s.clip(lower=0)\<close>: NaN stays NaN.\<close>

definition clip_lower0 :: "series \<Rightarrow> series" where
  "clip_lower0 xs = map (map_option (\<lambda>x. max x 0)) xs"

text \<open>The trailing window of \<open>rolling(w)\<close> at row \<open>i\<close>: the rows \<open>i - w + 1 .. i\<close> when all
  of them exist and none is NaN (\<open>min_periods = w\<close>), else nothing.\<close>

definition window :: "nat \<Rightarrow> series \<Rightarrow> nat \<Rightarrow> real list option" where
  "window w xs i =
     (if w \<le> Suc i \<and> i < length xs \<and> list_all (\<lambda>x. x \<noteq> None) (take w (drop (Suc i - w) xs))
      then Some (map the (take w (drop (Suc i - w) xs)))
      else None)"

text \<open>\<open>s.rolling(w).agg(f)\<close>: \<open>f\<close> of each complete window, NaN elsewhere.\<close>

definition rolling :: "nat \<Rightarrow> (real list \<Rightarrow> real option) \<Rightarrow> series \<Rightarrow> series" where
  "rolling w f xs = map (\<lambda>i. Option.bind (window w xs i) f) [0..<length xs]"

definition list_mean :: "real list \<Rightarrow> real" where
  "list_mean xs = sum_list xs / real (length xs)"

text \<open>pandas' \<open>std()\<close> with \<open>ddof = 1\<close>: NaN for fewer than two values.\<close>

definition sample_std :: "real list \<Rightarrow> real option" where
  "sample_std xs =
     (if length xs \<le> 1 then None
      else Some (sqrt (sum_list (map (\<lambda>x. (x - list_mean xs)\<^sup>2) xs) / real (length xs - 1))))"

text \<open>numpy's \<open>np.std\<close> with its default \<open>ddof = 0\<close>.\<close>

definition pop_std :: "real list \<Rightarrow> real" where
  "pop_std xs = sqrt (sum_list (map (\<lambda>x. (x - list_mean xs)\<^sup>2) xs) / real (length xs))"

definition rolling_mean :: "nat \<Rightarrow> series \<Rightarrow> series" where
  "rolling_mean w xs = rolling w (\<lambda>v. Some (list_mean v)) xs"

definition rolling_std :: "nat \<Rightarrow> series \<Rightarrow> series" where
  "rolling_std w xs = rolling w sample_std xs"

text \<open>\<open>ewm(span=s, adjust=False).mean()\<close> on a NaN-free column: \<open>y\<^sub>0 = x\<^sub>0\<close>,
  \<open>y\<^sub>t = (1 - \<alpha>) y\<^sub>t\<^sub>-\<^sub>1 + \<alpha> x\<^sub>t\<close> with \<open>\<alpha> = 2 / (s + 1)\<close>.\<close>

definition ewm_alpha :: "nat \<Rightarrow> real" where
  "ewm_alpha s = 2 / (real s + 1)"

fun ewm_from :: "real \<Rightarrow> real \<Rightarrow> real list \<Rightarrow> real list" where
  "ewm_from a y [] = []"
| "ewm_from a y (x # xs) = (let y' = (1 - a) * y + a * x in y' # ewm_from a y' xs)"

definition ewm_mean :: "nat \<Rightarrow> real list \<Rightarrow> real list" where
  "ewm_mean s xs = (case xs of [] \<Rightarrow> [] | x # rest \<Rightarrow> x # ewm_from (ewm_alpha s) x rest)"

text \<open>Causality: the value at each row is a function of the rows up to it.\<close>

definition causal :: "('a list \<Rightarrow> 'b list) \<Rightarrow> bool" where
  "causal F \<longleftrightarrow> (\<forall>k xs. F (take k xs) = take k (F xs))"

section \<open>Lengths and rows\<close>

lemma length_pdiff [simp]: "length (pdiff xs) = length xs"
  by (cases xs) (simp_all add: pdiff_def)

lemma length_shift [simp]: "length (shift k xs) = length xs"
  by (simp add: shift_def min_def)

lemma length_rolling [simp]: "length (rolling w f xs) = length xs"
  by (simp add: rolling_def)

lemma length_ewm_from [simp]: "length (ewm_from a y xs) = length xs"
  by (induction xs arbitrary: y) (simp_all add: Let_def)

lemma length_ewm_mean [simp]: "length (ewm_mean s xs) = length xs"
  by (simp add: ewm_mean_def split: list.splits)

lemma length_clip_lower0 [simp]: "length (clip_lower0 xs) = length xs"
  by (simp add: clip_lower0_def)

lemma length_rolling_mean [simp]: "length (rolling_mean w xs) = length xs"
  by (simp add: rolling_mean_def)

lemma length_rolling_std [simp]: "length (rolling_std w xs) = length xs"
  by (simp add: rolling_std_def)

lemma nth_rolling:
  "i < length xs \<Longrightarrow> rolling w f xs ! i = Option.bind (window w xs i) f"
  by (simp add: rolling_def)

lemma nth_pdiff:
  "i < length xs \<Longrightarrow>
   pdiff xs ! i = (if i = 0 then None else lift2 (\<lambda>a b. b - a) (xs ! (i - 1)) (xs ! i))"
  by (cases xs) (auto simp: pdiff_def nth_Cons split: nat.splits)

lemma nth_shift_nonneg:
  "0 \<le> k \<Longrightarrow> i < length xs \<Longrightarrow>
   shift k xs ! i = (if i < nat k then None else xs ! (i - nat k))"
  by (auto simp: shift_def nth_append)

lemma nth_shift_neg:
  "k < 0 \<Longrightarrow> i < length xs \<Longrightarrow>
   shift k xs ! i = (if i + nat (- k) < length xs then xs ! (i + nat (- k)) else None)"
  by (auto simp: shift_def nth_append add.commute intro!: nth_replicate)

lemma window_short: "Suc i < w \<Longrightarrow> window w xs i = None"
  by (simp add: window_def)

lemma rolling_short:
  "i < length xs \<Longrightarrow> Suc i < w \<Longrightarrow> rolling w f xs ! i = None"
  by (simp add: nth_rolling window_short)

text \<open>The values of a complete window are values of the column.\<close>

lemma window_Some_set:
  assumes "window w xs i = Some v" and "x \<in> set v"
  shows "Some x \<in> set xs"
proof -
  let ?ys = "take w (drop (Suc i - w) xs)"
  have v: "v = map the ?ys" and nn: "list_all (\<lambda>x. x \<noteq> None) ?ys"
    using assms(1) by (auto simp: window_def split: if_splits)
  obtain y where y: "y \<in> set ?ys" "x = the y" using assms(2) v by auto
  then have "y = Some x" using nn by (auto simp: list_all_iff)
  with y(1) show ?thesis by (meson in_set_dropD in_set_takeD)
qed

lemma rolling_mean_nonneg:
  assumes "\<forall>y \<in> set xs. \<forall>x. y = Some x \<longrightarrow> 0 \<le> x"
    and "i < length xs" and "rolling_mean w xs ! i = Some m"
  shows "0 \<le> m"
proof -
  obtain v where v: "window w xs i = Some v" "m = list_mean v"
    using assms(2,3) by (auto simp: rolling_mean_def nth_rolling split: Option.bind_splits)
  have "\<forall>x \<in> set v. 0 \<le> x" using assms(1) window_Some_set [OF v(1)] by blast
  then show ?thesis by (simp add: v(2) list_mean_def sum_list_nonneg)
qed

section \<open>Causality\<close>

text \<open>A length-preserving transformer whose value at row \<open>i\<close> is already determined
  by the first \<open>i + 1\<close> rows is causal.\<close>

lemma causal_prefixI:
  assumes len: "\<And>xs. length (F xs) = length xs"
    and loc: "\<And>xs i. i < length xs \<Longrightarrow> F xs ! i = F (take (Suc i) xs) ! i"
  shows "causal F"
  unfolding causal_def
proof (intro allI nth_equalityI)
  fix k xs
  show "length (F (take k xs)) = length (take k (F xs))" by (simp add: len)
  fix i assume "i < length (F (take k xs))"
  then have i: "i < k" "i < length xs" by (simp_all add: len)
  have "F (take k xs) ! i = F (take (Suc i) (take k xs)) ! i"
    using i by (intro loc) simp
  also have "take (Suc i) (take k xs) = take (Suc i) xs"
    using i by (simp add: min_absorb1)
  also have "F (take (Suc i) xs) ! i = F xs ! i"
    using i by (simp add: loc [symmetric])
  finally show "F (take k xs) ! i = take k (F xs) ! i"
    using i by simp
qed

lemma causal_take: "causal F \<Longrightarrow> F (take k xs) = take k (F xs)"
  by (simp add: causal_def)

lemma causal_id [causal_intros]: "causal (\<lambda>xs. xs)"
  by (simp add: causal_def)

lemma causal_map: "causal (map f)"
  by (simp add: causal_def take_map)

lemma causal_comp: "causal F \<Longrightarrow> causal G \<Longrightarrow> causal (\<lambda>xs. F (G xs))"
  by (simp add: causal_def)

lemma causal_map2 [causal_intros]:
  "causal F \<Longrightarrow> causal G \<Longrightarrow> causal (\<lambda>xs. map2 f (F xs) (G xs))"
  by (simp add: causal_def take_map take_zip)

lemma causal_pdiff: "causal pdiff"
  by (rule causal_prefixI) (auto simp: nth_pdiff)

lemma causal_shift: "0 \<le> k \<Longrightarrow> causal (shift k)"
  by (rule causal_prefixI) (auto simp: nth_shift_nonneg)

lemma window_prefix:
  "i < length xs \<Longrightarrow> window w xs i = window w (take (Suc i) xs) i"
proof -
  assume i: "i < length xs"
  have "take w (drop (Suc i - w) (take (Suc i) xs)) = take w (drop (Suc i - w) xs)"
    if "w \<le> Suc i" using that by (simp add: drop_take min_def)
  with i show ?thesis by (auto simp: window_def)
qed

lemma causal_rolling: "causal (rolling w f)"
  by (rule causal_prefixI) (auto simp: nth_rolling window_prefix [symmetric])

lemma causal_rolling_mean: "causal (rolling_mean w)"
  using causal_rolling by (simp add: rolling_mean_def [abs_def])

lemma causal_rolling_std: "causal (rolling_std w)"
  using causal_rolling by (simp add: rolling_std_def [abs_def])

lemma ewm_from_take: "ewm_from a y (take k xs) = take k (ewm_from a y xs)"
  by (induction xs arbitrary: y k) (auto simp: Let_def take_Cons split: nat.splits)

lemma causal_ewm_mean: "causal (ewm_mean s)"
  by (auto simp: causal_def ewm_mean_def take_Cons ewm_from_take split: list.splits nat.splits)

lemma causal_clip_lower0: "causal clip_lower0"
  using causal_map by (simp add: clip_lower0_def [abs_def])

text \<open>The rules of \<open>causal_intros\<close> take the operand as a causal transformer, so
  that \<open>intro causal_intros\<close> follows the syntax of a column expression.\<close>

lemma causal_map_o [causal_intros]: "causal F \<Longrightarrow> causal (\<lambda>xs. map f (F xs))"
  by (rule causal_comp [OF causal_map])

lemma causal_pdiff_o [causal_intros]: "causal F \<Longrightarrow> causal (\<lambda>xs. pdiff (F xs))"
  by (rule causal_comp [OF causal_pdiff])

lemma causal_shift_o [causal_intros]: "0 \<le> k \<Longrightarrow> causal F \<Longrightarrow> causal (\<lambda>xs. shift k (F xs))"
  by (rule causal_comp [OF causal_shift])

lemma causal_rolling_o [causal_intros]: "causal F \<Longrightarrow> causal (\<lambda>xs. rolling w f (F xs))"
  by (rule causal_comp [OF causal_rolling])

lemma causal_rolling_mean_o [causal_intros]: "causal F \<Longrightarrow> causal (\<lambda>xs. rolling_mean w (F xs))"
  by (rule causal_comp [OF causal_rolling_mean])

lemma causal_rolling_std_o [causal_intros]: "causal F \<Longrightarrow> causal (\<lambda>xs. rolling_std w (F xs))"
  by (rule causal_comp [OF causal_rolling_std])

lemma causal_ewm_mean_o [causal_intros]: "causal F \<Longrightarrow> causal (\<lambda>xs. ewm_mean s (F xs))"
  by (rule causal_comp [OF causal_ewm_mean])

lemma causal_clip_lower0_o [causal_intros]: "causal F \<Longrightarrow> causal (\<lambda>xs. clip_lower0 (F xs))"
  by (rule causal_comp [OF causal_clip_lower0])

end
