(* ===== verification/Indicators.thy ===== *)
theory Indicators
  imports PandasSeries Candle
begin

text \<open>
  The indicator functions at the top of \<open>src/data_pipeline/make_features.py\<close>
  (lines 13--75): \<open>rsi\<close>, \<open>ema\<close>, \<open>macd\<close>, \<open>atr\<close>, \<open>hurst_simple\<close> and
  \<open>make_time_features\<close>, over the series of \<open>PandasSeries\<close>. The chat bot's
  \<open>src/bot/services/indicators.py\<close> repeats \<open>ema\<close>, \<open>rsi\<close> and \<open>macd\<close> with the
  same bodies. Float64 is idealised as \<open>real\<close>; \<open>np.polyfit(x, y, 1)\<close> is the exact
  least-squares slope.
\<close>

section \<open>Definitions\<close>

text \<open>The \<open>1e-12\<close> guard against division by zero.\<close>

definition eps :: real where
  "eps = 1 / 1000000000000"

text \<open>\<open>rsi(close, period)\<close>: simple rolling means of the clipped gains and losses.\<close>

definition rsi :: "series \<Rightarrow> nat \<Rightarrow> series" where
  "rsi close_s period =
     (let delta = pdiff close_s;
          gain = clip_lower0 delta;
          loss = clip_lower0 (map (map_option uminus) delta);
          avg_gain = rolling_mean period gain;
          avg_loss = rolling_mean period loss;
          rs = map2 (lift2 (\<lambda>g l. g / (l + eps))) avg_gain avg_loss
      in map (map_option (\<lambda>r. 100 - 100 / (1 + r))) rs)"

definition ema :: "real list \<Rightarrow> nat \<Rightarrow> real list" where
  "ema s sp = ewm_mean sp s"

text \<open>\<open>macd(close)\<close>: the MACD line, its signal and the histogram.\<close>

definition macd :: "real list \<Rightarrow> real list \<times> real list \<times> real list" where
  "macd close_s =
     (let fast = ema close_s 12;
          slow = ema close_s 26;
          macd_line = map2 (-) fast slow;
          signal = ema macd_line 9;
          hist = map2 (-) macd_line signal
      in (macd_line, signal, hist))"

text \<open>\<open>DataFrame.max(axis=1)\<close> over a row of floats: NaN entries are skipped
  (\<open>skipna=True\<close>), NaN only when every entry is NaN.\<close>

definition nanmax :: "real option list \<Rightarrow> real option" where
  "nanmax vs = (case [v. Some v \<leftarrow> vs] of [] \<Rightarrow> None | v # rest \<Rightarrow> Some (fold max rest v))"

definition true_range :: "candle \<Rightarrow> real option \<Rightarrow> real option" where
  "true_range r prev_close =
     nanmax [Some (high r - low r),
             map_option (\<lambda>p. \<bar>high r - p\<bar>) prev_close,
             map_option (\<lambda>p. \<bar>low r - p\<bar>) prev_close]"

text \<open>\<open>atr(df, period)\<close>: the rolling mean of the true range against the previous close.\<close>

definition atr :: "table \<Rightarrow> nat \<Rightarrow> series" where
  "atr df period =
     (let prev_close = shift 1 (map (\<lambda>r. Some (close r)) df);
          tr = map2 true_range df prev_close
      in rolling_mean period tr)"

definition hurst_lags :: "nat list" where
  "hurst_lags = [2, 4, 8, 16, 32]"

text \<open>\<open>x[lag:] - x[:-lag]\<close>.\<close>

definition lag_diff :: "nat \<Rightarrow> real list \<Rightarrow> real list" where
  "lag_diff lag x = map2 (-) (drop lag x) (take (length x - lag) x)"

text \<open>The slope of \<open>np.polyfit(x, y, 1)\<close>: the least-squares line through the points.\<close>

definition polyfit_slope :: "real list \<Rightarrow> real list \<Rightarrow> real" where
  "polyfit_slope xs ys =
     (let mx = list_mean xs; my = list_mean ys
      in sum_list (map2 (\<lambda>x y. (x - mx) * (y - my)) xs ys) / sum_list (map (\<lambda>x. (x - mx)\<^sup>2) xs))"

text \<open>Lines 63--64: twice the fitted slope of \<open>log(tau)\<close> against \<open>log(lag)\<close>.\<close>

definition hurst_from_tau :: "real list \<Rightarrow> real" where
  "hurst_from_tau tau = polyfit_slope (map (\<lambda>l. ln (real l)) hurst_lags) (map ln tau) * 2"

text \<open>\<open>hurst_simple(x)\<close>: NaN for fewer than 64 points, for a NaN input, and when a
  lagged dispersion is not positive.\<close>

definition hurst_simple :: "real option list \<Rightarrow> real option" where
  "hurst_simple x =
     (if length x < 64 \<or> list_ex (\<lambda>v. v = None) x then None
      else
        let xs = map the x;
            tau = map (\<lambda>lag. sqrt (pop_std (lag_diff lag xs))) hurst_lags
        in if list_ex (\<lambda>t. t \<le> 0) tau then None else Some (hurst_from_tau tau))"

text \<open>\<open>close.rolling(w).apply(lambda x: hurst_simple(x.values))\<close>.\<close>

definition rolling_hurst :: "nat \<Rightarrow> series \<Rightarrow> series" where
  "rolling_hurst w xs = rolling w (\<lambda>v. hurst_simple (map Some v)) xs"

text \<open>\<open>ts.dt.hour\<close> and \<open>ts.dt.dayofweek\<close> (Monday = 0) of a UTC instant in
  milliseconds; 1970-01-01 was a Thursday.\<close>

definition hour_of :: "int \<Rightarrow> int" where
  "hour_of ts = (ts div 3600000) mod 24"

definition dayofweek :: "int \<Rightarrow> int" where
  "dayofweek ts = (ts div 86400000 + 3) mod 7"

definition make_time_features :: "int list \<Rightarrow> (string \<times> series) list" where
  "make_time_features ts =
     [(''hour_sin'', map (\<lambda>t. Some (sin (2 * pi * real_of_int (hour_of t) / 24))) ts),
      (''hour_cos'', map (\<lambda>t. Some (cos (2 * pi * real_of_int (hour_of t) / 24))) ts),
      (''dow_sin'', map (\<lambda>t. Some (sin (2 * pi * real_of_int (dayofweek t) / 7))) ts),
      (''dow_cos'', map (\<lambda>t. Some (cos (2 * pi * real_of_int (dayofweek t) / 7))) ts)]"

section \<open>Lemmas\<close>

lemma length_rsi [simp]: "length (rsi c p) = length c"
  by (simp add: rsi_def Let_def)

lemma length_atr [simp]: "length (atr df p) = length df"
  by (simp add: atr_def Let_def)

lemma length_rolling_hurst [simp]: "length (rolling_hurst w xs) = length xs"
  by (simp add: rolling_hurst_def)

lemma lag_diff_const:
  assumes "\<forall>v \<in> set xs. v = c" shows "\<forall>d \<in> set (lag_diff l xs). d = 0"
proof
  fix d assume "d \<in> set (lag_diff l xs)"
  then obtain a b where d: "d = a - b" and ab: "a \<in> set xs" "b \<in> set xs"
    by (auto simp: lag_diff_def elim!: in_set_zipE dest!: in_set_dropD in_set_takeD)
  from ab assms have "a = c" "b = c" by blast+
  with d show "d = 0" by simp
qed

lemma pop_std_zeros:
  assumes "\<forall>d \<in> set ds. d = 0" shows "pop_std ds = 0"
proof -
  have "ds = replicate (length ds) 0" using assms by (simp add: replicate_length_same)
  then show ?thesis by (metis (no_types, lifting) list_mean_def pop_std_def diff_zero divide_eq_0_iff
      map_replicate real_sqrt_zero sum_list_replicate mult_zero_right power_zero_numeral)
qed

lemma map2_map_right: "map2 g xs (map f xs) = map (\<lambda>x. g x (f x)) xs"
  by (induction xs) simp_all

lemma sum_list_affine:
  "sum_list (map (\<lambda>x. a + b * x) xs) = real (length xs) * a + b * sum_list xs"
  by (induction xs) (simp_all add: algebra_simps)

lemma list_mean_affine:
  "xs \<noteq> [] \<Longrightarrow> list_mean (map (\<lambda>x. a + b * x) xs) = a + b * list_mean xs"
  unfolding list_mean_def sum_list_affine by (simp add: field_simps)

lemma sum_list_mult_left:
  "sum_list (map (\<lambda>x. b * f x) xs) = (b :: real) * sum_list (map f xs)"
  by (induction xs) (simp_all add: algebra_simps)

lemma polyfit_slope_affine:
  assumes "sum_list (map (\<lambda>x. (x - list_mean xs)\<^sup>2) xs) \<noteq> 0"
  shows "polyfit_slope xs (map (\<lambda>x. a + b * x) xs) = b"
proof -
  have ne: "xs \<noteq> []" using assms by auto
  have "map2 (\<lambda>x y. (x - list_mean xs) * (y - (a + b * list_mean xs))) xs (map (\<lambda>x. a + b * x) xs)
        = map (\<lambda>x. b * (x - list_mean xs)\<^sup>2) xs"
    by (simp add: map2_map_right power2_eq_square algebra_simps)
  then show ?thesis using assms
    by (simp add: polyfit_slope_def list_mean_affine [OF ne] sum_list_mult_left)
qed

lemma ln_hurst_lags:
  "map (\<lambda>l. ln (real l)) hurst_lags = map (\<lambda>k. real k * ln 2) [1, 2, 3, 4, 5]"
  using ln_realpow [of 2 2] ln_realpow [of 2 3] ln_realpow [of 2 4] ln_realpow [of 2 5]
  by (simp add: hurst_lags_def)

lemma hurst_lags_spread:
  "sum_list (map (\<lambda>x. (x - list_mean xs)\<^sup>2) xs) \<noteq> 0"
  if "xs = map (\<lambda>l. ln (real l)) hurst_lags"
  using that by (simp add: ln_hurst_lags list_mean_def power2_eq_square algebra_simps)

lemma nth_ewm_from:
  "t < length xs \<Longrightarrow>
   ewm_from a y xs ! t = (1 - a) ^ Suc t * y + (\<Sum>j<Suc t. a * (1 - a) ^ (t - j) * xs ! j)"
proof (induction xs arbitrary: y t)
  case Nil then show ?case by simp
next
  case (Cons x xs)
  show ?case
  proof (cases t)
    case 0 then show ?thesis by (simp add: Let_def)
  next
    case (Suc t')
    with Cons.prems have "t' < length xs" by simp
    have sh: "(\<Sum>j<Suc (Suc t'). a * (1 - a) ^ (Suc t' - j) * (x # xs) ! j) =
        a * (1 - a) ^ Suc t' * x + (\<Sum>j<Suc t'. a * (1 - a) ^ (t' - j) * xs ! j)"
      by (subst sum.lessThan_Suc_shift) simp
    show ?thesis
      using Cons.IH [OF \<open>t' < length xs\<close>, of "(1 - a) * y + a * x"]
      by (simp add: Suc Let_def sh del: sum.lessThan_Suc) (simp add: algebra_simps)
  qed
qed

lemma causal_rsi: "causal (\<lambda>c. rsi c p)"
  unfolding rsi_def Let_def by (intro causal_intros)

lemma causal_atr: "causal (\<lambda>df. atr df p)"
  unfolding atr_def Let_def by (intro causal_intros) simp_all

lemma causal_macd:
  "causal (\<lambda>c. fst (macd c)) \<and> causal (\<lambda>c. fst (snd (macd c))) \<and> causal (\<lambda>c. snd (snd (macd c)))"
  unfolding macd_def ema_def Let_def by (simp; intro conjI causal_intros)

lemma causal_rolling_hurst: "causal (rolling_hurst w)"
  unfolding rolling_hurst_def by (intro causal_intros)

section \<open>Properties of the indicators\<close>

text \<open>
  C25 (RSI range, spec section 4.3): wherever \<open>rsi_14\<close> is defined its value lies in
  \<open>[0, 100)\<close>: the average gain and loss are means of clipped, non-negative moves and
  the \<open>1e-12\<close> guard keeps the denominator positive.
\<close>

theorem rsi_range:
  assumes "i < length c" and "rsi c p ! i = Some v"
  shows "0 \<le> v \<and> v < 100"
proof -
  have nn: "\<forall>y \<in> set (clip_lower0 xs). \<forall>x. y = Some x \<longrightarrow> 0 \<le> x" for xs
    by (auto simp: clip_lower0_def)
  from assms obtain g l where
      g: "rolling_mean p (clip_lower0 (pdiff c)) ! i = Some g"
    and l: "rolling_mean p (clip_lower0 (map (map_option uminus) (pdiff c))) ! i = Some l"
    and v: "v = 100 - 100 / (1 + g / (l + eps))"
    by (auto simp: rsi_def Let_def lift2_def split: option.splits)
  have "0 \<le> g" by (rule rolling_mean_nonneg [OF nn _ g]) (simp add: assms(1))
  moreover have "0 \<le> l" by (rule rolling_mean_nonneg [OF nn _ l]) (simp add: assms(1))
  ultimately have r: "0 \<le> g / (l + eps)" by (simp add: eps_def)
  then have "100 / (1 + g / (l + eps)) \<le> 100" "0 < 100 / (1 + g / (l + eps))"
    by (simp_all add: divide_le_eq)
  then show ?thesis unfolding v by linarith
qed

theorem rsi_range_witness:
  "0 \<le> the (rsi [Some 1, Some 2, Some (3/2), Some 3] 2 ! 3) \<and>
   the (rsi [Some 1, Some 2, Some (3/2), Some 3] 2 ! 3) < 100"
proof -
  have "rsi [Some 1, Some 2, Some (3/2), Some 3] 2 ! 3 =
        Some (the (rsi [Some 1, Some 2, Some (3/2), Some 3] 2 ! 3))"
    by code_simp
  from rsi_range [OF _ this] show ?thesis by simp
qed

text \<open>
  Hurst estimator guards (spec sections 4.3 and 7): the estimator is undefined,
  not zero, on a window of fewer than 64 points, on a window holding a NaN, and on a
  window of identical values (zero dispersion at every lag).
\<close>

theorem hurst_simple_guards:
  assumes "length x < 64 \<or> None \<in> set x \<or> (\<exists>c. \<forall>v \<in> set x. v = Some c)"
  shows "hurst_simple x = None"
proof -
  consider "length x < 64 \<or> None \<in> set x" | c where "\<forall>v \<in> set x. v = Some c"
    using assms by blast
  then show ?thesis
  proof cases
    case 1 then show ?thesis by (auto simp: hurst_simple_def list_ex_iff)
  next
    case 2
    then have "\<forall>v \<in> set (map the x). v = c" by auto
    then have "pop_std (lag_diff 2 (map the x)) = 0"
      by (intro pop_std_zeros lag_diff_const)
    then show ?thesis by (simp add: hurst_simple_def hurst_lags_def Let_def)
  qed
qed

theorem hurst_simple_guards_witness: "hurst_simple (replicate 64 (Some 3)) = None"
  by (rule hurst_simple_guards) auto

text \<open>
  C27 (the Hurst fit is exact on a power law): when the dispersions \<open>tau\<close> at the lags
  2, 4, 8, 16, 32 follow \<open>c * L powr (H / 2)\<close> exactly, the least-squares fit of
  \<open>log tau\<close> against \<open>log L\<close> reports the exponent \<open>H\<close>.
\<close>

theorem hurst_from_tau_power_law:
  assumes "0 < c"
  shows "hurst_from_tau (map (\<lambda>L. c * real L powr (h / 2)) hurst_lags) = h"
proof -
  let ?xs = "map (\<lambda>l. ln (real l)) hurst_lags"
  have m: "map ln (map (\<lambda>L. c * real L powr (h / 2)) hurst_lags) = map (\<lambda>x. ln c + h / 2 * x) ?xs"
  proof (simp only: map_map comp_def, rule map_cong)
    fix L assume "L \<in> set hurst_lags"
    then have "0 < real L" by (auto simp: hurst_lags_def)
    with assms show "ln (c * real L powr (h / 2)) = ln c + h / 2 * ln (real L)"
      by (simp add: ln_mult ln_powr)
  qed simp
  have "polyfit_slope ?xs (map (\<lambda>x. ln c + h / 2 * x) ?xs) = h / 2"
    by (rule polyfit_slope_affine, rule hurst_lags_spread, rule refl)
  then show ?thesis unfolding hurst_from_tau_def m by simp
qed

theorem hurst_from_tau_power_law_witness:
  "hurst_from_tau (map (\<lambda>L. 1 * real L powr (1 / 2)) hurst_lags) = 1"
  using hurst_from_tau_power_law [of 1 1] by simp

text \<open>
  The recursive EWM is the weighted average pandas documents: the value at row
  \<open>t\<close> of \<open>ewm(span=s, adjust=False).mean()\<close> is \<open>(1 - a)^t * x_0\<close> plus the sum
  over \<open>j = 1 .. t\<close> of \<open>a * (1 - a)^(t - j) * x_j\<close>, with \<open>a = 2 / (s + 1)\<close>.
\<close>

theorem ewm_mean_closed_form:
  assumes "t < length xs"
  shows "ewm_mean s xs ! t =
           (1 - ewm_alpha s) ^ t * xs ! 0 +
           (\<Sum>j \<in> {1..t}. ewm_alpha s * (1 - ewm_alpha s) ^ (t - j) * xs ! j)"
proof (cases xs)
  case Nil with assms show ?thesis by simp
next
  case (Cons x rest)
  show ?thesis
  proof (cases t)
    case 0 with Cons show ?thesis by (simp add: ewm_mean_def)
  next
    case (Suc t')
    have "(\<Sum>j \<in> {1..Suc t'}. ewm_alpha s * (1 - ewm_alpha s) ^ (Suc t' - j) * xs ! j) =
          (\<Sum>j<Suc t'. ewm_alpha s * (1 - ewm_alpha s) ^ (t' - j) * rest ! j)"
      unfolding One_nat_def sum.atLeast1_atMost_eq by (simp add: Cons del: sum.lessThan_Suc)
    moreover have "t' < length rest" using assms Suc Cons by simp
    ultimately show ?thesis
      by (simp add: Suc Cons ewm_mean_def nth_ewm_from del: sum.lessThan_Suc)
  qed
qed

theorem ewm_mean_closed_form_witness:
  "ewm_mean 3 [1, 2, 4] ! 2 = (1/4) * 1 + (1/4) * 2 + (1/2) * (4::real)"
proof -
  have "ewm_mean 3 [1, 2, 4] ! 2 =
        (1 - ewm_alpha 3) ^ 2 * [1, 2, 4] ! 0 +
        (\<Sum>j \<in> {1..2}. ewm_alpha 3 * (1 - ewm_alpha 3) ^ (2 - j) * [1, 2, (4::real)] ! j)"
    by (rule ewm_mean_closed_form) simp
  also have "\<dots> = (1/4) * 1 + (1/4) * 2 + (1/2) * (4::real)"
    by (simp add: ewm_alpha_def numeral_2_eq_2)
  finally show ?thesis .
qed

end
