(* ===== verification/PyFormat.thy ===== *)
theory PyFormat
  imports Prelude
begin

text \<open>
  Python's conversions of numbers to text, shared by the feature names of
  \<open>make_features.py\<close> and the bot's replies: \<open>f"{n}"\<close> of a natural number and the
  fixed-point format \<open>f"{x:.kf}"\<close> of a float. Python rounds the exact value of the
  float to \<open>k\<close> decimals, ties to even, prints the sign of the float (so a small negative
  value prints as \<open>-0.00\<close>) and prints \<open>nan\<close> for NaN. A float is its exact real value
  here. \<open>read_fixed\<close> reads such a text back as the exact decimal it denotes; it is used
  only to state the round trip.
\<close>

section \<open>Definitions\<close>

fun nat_str :: "nat \<Rightarrow> string" where
  "nat_str n =
     (if n < 10 then [''0123456789'' ! n]
      else nat_str (n div 10) @ [''0123456789'' ! (n mod 10)])"

definition round_half_even :: "real \<Rightarrow> int" where
  "round_half_even r =
     (let f = \<lfloor>r\<rfloor>; d = r - of_int f
      in if d < 1 / 2 then f else if 1 / 2 < d then f + 1 else if even f then f else f + 1)"

text \<open>\<open>str.zfill(k)\<close> of a digit string: zeros on the left up to width \<open>k\<close>.\<close>

definition zfill :: "nat \<Rightarrow> string \<Rightarrow> string" where
  "zfill k s = replicate (k - length s) (CHR ''0'') @ s"

text \<open>The digits of \<open>q / 10^k\<close> with exactly \<open>k\<close> decimals (no point for \<open>k = 0\<close>).\<close>

definition fixed_digits :: "nat \<Rightarrow> nat \<Rightarrow> string" where
  "fixed_digits k q =
     nat_str (q div 10 ^ k) @ (if k = 0 then [] else CHR ''.'' # zfill k (nat_str (q mod 10 ^ k)))"

definition fmt_fixed :: "nat \<Rightarrow> real \<Rightarrow> string" where
  "fmt_fixed k x =
     (if x < 0 then ''-'' else []) @ fixed_digits k (nat (round_half_even (\<bar>x\<bar> * 10 ^ k)))"

definition fmt_float :: "nat \<Rightarrow> real option \<Rightarrow> string" where
  "fmt_float k v = (case v of None \<Rightarrow> ''nan'' | Some x \<Rightarrow> fmt_fixed k x)"

text \<open>Reading back: the value of a decimal digit string, and of \<open>[-]digits[.digits]\<close>.\<close>

definition digit_val :: "char \<Rightarrow> nat" where
  "digit_val c = of_char c - 48"

definition str_nat :: "string \<Rightarrow> nat" where
  "str_nat s = foldl (\<lambda>n c. 10 * n + digit_val c) 0 s"

definition read_fixed :: "string \<Rightarrow> real" where
  "read_fixed s =
     (let neg = (take 1 s = ''-''); t = (if neg then drop 1 s else s);
          ip = takeWhile (\<lambda>c. c \<noteq> CHR ''.'') t; fp = drop 1 (dropWhile (\<lambda>c. c \<noteq> CHR ''.'') t)
      in (if neg then -1 else 1) * (of_nat (str_nat ip) + of_nat (str_nat fp) / 10 ^ length fp))"

declare nat_str.simps [simp del]

section \<open>Digit strings\<close>

lemma below_ten: "(d::nat) < 10 \<Longrightarrow> d \<in> {0, 1, 2, 3, 4, 5, 6, 7, 8, 9}"
  by auto

lemma digit_val_nth [simp]: "d < 10 \<Longrightarrow> digit_val (''0123456789'' ! d) = d"
  using below_ten [of d] by (auto simp: digit_val_def)

lemma nat_str_chars: "set (nat_str n) \<subseteq> set ''0123456789''"
proof (induction n rule: nat_str.induct)
  case (1 n)
  have "\<And>d. d < 10 \<Longrightarrow> ''0123456789'' ! d \<in> set ''0123456789''"
    by (rule nth_mem) simp
  then show ?case using 1 by (subst nat_str.simps) auto
qed

lemma str_nat_append: "str_nat (xs @ ys) = str_nat xs * 10 ^ length ys + str_nat ys"
proof (induction ys rule: rev_induct)
  case (snoc y ys)
  then show ?case by (simp add: str_nat_def algebra_simps)
qed (simp add: str_nat_def)

lemma str_nat_Nil [simp]: "str_nat [] = 0"
  by (simp add: str_nat_def)

lemma str_nat_snoc: "str_nat (xs @ [c]) = 10 * str_nat xs + digit_val c"
  by (simp add: str_nat_def)

lemma str_nat_nat_str [simp]: "str_nat (nat_str n) = n"
proof (induction n rule: nat_str.induct)
  case (1 n)
  show ?case
  proof (cases "n < 10")
    case True
    then show ?thesis by (subst nat_str.simps) (simp add: str_nat_def)
  next
    case False
    then have "str_nat (nat_str n) = 10 * (n div 10) + n mod 10"
      using 1 by (subst nat_str.simps) (simp add: str_nat_snoc)
    then show ?thesis by simp
  qed
qed

lemma nat_str_ne [simp]: "nat_str n \<noteq> []"
  by (subst nat_str.simps) simp

lemma length_nat_str: "n < 10 ^ k \<Longrightarrow> 0 < k \<Longrightarrow> length (nat_str n) \<le> k"
proof (induction n arbitrary: k rule: nat_str.induct)
  case (1 n)
  show ?case
  proof (cases "n < 10")
    case True
    then show ?thesis using "1.prems" by (subst nat_str.simps) simp
  next
    case False
    obtain j where k: "k = Suc j" using "1.prems"(2) gr0_implies_Suc by blast
    have "j \<noteq> 0" using False "1.prems"(1) k by (cases j) auto
    moreover have "n div 10 < 10 ^ j" using "1.prems"(1) k by (simp add: less_mult_imp_div_less mult.commute)
    ultimately have "length (nat_str (n div 10)) \<le> j" using "1.IH" False by blast
    then show ?thesis using False k by (subst nat_str.simps) simp
  qed
qed

lemma str_nat_replicate_zero: "str_nat (replicate m (CHR ''0'') @ s) = str_nat s"
  by (induction m) (simp_all add: str_nat_def digit_val_def)

lemma zfill_nat_str:
  "n < 10 ^ k \<Longrightarrow> 0 < k \<Longrightarrow> length (zfill k (nat_str n)) = k \<and> str_nat (zfill k (nat_str n)) = n \<and>
   set (zfill k (nat_str n)) \<subseteq> set ''0123456789''"
  using length_nat_str [of n k] nat_str_chars [of n]
  by (auto simp: zfill_def str_nat_replicate_zero)

section \<open>Rounding\<close>

lemma round_half_even_err: "\<bar>of_int (round_half_even r) - r\<bar> \<le> 1 / 2"
  using of_int_floor_le [of r] real_of_int_floor_add_one_gt [of r]
  by (auto simp: round_half_even_def Let_def)

lemma round_half_even_nonneg: "0 \<le> r \<Longrightarrow> 0 \<le> round_half_even r"
  by (auto simp: round_half_even_def Let_def)

section \<open>Reading a formatted number back\<close>

lemma read_unsigned:
  assumes "set ip \<subseteq> set ''0123456789''" "ip \<noteq> []"
  shows "read_fixed ip = of_nat (str_nat ip)"
    and "set fp \<subseteq> set ''0123456789'' \<Longrightarrow>
         read_fixed (ip @ CHR ''.'' # fp) = of_nat (str_nat ip) + of_nat (str_nat fp) / 10 ^ length fp"
proof -
  have hd: "take 1 (ip @ xs) \<noteq> ''-''" for xs
    using assms by (cases ip) auto
  have tw: "takeWhile (\<lambda>c. c \<noteq> CHR ''.'') (ip @ xs) = ip @ takeWhile (\<lambda>c. c \<noteq> CHR ''.'') xs"
    and dw: "dropWhile (\<lambda>c. c \<noteq> CHR ''.'') (ip @ xs) = dropWhile (\<lambda>c. c \<noteq> CHR ''.'') xs" for xs
    using assms(1) by (auto intro!: takeWhile_append2 dropWhile_append2)
  have t1: "takeWhile (\<lambda>c. c \<noteq> CHR ''.'') ip = ip" and d1: "dropWhile (\<lambda>c. c \<noteq> CHR ''.'') ip = []"
    using tw [of "[]"] dw [of "[]"] by simp_all
  show "read_fixed ip = of_nat (str_nat ip)"
    using hd [of "[]"] by (simp add: read_fixed_def Let_def t1 d1)
  assume "set fp \<subseteq> set ''0123456789''"
  then have "CHR ''.'' \<notin> set fp" by auto
  then show "read_fixed (ip @ CHR ''.'' # fp) = of_nat (str_nat ip) + of_nat (str_nat fp) / 10 ^ length fp"
    using hd tw dw by (simp add: read_fixed_def Let_def)
qed

lemma read_fixed_digits: "read_fixed (fixed_digits k q) = of_nat q / 10 ^ k"
proof (cases "k = 0")
  case True
  then show ?thesis
    using read_unsigned(1) [of "nat_str q"] nat_str_chars [of q] by (simp add: fixed_digits_def)
next
  case False
  let ?z = "zfill k (nat_str (q mod 10 ^ k))"
  have z: "length ?z = k" "str_nat ?z = q mod 10 ^ k" "set ?z \<subseteq> set ''0123456789''"
    using zfill_nat_str [of "q mod 10 ^ k" k] False by simp_all
  have "fixed_digits k q = nat_str (q div 10 ^ k) @ CHR ''.'' # ?z"
    using False by (simp add: fixed_digits_def)
  then have "read_fixed (fixed_digits k q) = of_nat (q div 10 ^ k) + of_nat (q mod 10 ^ k) / 10 ^ k"
    using read_unsigned(2) [of "nat_str (q div 10 ^ k)" ?z] nat_str_chars [of "q div 10 ^ k"] z
    by (simp only:) simp
  also have "\<dots> = of_nat q / 10 ^ k"
  proof -
    have "real q = real (q div 10 ^ k * 10 ^ k + q mod 10 ^ k)" by (simp only: div_mult_mod_eq)
    then have "real q = real (q div 10 ^ k) * 10 ^ k + real (q mod 10 ^ k)"
      by (simp only: of_nat_add of_nat_mult of_nat_power of_nat_numeral)
    then show ?thesis by (simp add: divide_simps)
  qed
  finally show ?thesis .
qed

lemma read_neg: "take 1 s \<noteq> ''-'' \<Longrightarrow> read_fixed (CHR ''-'' # s) = - read_fixed s"
  by (simp add: read_fixed_def Let_def)

lemma read_fmt_fixed: "read_fixed (fmt_fixed k x) = (if x < 0 then - 1 else 1) * of_int (round_half_even (\<bar>x\<bar> * 10 ^ k)) / 10 ^ k"
proof -
  let ?q = "round_half_even (\<bar>x\<bar> * 10 ^ k)"
  have q: "real (nat ?q) = of_int ?q" using round_half_even_nonneg [of "\<bar>x\<bar> * 10 ^ k"] by simp
  have nm: "take 1 (fixed_digits k n) \<noteq> ''-''" for n
    using nat_str_chars [of "n div 10 ^ k"] by (cases "nat_str (n div 10 ^ k)") (auto simp: fixed_digits_def)
  then have "x \<ge> 0 \<Longrightarrow> read_fixed (fmt_fixed k x) = read_fixed (fixed_digits k (nat ?q))"
    by (simp add: fmt_fixed_def)
  moreover have "x < 0 \<Longrightarrow> read_fixed (fmt_fixed k x) = - read_fixed (fixed_digits k (nat ?q))"
    using nm by (simp add: fmt_fixed_def read_neg)
  ultimately show ?thesis using q by (auto simp: read_fixed_digits)
qed

text \<open>Ties are rounded to even and the sign is that of the value, as in Python.\<close>

lemma fmt_fixed_examples:
  "fmt_fixed 2 (1 / 8) = ''0.12'' \<and> fmt_fixed 2 (3 / 8) = ''0.38'' \<and> fmt_fixed 2 (- 1 / 1000) = ''-0.00'' \<and>
   fmt_float 2 None = ''nan''"
  by (simp add: fmt_float_def fmt_fixed_def round_half_even_def fixed_digits_def zfill_def nat_str.simps)

section \<open>Properties\<close>

text \<open>
  Round trip of the fixed-point format: reading back the text \<open>f"{x:.kf}"\<close>
  gives a decimal within half a unit of the last printed place of \<open>x\<close>, for every
  value and every number of decimals; the sign survives even when the digits are all
  zero.
\<close>

lemma fmt_fixed_roundtrip: "\<bar>read_fixed (fmt_fixed k x) - x\<bar> \<le> 1 / (2 * 10 ^ k)"
proof -
  let ?r = "\<bar>x\<bar> * 10 ^ k"
  have e: "\<bar>of_int (round_half_even ?r) - ?r\<bar> \<le> 1 / 2" by (rule round_half_even_err)
  have p: "(0::real) < 10 ^ k" by simp
  have "of_int (round_half_even ?r) / 10 ^ k - \<bar>x\<bar> = (of_int (round_half_even ?r) - ?r) / 10 ^ k"
    using p by (simp add: field_simps)
  then have "\<bar>of_int (round_half_even ?r) / 10 ^ k - \<bar>x\<bar>\<bar> = \<bar>of_int (round_half_even ?r) - ?r\<bar> / 10 ^ k"
    by (simp add: abs_divide)
  also have "\<dots> \<le> 1 / (2 * 10 ^ k)" using e p by (simp add: divide_right_mono field_simps)
  finally have "\<bar>of_int (round_half_even ?r) / 10 ^ k - \<bar>x\<bar>\<bar> \<le> 1 / (2 * 10 ^ k)" .
  moreover have "\<bar>read_fixed (fmt_fixed k x) - x\<bar> = \<bar>of_int (round_half_even ?r) / 10 ^ k - \<bar>x\<bar>\<bar>"
  proof (cases "x < 0")
    case True
    then have "read_fixed (fmt_fixed k x) - x = - (of_int (round_half_even ?r) / 10 ^ k - \<bar>x\<bar>)"
      by (simp add: read_fmt_fixed)
    then show ?thesis by (simp only: abs_minus_cancel)
  next
    case False
    then have "read_fixed (fmt_fixed k x) - x = of_int (round_half_even ?r) / 10 ^ k - \<bar>x\<bar>"
      by (simp add: read_fmt_fixed)
    then show ?thesis by (simp only:)
  qed
  ultimately show ?thesis by (simp only:)
qed

end
