(* ===== verification/Features.thy ===== *)
theory Features
  imports Indicators PyFormat
begin

text \<open>
  The feature and label engine, \<open>main\<close> of \<open>src/data_pipeline/make_features.py\<close>
  (spec section 4.3): the derived columns in the order the code assigns them, the
  \<open>dropna\<close> finalisation, the feature manifest and the 70/15/15 split. The frame is the
  list of the table's numeric columns by name; the timestamp column is read from the
  candles. The split indices \<open>int(n * 0.70)\<close> and \<open>int(n * 0.85)\<close> are computed as
  float64 does: the literal is the nearest double, the product is rounded to 53
  significant bits (ties to even), and \<open>int\<close> truncates.
\<close>

section \<open>Definitions\<close>

text \<open>\<open>np.log\<close>: NaN for a negative argument. At \<open>0\<close> numpy gives \<open>-inf\<close>, which
  \<open>dropna\<close> keeps; a candle of a validated table (\<open>candle_valid\<close>) never has a zero
  close, and this model reads it as NaN.\<close>

definition plog :: "real \<Rightarrow> real option" where
  "plog x = (if 0 < x then Some (ln x) else None)"

text \<open>\<open>df[c]\<close> for a numeric column of the candle table.\<close>

definition col :: "(candle \<Rightarrow> real) \<Rightarrow> table \<Rightarrow> series" where
  "col f df = map (\<lambda>r. Some (f r)) df"

type_synonym frame = "(string \<times> series) list"

definition ret_windows :: "nat list" where
  "ret_windows = [6, 12, 24, 72, 168]"

text \<open>Lines 115--121: Bollinger bands over 20 rows (mid, upper, lower, width).\<close>

definition bollinger :: "series \<Rightarrow> series \<times> series \<times> series \<times> series" where
  "bollinger c =
     (let mid = rolling_mean 20 c;
          sd = rolling_std 20 c;
          up = map2 (lift2 (\<lambda>m s. m + 2 * s)) mid sd;
          lo = map2 (lift2 (\<lambda>m s. m - 2 * s)) mid sd;
          width = map2 (lift2 (\<lambda>d x. d / (x + eps))) (map2 (lift2 (-)) up lo) c
      in (mid, up, lo, width))"

text \<open>Lines 92--128: the raw OHLCV columns and every derived input column, in the order
  the code creates them.\<close>

definition feature_frame :: "table \<Rightarrow> frame" where
  "feature_frame df =
     (let c = col close df;
          ret_1 = pdiff (map (\<lambda>r. plog (close r)) df);
          (macd_line, signal, hist) = macd (map close df);
          (mid, up, lo, width) = bollinger c
      in [(''open'', col open_price df), (''high'', col high df), (''low'', col low df),
          (''close'', c), (''volume'', col volume df), (''ret_1'', ret_1)] @
         map (\<lambda>k. (''ret_lag_'' @ nat_str k, shift (int k) ret_1)) [1..<25] @
         concat (map (\<lambda>w. [(''ret_mean_'' @ nat_str w, rolling_mean w ret_1),
                            (''ret_std_'' @ nat_str w, rolling_std w ret_1),
                            (''vol_'' @ nat_str w, rolling_std w ret_1)]) ret_windows) @
         [(''hl_range'', map (\<lambda>r. Some ((high r - low r) / (close r + eps))) df),
          (''atr_14'', atr df 14), (''rsi_14'', rsi c 14),
          (''macd_line'', map Some macd_line), (''macd_signal'', map Some signal),
          (''macd_hist'', map Some hist),
          (''bb_mid'', mid), (''bb_up'', up), (''bb_low'', lo), (''bb_width'', width)] @
         make_time_features (map timestamp_utc df) @
         [(''hurst_128'', rolling_hurst 128 c), (''hurst_256'', rolling_hurst 256 c)])"

text \<open>Lines 131--132: \<open>np.log(close.shift(-h) / close)\<close>.\<close>

definition log_return_ahead :: "nat \<Rightarrow> series \<Rightarrow> series" where
  "log_return_ahead h c = map2 (\<lambda>nxt cur. Option.bind (lift2 (/) nxt cur) plog) (shift (- int h) c) c"

definition label_frame :: "table \<Rightarrow> frame" where
  "label_frame df =
     [(''y_1h'', log_return_ahead 1 (col close df)), (''y_1d'', log_return_ahead 24 (col close df))]"

definition make_frame :: "table \<Rightarrow> frame" where
  "make_frame df = feature_frame df @ label_frame df"

text \<open>Line 134, \<open>df.dropna()\<close>: the rows with no NaN in any column, in order.\<close>

definition row_complete :: "frame \<Rightarrow> nat \<Rightarrow> bool" where
  "row_complete fr k = list_all (\<lambda>(_, c). c ! k \<noteq> None) fr"

definition dropna_rows :: "table \<Rightarrow> nat list" where
  "dropna_rows df = filter (row_complete (make_frame df)) [0..<length df]"

type_synonym feature_row = "int \<times> real list"

definition dropna :: "table \<Rightarrow> feature_row list" where
  "dropna df =
     map (\<lambda>k. (timestamp_utc (df ! k), map (\<lambda>(_, c). the (c ! k)) (make_frame df))) (dropna_rows df)"

text \<open>Lines 141--142: the manifest, every column but the raw OHLCV fields and the labels.
  The timestamp column precedes the derived ones (the downloader writes it after the
  OHLCV fields, the regularizer before them; either way it is the first one kept).\<close>

definition exclude_cols :: "string list" where
  "exclude_cols = [''open'', ''high'', ''low'', ''close'', ''volume'', ''y_1h'', ''y_1d'']"

definition feature_cols :: "frame \<Rightarrow> string list" where
  "feature_cols fr = filter (\<lambda>n. n \<notin> set exclude_cols) (''timestamp_utc'' # map fst fr)"

text \<open>Float64 arithmetic of \<open>int(n * c)\<close>. \<open>bitlen\<close> is \<open>int.bit_length\<close>;
  \<open>round_f64 p\<close> rounds \<open>p\<close> to 53 significant bits, ties to even.\<close>

fun bitlen :: "nat \<Rightarrow> nat" where
  "bitlen n = (if n = 0 then 0 else Suc (bitlen (n div 2)))"

definition round_f64 :: "nat \<Rightarrow> nat" where
  "round_f64 p =
     (let s = bitlen p - 53; q = p div 2 ^ s; r = p mod 2 ^ s;
          q' = (if 2 ^ s < 2 * r \<or> (2 * r = 2 ^ s \<and> odd q) then q + 1 else q)
      in q' * 2 ^ s)"

text \<open>The doubles nearest to \<open>0.70\<close> and \<open>0.85\<close>, as multiples of \<open>2^-53\<close>.\<close>

definition frac70 :: nat where "frac70 = 6305039478318694"

definition frac85 :: nat where "frac85 = 7656119366529843"

text \<open>\<open>int(n * c)\<close> for \<open>c = m * 2^-53\<close> and \<open>n < 2^53\<close>: the product is exact before
  rounding, and truncation of a non-negative double is \<open>div\<close>.\<close>

definition f64_mul_trunc :: "nat \<Rightarrow> nat \<Rightarrow> nat" where
  "f64_mul_trunc n m = round_f64 (n * m) div 2 ^ 53"

record split_meta =
  train_span :: "int \<times> int"
  val_span :: "int \<times> int"
  test_span :: "int \<times> int"

text \<open>Lines 149--156: the boundaries of the three partitions as the timestamps at the
  positions \<open>0, i1 - 1, i1, i2 - 1, i2, -1\<close> of \<open>iloc\<close>; an \<open>IndexError\<close> is
  \<open>IndexOutOfRange\<close>.\<close>

definition make_splits :: "int list \<Rightarrow> error + split_meta" where
  "make_splits ts =
     (let n = length ts; i1 = f64_mul_trunc n frac70; i2 = f64_mul_trunc n frac85
      in case (py_index ts 0, py_index ts (int i1 - 1), py_index ts (int i1),
               py_index ts (int i2 - 1), py_index ts (int i2), py_index ts (-1)) of
           (Some a, Some b, Some c, Some d, Some e, Some f) \<Rightarrow>
             Inr \<lparr>train_span = (a, b), val_span = (c, d), test_span = (e, f)\<rparr>
         | _ \<Rightarrow> Inl IndexOutOfRange)"

text \<open>\<open>main\<close>: the table read from the configured file (\<open>None\<close> when it does not exist),
  sorted by timestamp; the feature table and the manifest are written before the split
  is computed, so they are produced even when the split raises.\<close>

definition build_features :: "table option \<Rightarrow> error + feature_row list \<times> string list \<times> (error + split_meta)" where
  "build_features file =
     (case file of
        None \<Rightarrow> Inl RawFileMissing
      | Some df0 \<Rightarrow>
          let df = sort_by_ts df0; feat = dropna df
          in Inr (feat, feature_cols (make_frame df), make_splits (map fst feat)))"

declare bitlen.simps [simp del]

section \<open>Lemmas\<close>

lemma take_col [take_commute]: "col f (take k df) = take k (col f df)"
  by (simp add: col_def take_map)

lemma take_map_commute [take_commute]: "map f (take k xs) = take k (map f xs)"
  by (simp add: take_map)

lemma take_map2 [take_commute]: "map2 f (take k xs) (take k ys) = take k (map2 f xs ys)"
  by (simp add: take_zip take_map)

lemma take_pdiff [take_commute]: "pdiff (take k xs) = take k (pdiff xs)"
  using causal_take [OF causal_pdiff] .

lemma take_shift [take_commute]: "shift (int j) (take k xs) = take k (shift (int j) xs)"
  by (rule causal_take [OF causal_shift]) simp

lemma take_rolling_mean [take_commute]: "rolling_mean w (take k xs) = take k (rolling_mean w xs)"
  using causal_take [OF causal_rolling_mean] .

lemma take_rolling_std [take_commute]: "rolling_std w (take k xs) = take k (rolling_std w xs)"
  using causal_take [OF causal_rolling_std] .

lemma take_rsi [take_commute]: "rsi (take k c) p = take k (rsi c p)"
  using causal_take [OF causal_rsi] by simp

lemma take_atr [take_commute]: "atr (take k df) p = take k (atr df p)"
  using causal_take [OF causal_atr] by simp

lemma take_rolling_hurst [take_commute]: "rolling_hurst w (take k xs) = take k (rolling_hurst w xs)"
  using causal_take [OF causal_rolling_hurst] .

lemma take_macd [take_commute]:
  "macd (take k c) = (take k (fst (macd c)), take k (fst (snd (macd c))), take k (snd (snd (macd c))))"
  using causal_macd by (simp add: causal_take [of "\<lambda>c. fst (macd c)"] causal_take [of "\<lambda>c. fst (snd (macd c))"]
      causal_take [of "\<lambda>c. snd (snd (macd c))"] prod_eq_iff)

lemma causal_bollinger:
  "causal (\<lambda>c. fst (bollinger c)) \<and> causal (\<lambda>c. fst (snd (bollinger c))) \<and>
   causal (\<lambda>c. fst (snd (snd (bollinger c)))) \<and> causal (\<lambda>c. snd (snd (snd (bollinger c))))"
  unfolding bollinger_def Let_def by (simp; intro conjI causal_intros)

lemma take_bollinger [take_commute]:
  "bollinger (take k c) = (take k (fst (bollinger c)), take k (fst (snd (bollinger c))),
     take k (fst (snd (snd (bollinger c)))), take k (snd (snd (snd (bollinger c)))))"
  using causal_bollinger by (simp add: causal_take [of "\<lambda>c. fst (bollinger c)"]
      causal_take [of "\<lambda>c. fst (snd (bollinger c))"] causal_take [of "\<lambda>c. fst (snd (snd (bollinger c)))"]
      causal_take [of "\<lambda>c. snd (snd (snd (bollinger c)))"] prod_eq_iff)

lemma take_time_features [take_commute]:
  "make_time_features (take k ts) = map (\<lambda>(n, c). (n, take k c)) (make_time_features ts)"
  by (simp add: make_time_features_def take_map)

lemma map_fst_feature_frame:
  "map fst (feature_frame df) = [''open'', ''high'', ''low'', ''close'', ''volume'', ''ret_1'', ''ret_lag_1'', ''ret_lag_2'', ''ret_lag_3'', ''ret_lag_4'', ''ret_lag_5'', ''ret_lag_6'', ''ret_lag_7'', ''ret_lag_8'', ''ret_lag_9'', ''ret_lag_10'', ''ret_lag_11'', ''ret_lag_12'', ''ret_lag_13'', ''ret_lag_14'', ''ret_lag_15'', ''ret_lag_16'', ''ret_lag_17'', ''ret_lag_18'', ''ret_lag_19'', ''ret_lag_20'', ''ret_lag_21'', ''ret_lag_22'', ''ret_lag_23'', ''ret_lag_24'', ''ret_mean_6'', ''ret_std_6'', ''vol_6'', ''ret_mean_12'', ''ret_std_12'', ''vol_12'', ''ret_mean_24'', ''ret_std_24'', ''vol_24'', ''ret_mean_72'', ''ret_std_72'', ''vol_72'', ''ret_mean_168'', ''ret_std_168'', ''vol_168'', ''hl_range'', ''atr_14'', ''rsi_14'', ''macd_line'', ''macd_signal'', ''macd_hist'', ''bb_mid'', ''bb_up'', ''bb_low'', ''bb_width'', ''hour_sin'', ''hour_cos'', ''dow_sin'', ''dow_cos'', ''hurst_128'', ''hurst_256'']"
  by (simp add: feature_frame_def Let_def split_def ret_windows_def make_time_features_def upt_rec nat_str.simps)

lemma nth_col [simp]: "k < length df \<Longrightarrow> col f df ! k = Some (f (df ! k))"
  by (simp add: col_def)

lemma length_col [simp]: "length (col f df) = length df"
  by (simp add: col_def)

lemma length_log_return_ahead [simp]: "length (log_return_ahead h c) = length c"
  by (simp add: log_return_ahead_def)

lemma nth_log_return_ahead:
  assumes "k < length c"
  shows "log_return_ahead h c ! k =
           (if k + h < length c then Option.bind (lift2 (/) (c ! (k + h)) (c ! k)) plog else None)"
proof (cases "h = 0")
  case True
  with assms show ?thesis by (simp add: log_return_ahead_def shift_def)
next
  case False
  then have "- int h < 0" by simp
  with assms show ?thesis
    by (simp add: log_return_ahead_def nth_shift_neg lift2_def)
qed

lemma row_complete_member:
  "row_complete fr k \<Longrightarrow> (n, c) \<in> set fr \<Longrightarrow> c ! k \<noteq> None"
  by (auto simp: row_complete_def list_all_iff)

lemma hurst_256_in_frame: "(''hurst_256'', rolling_hurst 256 (col close df)) \<in> set (make_frame df)"
  by (simp add: make_frame_def feature_frame_def Let_def split_def)

lemma y_1d_in_frame: "(''y_1d'', log_return_ahead 24 (col close df)) \<in> set (make_frame df)"
  by (simp add: make_frame_def label_frame_def)

lemma distinct_make_frame: "distinct (map fst (make_frame df))"
  by (simp add: make_frame_def label_frame_def map_fst_feature_frame)

lemma ret_window_cols_in_frame:
  assumes "w \<in> set ret_windows"
  shows "(''ret_std_'' @ nat_str w, rolling_std w (pdiff (map (\<lambda>r. plog (close r)) df))) \<in> set (make_frame df) \<and>
         (''vol_'' @ nat_str w, rolling_std w (pdiff (map (\<lambda>r. plog (close r)) df))) \<in> set (make_frame df)"
  using assms by (auto simp: make_frame_def feature_frame_def Let_def split_def)

lemma length_make_frame: "length (make_frame df) = 63"
proof -
  have "length (map fst (feature_frame df)) = 61" by (simp only: map_fst_feature_frame) simp
  then show ?thesis by (simp add: make_frame_def label_frame_def)
qed

lemma dropna_rows_sorted: "sorted_wrt (<) (dropna_rows df) \<and> set (dropna_rows df) \<subseteq> {..<length df}"
  by (auto simp: dropna_rows_def sorted_wrt_filter)

lemma sample_std_nonneg: "sample_std xs = Some s \<Longrightarrow> 0 \<le> s"
  by (auto simp: sample_std_def split: if_splits intro!: divide_nonneg_nonneg sum_list_nonneg)

lemma hour_of_week [simp]: "hour_of (t + 604800000) = hour_of t"
proof -
  have "(t + 604800000) div 3600000 = t div 3600000 + 7 * 24" by simp
  then show ?thesis by (simp only: hour_of_def mod_mult_self1)
qed

lemma dayofweek_week [simp]: "dayofweek (t + 604800000) = dayofweek t"
proof -
  have "(t + 604800000) div 86400000 + 3 = (t div 86400000 + 3) + 1 * 7" by simp
  then show ?thesis by (simp only: dayofweek_def mod_mult_self1)
qed

lemma bitlen_le: "p < 2 ^ k \<Longrightarrow> bitlen p \<le> k"
proof (induction p arbitrary: k rule: bitlen.induct)
  case (1 p)
  show ?case
  proof (cases "p = 0")
    case False
    then obtain k' where k: "k = Suc k'" using "1.prems" by (cases k) auto
    then have "p div 2 < 2 ^ k'" using "1.prems" by simp
    with "1.IH" False k show ?thesis by (subst bitlen.simps) simp
  qed (simp add: bitlen.simps)
qed

lemma round_f64_err:
  assumes "p < 2 ^ 93"
  shows "int p - 2 ^ 40 \<le> int (round_f64 p) \<and> int (round_f64 p) \<le> int p + 2 ^ 40"
proof -
  define s where "s = bitlen p - 53"
  have "s \<le> 40" using bitlen_le [OF assms] by (simp add: s_def)
  then have s40: "(2::nat) ^ s \<le> 2 ^ 40" by (rule power_increasing) simp
  define q where "q = p div 2 ^ s"
  have lo: "q * 2 ^ s \<le> p" by (simp add: q_def div_times_less_eq_dividend)
  have "p = q * 2 ^ s + p mod 2 ^ s" unfolding q_def by (rule div_mult_mod_eq [symmetric])
  moreover have "p mod 2 ^ s < 2 ^ s" by simp
  ultimately have hi: "p < q * 2 ^ s + 2 ^ s" by linarith
  have "round_f64 p = q * 2 ^ s \<or> round_f64 p = q * 2 ^ s + 2 ^ s"
    by (simp add: round_f64_def Let_def s_def [symmetric] q_def [symmetric] algebra_simps)
  moreover have "int (q * 2 ^ s) \<le> int p" using lo by (simp only: of_nat_le_iff)
  moreover have "int p < int (q * 2 ^ s) + int (2 ^ s)"
    using hi by (simp only: of_nat_add [symmetric] of_nat_less_iff)
  moreover have "int (2 ^ s) \<le> int (2 ^ 40)" using s40 by (simp only: of_nat_le_iff)
  ultimately show ?thesis by (auto simp del: of_nat_mult of_nat_power)
qed

lemma div_2_53_bounds:
  assumes "(int F - 1) * 2 ^ 53 \<le> int X" and "int X < (int F + 1) * 2 ^ 53"
  shows "F - 1 \<le> X div 2 ^ 53 \<and> X div 2 ^ 53 \<le> F"
proof
  have "int X < int ((F + 1) * 2 ^ 53)" using assms(2) by simp
  then have "X < (F + 1) * 2 ^ 53" by (simp only: of_nat_less_iff)
  then show "X div 2 ^ 53 \<le> F" by (simp add: less_mult_imp_div_less less_Suc_eq_le)
  show "F - 1 \<le> X div 2 ^ 53"
  proof (cases "F = 0")
    case False
    with assms(1) have "int ((F - 1) * 2 ^ 53) \<le> int X" by (simp add: of_nat_diff)
    then have "(F - 1) * 2 ^ 53 \<le> X" by (simp only: of_nat_le_iff)
    then show ?thesis using div_le_mono [of "(F - 1) * 2 ^ 53" X "2 ^ 53"] by simp
  qed simp
qed

lemma f64_mul_trunc_floor:
  assumes "n < 2 ^ 40"
  shows "7 * n div 10 - 1 \<le> f64_mul_trunc n frac70 \<and> f64_mul_trunc n frac70 \<le> 7 * n div 10 \<and>
         17 * n div 20 - 1 \<le> f64_mul_trunc n frac85 \<and> f64_mul_trunc n frac85 \<le> 17 * n div 20"
proof -
  have n: "int n < 1099511627776" using assms by simp
  define X where "X = round_f64 (n * frac70)"
  define Y where "Y = round_f64 (n * frac85)"
  have "n * frac70 < 2 ^ 93" "n * frac85 < 2 ^ 93" using assms by (simp_all add: frac70_def frac85_def)
  from round_f64_err [OF this(1)] round_f64_err [OF this(2)]
  have e: "int n * 6305039478318694 - 2 ^ 40 \<le> int X" "int X \<le> int n * 6305039478318694 + 2 ^ 40"
     "int n * 7656119366529843 - 2 ^ 40 \<le> int Y" "int Y \<le> int n * 7656119366529843 + 2 ^ 40"
    by (simp_all add: X_def Y_def frac70_def frac85_def)
  define F where "F = 7 * n div 10"
  define G where "G = 17 * n div 20"
  have F: "10 * int F \<le> 7 * int n" "7 * int n < 10 * int F + 10"
    and G: "20 * int G \<le> 17 * int n" "17 * int n < 20 * int G + 20"
    unfolding F_def G_def by linarith+
  have "(int F - 1) * 2 ^ 53 \<le> int X \<and> int X < (int F + 1) * 2 ^ 53"
    using e F n by simp
  then have "F - 1 \<le> X div 2 ^ 53 \<and> X div 2 ^ 53 \<le> F" by (intro div_2_53_bounds) simp_all
  moreover have "(int G - 1) * 2 ^ 53 \<le> int Y \<and> int Y < (int G + 1) * 2 ^ 53"
    using e G n by simp
  then have "G - 1 \<le> Y div 2 ^ 53 \<and> Y div 2 ^ 53 \<le> G" by (intro div_2_53_bounds) simp_all
  ultimately show ?thesis by (simp add: f64_mul_trunc_def X_def Y_def F_def G_def)
qed

lemma split_indices_small:
  "[f64_mul_trunc 4 frac70, f64_mul_trunc 5 frac70, f64_mul_trunc 6 frac70, f64_mul_trunc 7 frac70, f64_mul_trunc 8 frac70, f64_mul_trunc 9 frac70, f64_mul_trunc 10 frac70, f64_mul_trunc 11 frac70, f64_mul_trunc 12 frac70, f64_mul_trunc 13 frac70] = [2, 3, 4, 4, 5, 6, 7, 7, 8, 9] \<and>
   [f64_mul_trunc 4 frac85, f64_mul_trunc 5 frac85, f64_mul_trunc 6 frac85, f64_mul_trunc 7 frac85, f64_mul_trunc 8 frac85, f64_mul_trunc 9 frac85, f64_mul_trunc 10 frac85, f64_mul_trunc 11 frac85, f64_mul_trunc 12 frac85, f64_mul_trunc 13 frac85] = [3, 4, 5, 5, 6, 7, 8, 9, 10, 11]"
  by (simp add: f64_mul_trunc_def round_f64_def bitlen.simps frac70_def frac85_def)

lemma split_indices_ordered:
  assumes "4 \<le> n" and "n < 2 ^ 40"
  shows "1 \<le> f64_mul_trunc n frac70 \<and> f64_mul_trunc n frac70 < f64_mul_trunc n frac85 \<and>
         f64_mul_trunc n frac85 < n"
proof (cases "n < 14")
  case True
  with assms(1) have "n \<in> {4, 5, 6, 7, 8, 9, 10, 11, 12, 13}" by (simp, arith)
  with split_indices_small show ?thesis by auto
next
  case False
  with f64_mul_trunc_floor [OF assms(2)] show ?thesis by linarith
qed

section \<open>Properties of the feature engine\<close>

text \<open>
  C29 (no feature looks ahead, spec section 7): every column of the frame but the two
  labels, computed on the first \<open>k\<close> rows of a table, is the first \<open>k\<close> rows of that
  column computed on the whole table.
\<close>

theorem feature_frame_causal:
  "feature_frame (take k df) = map (\<lambda>(n, c). (n, take k c)) (feature_frame df)"
  by (simp add: feature_frame_def Let_def split_def take_commute map_concat comp_def)

text \<open>
  C30 (labels without look-ahead leakage, spec section 7): on an hourly table of valid
  candles, the label \<open>log_return_ahead h\<close> (\<open>y_1h\<close> for \<open>h = 1\<close>, \<open>y_1d\<close> for
  \<open>h = 24\<close>) at row \<open>k\<close> is the log return to the close of row \<open>k + h\<close>, which is
  exactly \<open>h\<close> hours later.
\<close>

theorem labels_no_lookahead:
  assumes "is_hourly (map timestamp_utc df)" and "k + h < length df"
    and "\<forall>r \<in> set df. candle_valid r"
  shows "log_return_ahead h (col close df) ! k = Some (ln (close (df ! (k + h)) / close (df ! k))) \<and>
         timestamp_utc (df ! (k + h)) = timestamp_utc (df ! k) + int h * hour_ms"
proof
  have pos: "0 < close (df ! k)" "0 < close (df ! (k + h))"
    using assms(2,3) by (auto simp: candle_valid_def)
  then show "log_return_ahead h (col close df) ! k = Some (ln (close (df ! (k + h)) / close (df ! k)))"
    using assms(2) by (simp add: nth_log_return_ahead lift2_def plog_def)
  have "map timestamp_utc df ! (k + h) = hd (map timestamp_utc df) + int (k + h) * hour_ms"
       "map timestamp_utc df ! k = hd (map timestamp_utc df) + int k * hour_ms"
    using assms(1,2) by (simp_all add: is_hourly_nth_hd)
  then show "timestamp_utc (df ! (k + h)) = timestamp_utc (df ! k) + int h * hour_ms"
    using assms(2) by (simp add: algebra_simps)
qed

theorem labels_no_lookahead_witness:
  "log_return_ahead 1 (col close spec_example_fixed) ! 0 = Some (ln (101 / 100)) \<and>
   timestamp_utc (spec_example_fixed ! 1) = timestamp_utc (spec_example_fixed ! 0) + hour_ms"
proof -
  have "is_hourly (map timestamp_utc spec_example_fixed)"
    by (simp add: spec_example_fixed_def hour_ms_def)
  moreover have "\<forall>r \<in> set spec_example_fixed. candle_valid r"
    by (simp add: spec_example_fixed_def candle_valid_def)
  moreover have "0 + 1 < length spec_example_fixed" by (simp add: spec_example_fixed_def)
  ultimately show ?thesis
    using labels_no_lookahead [of spec_example_fixed 0 1] by (simp add: spec_example_fixed_def)
qed

text \<open>
  C31 (the rows that survive \<open>dropna\<close>, spec section 4.3): a surviving row has index at
  least 255 (the 256-row Hurst window) and at least 24 rows after it (the \<open>y_1d\<close>
  label), so the feature table has at most \<open>n - 279\<close> rows.
\<close>

theorem dropna_rows_bounds:
  "set (dropna_rows df) \<subseteq> {255 ..< length df - 24} \<and> length (dropna df) \<le> length df - 279"
proof -
  have sub: "set (dropna_rows df) \<subseteq> {255 ..< length df - 24}"
  proof
    fix k assume "k \<in> set (dropna_rows df)"
    then have k: "k < length df" and rc: "row_complete (make_frame df) k"
      by (auto simp: dropna_rows_def)
    have "rolling_hurst 256 (col close df) ! k \<noteq> None"
      using row_complete_member [OF rc hurst_256_in_frame] .
    then have "255 \<le> k"
      using k rolling_short [of k "col close df" 256] by (fastforce simp: rolling_hurst_def)
    moreover have "log_return_ahead 24 (col close df) ! k \<noteq> None"
      using row_complete_member [OF rc y_1d_in_frame] .
    then have "k + 24 < length df"
      using k by (simp add: nth_log_return_ahead split: if_splits)
    ultimately show "k \<in> {255 ..< length df - 24}" by simp
  qed
  have "length (dropna df) = card (set (dropna_rows df))"
    by (simp add: dropna_def dropna_rows_def distinct_card [symmetric])
  also have "\<dots> \<le> card {255 ..< length df - 24}" by (rule card_mono [OF _ sub]) simp
  finally show ?thesis using sub by simp
qed

text \<open>
  The feature manifest (spec section 3): the manifest is the timestamp column
  followed by every derived column, 57 names; the timestamp is a model input.
\<close>

theorem feature_manifest:
  "feature_cols (make_frame df) = ''timestamp_utc'' # drop 5 (map fst (feature_frame df)) \<and>
   length (feature_cols (make_frame df)) = 57"
  by (simp add: feature_cols_def make_frame_def label_frame_def map_fst_feature_frame exclude_cols_def)

text \<open>
  Duplicate columns: for each return window, the column \<open>vol_w\<close> is the same
  series as \<open>ret_std_w\<close>.
\<close>

theorem vol_duplicates_ret_std:
  assumes "w \<in> set ret_windows"
  shows "map_of (make_frame df) (''vol_'' @ nat_str w) = map_of (make_frame df) (''ret_std_'' @ nat_str w)"
proof -
  note mem = ret_window_cols_in_frame [OF assms, of df]
  show ?thesis
    using map_of_is_SomeI [OF distinct_make_frame conjunct1 [OF mem]]
      map_of_is_SomeI [OF distinct_make_frame conjunct2 [OF mem]] by simp
qed

theorem vol_duplicates_ret_std_witness:
  "map_of (make_frame spec_example_raw) ''vol_24'' = map_of (make_frame spec_example_raw) ''ret_std_24''"
  using vol_duplicates_ret_std [of 24 spec_example_raw] by (simp add: ret_windows_def nat_str.simps)

text \<open>
  C34 (float64 split indices): for any table of fewer than \<open>2^40\<close> rows,
  \<open>int(n * 0.70)\<close> is \<open>floor(7n/10)\<close> or one less, and \<open>int(n * 0.85)\<close> is
  \<open>floor(17n/20)\<close> or one less.
\<close>

theorem f64_split_bounds:
  assumes "n < 2 ^ 40"
  shows "7 * n div 10 - 1 \<le> f64_mul_trunc n frac70 \<and> f64_mul_trunc n frac70 \<le> 7 * n div 10 \<and>
         17 * n div 20 - 1 \<le> f64_mul_trunc n frac85 \<and> f64_mul_trunc n frac85 \<le> 17 * n div 20"
  using f64_mul_trunc_floor [OF assms] .

theorem f64_split_bounds_witness:
  "7 * 90 div 10 - 1 \<le> f64_mul_trunc 90 frac70 \<and> f64_mul_trunc 90 frac70 \<le> 7 * 90 div 10"
  using f64_split_bounds [of 90] by simp

text \<open>
  C35 (split ordering, spec section 7): on strictly increasing timestamps of at least
  four rows the split is computed without error and
  \<open>train.start \<le> train.end < val.start \<le> val.end < test.start \<le> test.end\<close>.
\<close>

theorem make_splits_ordered:
  assumes "sorted_wrt (<) ts" and "4 \<le> length ts" and "length ts < 2 ^ 40"
  shows "\<exists>sp. make_splits ts = Inr sp \<and>
           fst (train_span sp) \<le> snd (train_span sp) \<and> snd (train_span sp) < fst (val_span sp) \<and>
           fst (val_span sp) \<le> snd (val_span sp) \<and> snd (val_span sp) < fst (test_span sp) \<and>
           fst (test_span sp) \<le> snd (test_span sp)"
proof -
  let ?n = "length ts"
  define i1 where "i1 = f64_mul_trunc ?n frac70"
  define i2 where "i2 = f64_mul_trunc ?n frac85"
  have i: "1 \<le> i1" "i1 < i2" "i2 < ?n"
    using split_indices_ordered [OF assms(2,3)] by (simp_all add: i1_def i2_def)
  have lt: "i < j \<Longrightarrow> j < ?n \<Longrightarrow> ts ! i < ts ! j" for i j
    using assms(1) by (simp add: sorted_wrt_iff_nth_less)
  have le: "i \<le> j \<Longrightarrow> j < ?n \<Longrightarrow> ts ! i \<le> ts ! j" for i j
    using lt by (cases "i = j") (auto simp: order_less_imp_le)
  have ne: "ts \<noteq> []" using assms(2) by auto
  have idx: "py_index ts (int i1 - 1) = Some (ts ! (i1 - 1))" "py_index ts (int i2 - 1) = Some (ts ! (i2 - 1))"
    using i by (simp_all add: of_nat_diff [symmetric] nat_diff_distrib)
  have "make_splits ts = Inr \<lparr>train_span = (ts ! 0, ts ! (i1 - 1)), val_span = (ts ! i1, ts ! (i2 - 1)),
                              test_span = (ts ! i2, last ts)\<rparr>"
    using i ne idx by (simp add: make_splits_def Let_def i1_def [symmetric] i2_def [symmetric])
  moreover have "last ts = ts ! (?n - 1)" using ne by (simp add: last_conv_nth)
  ultimately show ?thesis using i by (auto intro!: le lt)
qed

theorem make_splits_ordered_witness:
  "\<exists>sp. make_splits [1, 2, 3, 4] = Inr sp \<and> snd (train_span sp) < fst (val_span sp)"
  using make_splits_ordered [of "[1, 2, 3, 4]"] by auto

text \<open>
  The split at the boundary: the split raises \<open>IndexError\<close> on an empty feature
  table; on three rows it records a validation range whose start lies after its end;
  and at 90 rows the float product gives 62 training rows where 70 percent is 63.
\<close>

theorem split_boundary_cases:
  "make_splits [] = Inl IndexOutOfRange \<and>
   make_splits [10, 20, 30] = Inr \<lparr>train_span = (10, 20), val_span = (30, 20), test_span = (30, 30)\<rparr> \<and>
   f64_mul_trunc 90 frac70 = 62 \<and> 7 * 90 div 10 = (63::nat)"
proof -
  have "f64_mul_trunc 0 frac70 = 0" "f64_mul_trunc 0 frac85 = 0"
       "f64_mul_trunc 3 frac70 = 2" "f64_mul_trunc 3 frac85 = 2" "f64_mul_trunc 90 frac70 = 62"
    by (simp_all add: f64_mul_trunc_def round_f64_def bitlen.simps frac70_def frac85_def)
  moreover have len: "length [10, 20, 30::int] = 3" by simp
  ultimately show ?thesis unfolding make_splits_def Let_def len by (simp add: py_index_def)
qed

text \<open>
  Bollinger bands: wherever the upper band is defined, the middle band and the
  rolling standard deviation \<open>s \<ge> 0\<close> are defined, the bands are \<open>mid \<plusminus> 2 s\<close>,
  so \<open>low \<le> mid \<le> up\<close>.
\<close>

theorem bollinger_bands:
  assumes "k < length c" and "fst (snd (bollinger c)) ! k = Some u"
  shows "\<exists>m s. fst (bollinger c) ! k = Some m \<and> rolling_std 20 c ! k = Some s \<and> 0 \<le> s \<and>
           u = m + 2 * s \<and> fst (snd (snd (bollinger c))) ! k = Some (m - 2 * s)"
proof -
  obtain m s where m: "rolling_mean 20 c ! k = Some m" and s: "rolling_std 20 c ! k = Some s"
      and u: "u = m + 2 * s"
    using assms by (auto simp: bollinger_def Let_def lift2_def split: option.splits)
  have "0 \<le> s"
    using s assms(1) by (auto simp: rolling_std_def nth_rolling sample_std_nonneg split: Option.bind_splits)
  with m s u assms(1) show ?thesis by (auto simp: bollinger_def Let_def lift2_def)
qed

theorem bollinger_bands_witness:
  "\<exists>m s. fst (bollinger (replicate 20 (Some 5))) ! 19 = Some m \<and> 0 \<le> s \<and>
     5 = m + 2 * s \<and> fst (snd (snd (bollinger (replicate 20 (Some 5))))) ! 19 = Some (m - 2 * s)"
proof -
  have "fst (snd (bollinger (replicate 20 (Some 5)))) ! 19 = Some 5"
    by (simp add: bollinger_def Let_def rolling_mean_def rolling_std_def nth_rolling window_def
        sample_std_def list_mean_def lift2_def sum_list_replicate list_all_iff)
  from bollinger_bands [OF _ this] show ?thesis by auto
qed

text \<open>
  Cyclical time encodings: the four time features repeat with a period of one
  week; the day of week is pandas' (1970-01-01 a Thursday, 3; 2024-01-01 a Monday, 0).
\<close>

theorem time_features_weekly:
  "make_time_features (map (\<lambda>t. t + 604800000) ts) = make_time_features ts \<and>
   dayofweek 0 = 3 \<and> dayofweek 1704067200000 = 0 \<and> hour_of 1704078000000 = 3"
proof -
  have "dayofweek 0 = 3 \<and> dayofweek 1704067200000 = 0 \<and> hour_of 1704078000000 = 3"
    by (simp add: dayofweek_def hour_of_def)
  then show ?thesis by (simp add: make_time_features_def comp_def)
qed

text \<open>
  The schema of the feature table: every row \<open>dropna\<close> keeps carries one value for
  each of the 63 columns of the frame (61 inputs and the two labels), the column names
  are distinct, and on a well-formed table the rows keep strictly increasing timestamps.
\<close>

theorem dropna_schema:
  assumes "wf_table df"
  shows "list_all (\<lambda>r. length (snd r) = 63) (dropna df) \<and> length (make_frame df) = 63 \<and>
         distinct (map fst (make_frame df)) \<and> sorted_wrt (<) (map fst (dropna df))"
proof -
  have rows: "sorted_wrt (<) (dropna_rows df)" "\<forall>k\<in>set (dropna_rows df). k < length df"
    using dropna_rows_sorted [of df] by auto
  have "sorted_wrt (<) (map (\<lambda>k. timestamp_utc (df ! k)) (dropna_rows df))"
    unfolding sorted_wrt_map
  proof (rule sorted_wrt_mono_rel [OF _ rows(1)])
    fix i j assume "i \<in> set (dropna_rows df)" "j \<in> set (dropna_rows df)" "i < j"
    then show "timestamp_utc (df ! i) < timestamp_utc (df ! j)"
      using assms rows(2) by (auto simp: wf_table_def sorted_wrt_iff_nth_less)
  qed
  then show ?thesis
    by (simp add: dropna_def list_all_iff length_make_frame distinct_make_frame comp_def)
qed

theorem dropna_schema_witness:
  "wf_table spec_example_raw \<and> length (make_frame spec_example_raw) = 63"
proof -
  have "wf_table spec_example_raw" by (simp add: wf_table_def spec_example_raw_def)
  then show ?thesis using dropna_schema [of spec_example_raw] by simp
qed

end
