(* ===== verification/FixGaps.thy ===== *)
theory FixGaps
  imports Candle
begin

text \<open>
  The gap regularizer, \<open>src/data_pipeline/fix_gaps.py\<close> (spec section 4.2).
  \<open>fix_hourly_gaps\<close> sorts the table, builds the hourly grid from its first to its last
  timestamp, reindexes the rows onto the grid and fills the rows the grid adds: the close
  is carried forward from the row before, open, high and low take that close, volume is
  0. It returns the filled table with the number of grid points that had no row.
  \<open>fix_gaps_main\<close> is the entry point that refuses a missing raw file.
\<close>

section \<open>Definitions\<close>

text \<open>The "flat candle" synthesised at a missing grid point.\<close>

definition flat_candle :: "int \<Rightarrow> real \<Rightarrow> candle" where
  "flat_candle g c =
     \<lparr>timestamp_utc = g, open_price = c, high = c, low = c, close = c, volume = 0\<rparr>"

text \<open>
  \<open>df.set_index(...).reindex(full_index)\<close> followed by \<open>close.ffill()\<close>,
  \<open>fillna(close)\<close> on open/high/low and \<open>volume.fillna(0)\<close>, fused into one pass over
  the grid: \<open>prev\<close> is the close of the row before, which is what \<open>ffill\<close> propagates.
\<close>

fun reindex_ffill :: "(int \<Rightarrow> candle option) \<Rightarrow> real \<Rightarrow> int list \<Rightarrow> candle list" where
  "reindex_ffill lk prev [] = []"
| "reindex_ffill lk prev (g # gs) =
     (case lk g of
        Some r \<Rightarrow> r # reindex_ffill lk (close r) gs
      | None \<Rightarrow> flat_candle g prev # reindex_ffill lk prev gs)"

text \<open>
  \<open>fix_hourly_gaps\<close>. An empty table makes \<open>min()\<close> and \<open>max()\<close> \<open>NaT\<close> and
  \<open>pd.date_range\<close> raise; duplicate timestamps make \<open>reindex\<close> raise. The grid starts
  at the first row's own timestamp, so that row is never missing and the initial
  \<open>prev\<close> (the first row's close) is never read (\<open>reindex_ffill_first_present\<close>).
\<close>

definition fix_hourly_gaps :: "table \<Rightarrow> error + table \<times> nat" where
  "fix_hourly_gaps df =
     (let rs = sort_by_ts df in
      if rs = [] then Inl NaTRange
      else
        let full_index = date_range (timestamp_utc (hd rs)) (timestamp_utc (last rs)) in
        if \<not> distinct (map timestamp_utc rs) then Inl DuplicateLabels
        else
          let lk = lookup_ts rs;
              missing = length (filter (\<lambda>g. lk g = None) full_index)
          in Inr (reindex_ffill lk (close (hd rs)) full_index, missing))"

text \<open>\<open>fix_gaps.main\<close>: the raw file (\<open>None\<close> when it does not exist) in, the fixed table out.\<close>

definition fix_gaps_main :: "table option \<Rightarrow> error + table" where
  "fix_gaps_main raw =
     (case raw of
        None \<Rightarrow> Inl RawFileMissing
      | Some df \<Rightarrow> (case fix_hourly_gaps df of Inl e \<Rightarrow> Inl e | Inr (t, _) \<Rightarrow> Inr t))"

definition lookup_sound :: "(int \<Rightarrow> candle option) \<Rightarrow> bool" where
  "lookup_sound lk \<longleftrightarrow> (\<forall>g r. lk g = Some r \<longrightarrow> timestamp_utc r = g)"

text \<open>The abstract specification of the close column (spec section 4.2): at each grid
  point, the close of the last row at or before it that lies on the grid.\<close>

definition last_close_on_grid :: "table \<Rightarrow> int \<Rightarrow> real" where
  "last_close_on_grid df g =
     close (last (filter (\<lambda>r. timestamp_utc r \<le> g \<and> timestamp_utc r \<in> set (date_range (ts_min df) (ts_max df)))
                   (sort_by_ts df)))"

declare flat_candle_def [model_defs] fix_hourly_gaps_def [model_defs]
  fix_gaps_main_def [model_defs] date_range_def [model_defs] grid_count_def [model_defs]
  hour_ms_def [model_defs] lookup_ts_def [model_defs]

section \<open>The fill pass\<close>

lemma length_reindex_ffill [simp]: "length (reindex_ffill lk p gs) = length gs"
  by (induction gs arbitrary: p) (auto split: option.splits)

lemma lookup_sound_lookup_ts: "lookup_sound (lookup_ts t)"
  by (auto simp: lookup_sound_def dest: lookup_ts_Some)

lemma map_ts_reindex_ffill:
  "lookup_sound lk \<Longrightarrow> map timestamp_utc (reindex_ffill lk p gs) = gs"
  by (induction gs arbitrary: p)
    (auto simp: lookup_sound_def flat_candle_def split: option.splits)

text \<open>Row \<open>i\<close> of the result: the row found at grid point \<open>i\<close>, or a flat candle at
  the close of row \<open>i - 1\<close> (at the initial \<open>prev\<close> for \<open>i = 0\<close>).\<close>

lemma nth_reindex_ffill:
  "i < length gs \<Longrightarrow>
   reindex_ffill lk p gs ! i =
     (case lk (gs ! i) of
        Some r \<Rightarrow> r
      | None \<Rightarrow> flat_candle (gs ! i) (if i = 0 then p else close (reindex_ffill lk p gs ! (i - 1))))"
proof (induction gs arbitrary: p i)
  case Nil
  then show ?case by simp
next
  case (Cons g gs)
  show ?case
  proof (cases i)
    case 0
    then show ?thesis by (simp split: option.splits)
  next
    case (Suc j)
    with Cons.prems have j: "j < length gs" by simp
    show ?thesis
    proof (cases "lk g")
      case None
      with Suc Cons.IH [OF j, of p] show ?thesis
        by (cases j) (auto simp: flat_candle_def split: option.splits)
    next
      case (Some r)
      with Suc Cons.IH [OF j, of "close r"] show ?thesis
        by (cases j) (auto split: option.splits)
    qed
  qed
qed

lemma count_flat_reindex_ffill:
  "lookup_sound lk \<Longrightarrow>
   length (filter (\<lambda>r. lk (timestamp_utc r) = None) (reindex_ffill lk p gs)) =
   length (filter (\<lambda>g. lk g = None) gs)"
  by (induction gs arbitrary: p)
    (auto simp: lookup_sound_def flat_candle_def split: option.splits)

lemma reindex_ffill_all_present:
  "lookup_sound lk \<Longrightarrow> (\<forall>g \<in> set gs. lk g \<noteq> None) \<Longrightarrow>
   reindex_ffill lk p gs = map (\<lambda>g. the (lk g)) gs"
  by (induction gs arbitrary: p) auto

section \<open>The result of \<open>fix_hourly_gaps\<close>\<close>

lemma fix_hourly_gaps_Inr_iff:
  "fix_hourly_gaps df = Inr (out, m) \<longleftrightarrow>
     df \<noteq> [] \<and> distinct (map timestamp_utc df) \<and>
     out = reindex_ffill (lookup_ts (sort_by_ts df)) (close (hd (sort_by_ts df)))
             (date_range (ts_min df) (ts_max df)) \<and>
     m = length (filter (\<lambda>g. lookup_ts (sort_by_ts df) g = None)
             (date_range (ts_min df) (ts_max df)))"
proof (cases "df = [] \<or> \<not> distinct (map timestamp_utc df)")
  case True
  then show ?thesis by (auto simp: fix_hourly_gaps_def Let_def)
next
  case False
  then have wf: "wf_table (sort_by_ts df)" and ne: "sort_by_ts df \<noteq> []"
    by (auto simp: wf_table_sort_by_ts)
  have "timestamp_utc (hd (sort_by_ts df)) = ts_min df"
    using wf_table_hd_Min [OF wf ne] by simp
  moreover have "timestamp_utc (last (sort_by_ts df)) = ts_max df"
    using wf_table_last_Max [OF wf ne] by simp
  ultimately show ?thesis
    using False ne by (auto simp: fix_hourly_gaps_def Let_def)
qed

text \<open>Facts every successful run provides, for the theorems below.\<close>

lemma fix_hourly_gaps_facts:
  assumes "fix_hourly_gaps df = Inr (out, m)"
  shows "df \<noteq> []" "distinct (map timestamp_utc df)"
    and "map timestamp_utc out = date_range (ts_min df) (ts_max df)"
    and "ts_min df \<le> ts_max df"
    and "\<And>i. i < length out \<Longrightarrow> out ! i =
           (case lookup_ts (sort_by_ts df) (timestamp_utc (out ! i)) of
              Some r \<Rightarrow> r
            | None \<Rightarrow> flat_candle (timestamp_utc (out ! i))
                (if i = 0 then close (hd (sort_by_ts df)) else close (out ! (i - 1))))"
proof -
  note eq = assms [unfolded fix_hourly_gaps_Inr_iff]
  show ne: "df \<noteq> []" and d: "distinct (map timestamp_utc df)" using eq by simp_all
  show ts: "map timestamp_utc out = date_range (ts_min df) (ts_max df)"
    using eq by (simp add: map_ts_reindex_ffill lookup_sound_lookup_ts)
  from ne obtain r where "r \<in> set df" by (cases df) auto
  then show "ts_min df \<le> ts_max df"
    by (meson Max_ge Min_le finite_imageI finite_set imageI order_trans)
  fix i assume i: "i < length out"
  let ?lk = "lookup_ts (sort_by_ts df)" and ?p = "close (hd (sort_by_ts df))"
    and ?grid = "date_range (ts_min df) (ts_max df)"
  have out: "out = reindex_ffill ?lk ?p ?grid" using eq by simp
  have g: "timestamp_utc (out ! i) = ?grid ! i"
    using ts i by (metis nth_map)
  show "out ! i = (case ?lk (timestamp_utc (out ! i)) of Some r \<Rightarrow> r
      | None \<Rightarrow> flat_candle (timestamp_utc (out ! i)) (if i = 0 then ?p else close (out ! (i - 1))))"
    unfolding g using i unfolding out by (simp add: nth_reindex_ffill)
qed

lemma lookup_sort_by_ts_None:
  "lookup_ts (sort_by_ts df) g = None \<longleftrightarrow> g \<notin> timestamp_utc ` set df"
  by (simp add: lookup_ts_None)

lemma lookup_sort_by_ts_Some:
  "distinct (map timestamp_utc df) \<Longrightarrow> r \<in> set df \<Longrightarrow>
   lookup_ts (sort_by_ts df) (timestamp_utc r) = Some r"
  by (simp add: lookup_ts_distinct)

lemma ts_min_in: "df \<noteq> [] \<Longrightarrow> ts_min df \<in> timestamp_utc ` set df"
  by (simp add: Min_in)

lemma in_span_grid:
  "r \<in> set df \<Longrightarrow> timestamp_utc r \<in> set (date_range (ts_min df) (ts_max df)) \<longleftrightarrow>
     hour_ms dvd (timestamp_utc r - ts_min df)"
  by (simp add: in_date_range_iff)

text \<open>The output is a non-empty well-formed table whose own span grid is exactly its
  timestamps.\<close>

lemma fix_hourly_gaps_out_grid:
  assumes "fix_hourly_gaps df = Inr (out, m)"
  shows "out \<noteq> [] \<and> wf_table out \<and>
         date_range (ts_min out) (ts_max out) = map timestamp_utc out"
proof -
  note f = fix_hourly_gaps_facts [OF assms]
  let ?ts = "map timestamp_utc out"
  have wf: "wf_table out" and hourly: "is_hourly ?ts"
    using f(3) by (simp_all add: wf_table_def strict_sorted_date_range is_hourly_date_range)
  have ne: "out \<noteq> []"
  proof
    assume "out = []"
    with f(3) have "date_range (ts_min df) (ts_max df) = []" by simp
    with f(4) show False by simp
  qed
  have "?ts = date_range (hd ?ts) (last ?ts)"
    using hourly ne by (simp add: is_hourly_eq_date_range)
  also have "hd ?ts = ts_min out" using wf_table_hd_Min [OF wf ne] ne by (simp add: hd_map)
  also have "last ?ts = ts_max out" using wf_table_last_Max [OF wf ne] ne by (simp add: last_map)
  finally show ?thesis using ne wf by simp
qed

lemma candle_valid_flat: "candle_valid (flat_candle g c) \<longleftrightarrow> 0 < c"
  by (auto simp: candle_valid_def flat_candle_def)

lemma candle_valid_filled:
  assumes "\<forall>r \<in> set df. candle_valid r" "0 < c"
    and "x = (case lookup_ts (sort_by_ts df) g of Some r \<Rightarrow> r | None \<Rightarrow> flat_candle g c)"
  shows "candle_valid x"
  using assms by (auto simp: candle_valid_flat dest: lookup_ts_Some split: option.splits)

text \<open>Valid input rows give valid output rows: a synthesised row copies a positive close.\<close>

lemma fix_hourly_gaps_valid_rows:
  assumes "fix_hourly_gaps df = Inr (out, m)" and "\<forall>r \<in> set df. candle_valid r"
  shows "\<forall>r \<in> set out. candle_valid r"
proof -
  note f = fix_hourly_gaps_facts [OF assms(1)]
  have "candle_valid (out ! i)" if "i < length out" for i
    using that
  proof (induction i)
    case 0
    have "hd (sort_by_ts df) \<in> set df"
      using f(1) by (metis hd_in_set set_sort_key sort_key_eq_Nil_iff)
    then have "0 < close (hd (sort_by_ts df))"
      using assms(2) by (simp add: candle_valid_def)
    then show ?case by (rule candle_valid_filled [OF assms(2) _ f(5) [OF "0.prems"], simplified])
  next
    case (Suc i)
    then have "0 < close (out ! i)" by (simp add: candle_valid_def)
    then show ?case by (rule candle_valid_filled [OF assms(2) _ f(5) [OF Suc.prems], simplified])
  qed
  then show ?thesis by (metis in_set_conv_nth)
qed

section \<open>Properties of the regularizer\<close>

text \<open>
  C1 (grid completeness, spec sections 4.2 and 8): whenever the regularizer returns, its
  timestamps are exactly the hourly grid from the input's minimum to its maximum
  timestamp, so it has \<open>floor((max - min) / 1h) + 1\<close> rows, strictly increasing, one
  hour apart, with no gap and no duplicate.
\<close>

theorem fix_hourly_gaps_grid:
  assumes "fix_hourly_gaps df = Inr (out, missing)"
  shows "map timestamp_utc out = date_range (ts_min df) (ts_max df) \<and>
         length out = grid_count (ts_min df) (ts_max df) \<and>
         wf_table out \<and> is_hourly (map timestamp_utc out)"
proof -
  note f = fix_hourly_gaps_facts [OF assms]
  have "length out = length (date_range (ts_min df) (ts_max df))"
    using f(3) by (metis length_map)
  with f(4) have "length out = grid_count (ts_min df) (ts_max df)"
    by (simp add: length_date_range)
  with f(3) show ?thesis
    by (simp add: wf_table_def strict_sorted_date_range is_hourly_date_range)
qed

theorem fix_hourly_gaps_grid_witness:
  "fix_hourly_gaps spec_example_raw = Inr (fst (projr (fix_hourly_gaps spec_example_raw)), 2) \<and>
   length (fst (projr (fix_hourly_gaps spec_example_raw))) =
     grid_count (ts_min spec_example_raw) (ts_max spec_example_raw)"
proof -
  have h: "fix_hourly_gaps spec_example_raw = Inr (fst (projr (fix_hourly_gaps spec_example_raw)), 2)"
    by code_simp
  show ?thesis using fix_hourly_gaps_grid [OF h] h by simp
qed

lemma fix_hourly_gaps_spec_example:
  "fix_hourly_gaps spec_example_raw = Inr (spec_example_fixed, 2)"
  by code_simp

text \<open>
  C2 (flat-fill correctness, spec sections 4.2 and 8): a row of the output whose
  timestamp is not in the input is never the first row, and it is the flat candle at
  the previous row's close: open, high, low and close all equal that close, volume 0.
\<close>

theorem fix_hourly_gaps_flat_fill:
  assumes "fix_hourly_gaps df = Inr (out, missing)" and "i < length out"
    and "timestamp_utc (out ! i) \<notin> timestamp_utc ` set df"
  shows "0 < i \<and> out ! i = flat_candle (timestamp_utc (out ! i)) (close (out ! (i - 1)))"
proof -
  note f = fix_hourly_gaps_facts [OF assms(1)]
  have "i \<noteq> 0"
  proof
    assume "i = 0"
    then have "timestamp_utc (out ! i) = hd (date_range (ts_min df) (ts_max df))"
      using f(3) assms(2) by (metis hd_conv_nth hd_map list.map_disc_iff length_greater_0_conv)
    also have "\<dots> = ts_min df" using f(4) by (rule hd_date_range)
    finally show False using assms(3) ts_min_in [OF f(1)] by simp
  qed
  moreover have "lookup_ts (sort_by_ts df) (timestamp_utc (out ! i)) = None"
    using assms(3) by (simp add: lookup_sort_by_ts_None)
  ultimately show ?thesis using f(5) [OF assms(2)] by simp
qed

theorem fix_hourly_gaps_flat_fill_witness:
  "0 < (2::nat) \<and> spec_example_fixed ! 2 =
     flat_candle (timestamp_utc (spec_example_fixed ! 2)) (close (spec_example_fixed ! 1))"
proof -
  have "2 < length spec_example_fixed"
    and "timestamp_utc (spec_example_fixed ! 2) \<notin> timestamp_utc ` set spec_example_raw"
    by (simp_all add: spec_example_fixed_def spec_example_raw_def)
  from fix_hourly_gaps_flat_fill [OF fix_hourly_gaps_spec_example this] show ?thesis by simp
qed

text \<open>
  C3 (the input's rows survive where the grid has them): the output rows that carry an
  input timestamp are exactly the input rows that lie on the hourly grid from the
  minimum timestamp, unchanged. Rows off that grid are dropped (see the finding on
  \<open>fix_hourly_gaps_drops_off_grid\<close>).
\<close>

theorem fix_hourly_gaps_rows:
  assumes "fix_hourly_gaps df = Inr (out, missing)"
  shows "{r \<in> set out. timestamp_utc r \<in> timestamp_utc ` set df} =
         {r \<in> set df. hour_ms dvd (timestamp_utc r - ts_min df)}"
proof (intro set_eqI iffI)
  note f = fix_hourly_gaps_facts [OF assms]
  fix r
  assume "r \<in> {r \<in> set out. timestamp_utc r \<in> timestamp_utc ` set df}"
  then obtain i where i: "i < length out" "out ! i = r" and ts: "timestamp_utc r \<in> timestamp_utc ` set df"
    by (auto simp: in_set_conv_nth)
  then obtain r' where r': "lookup_ts (sort_by_ts df) (timestamp_utc r) = Some r'"
    by (cases "lookup_ts (sort_by_ts df) (timestamp_utc r)") (simp_all add: lookup_sort_by_ts_None)
  then have "r' \<in> set df" "timestamp_utc r' = timestamp_utc r"
    using lookup_ts_Some by fastforce+
  moreover have "r = r'" using f(5) [OF i(1)] i(2) r' by simp
  moreover have "timestamp_utc r \<in> set (date_range (ts_min df) (ts_max df))"
    using f(3) i by (metis nth_map nth_mem length_map)
  ultimately show "r \<in> {r \<in> set df. hour_ms dvd (timestamp_utc r - ts_min df)}"
    using in_span_grid by blast
next
  note f = fix_hourly_gaps_facts [OF assms]
  fix r
  assume r: "r \<in> {r \<in> set df. hour_ms dvd (timestamp_utc r - ts_min df)}"
  then have "timestamp_utc r \<in> set (map timestamp_utc out)"
    using f(3) in_span_grid by auto
  then obtain i where i: "i < length out" "timestamp_utc (out ! i) = timestamp_utc r"
    by (auto simp: in_set_conv_nth)
  have "lookup_ts (sort_by_ts df) (timestamp_utc r) = Some r"
    using r f(2) by (simp add: lookup_sort_by_ts_Some)
  then have "out ! i = r" using f(5) [OF i(1)] i(2) by simp
  then show "r \<in> {r \<in> set out. timestamp_utc r \<in> timestamp_utc ` set df}"
    using i r by (auto intro: nth_mem)
qed

theorem fix_hourly_gaps_rows_witness:
  "{r \<in> set spec_example_fixed. timestamp_utc r \<in> timestamp_utc ` set spec_example_raw} =
   {r \<in> set spec_example_raw. hour_ms dvd (timestamp_utc r - ts_min spec_example_raw)}"
  by (rule fix_hourly_gaps_rows [OF fix_hourly_gaps_spec_example])

text \<open>
  C4 (missing count, spec section 4.2): the returned count is the number of output rows
  whose timestamp the input does not have, i.e. the rows the regularizer synthesised;
  when every input row lies on the grid, count and input rows add up to the output.
\<close>

theorem fix_hourly_gaps_missing:
  assumes "fix_hourly_gaps df = Inr (out, missing)"
  shows "missing = length (filter (\<lambda>r. timestamp_utc r \<notin> timestamp_utc ` set df) out) \<and>
         ((\<forall>r \<in> set df. hour_ms dvd (timestamp_utc r - ts_min df)) \<longrightarrow>
            missing + length df = length out)"
proof -
  let ?lk = "lookup_ts (sort_by_ts df)" and ?grid = "date_range (ts_min df) (ts_max df)"
    and ?S = "timestamp_utc ` set df"
  note eq = assms [unfolded fix_hourly_gaps_Inr_iff]
  note f = fix_hourly_gaps_facts [OF assms]
  have m: "missing = length (filter (\<lambda>g. g \<notin> ?S) ?grid)"
    using eq by (simp add: lookup_sort_by_ts_None)
  have "length (filter (\<lambda>r. timestamp_utc r \<notin> ?S) out) =
        length (filter (\<lambda>r. ?lk (timestamp_utc r) = None) out)"
    by (simp add: lookup_sort_by_ts_None)
  also have "\<dots> = length (filter (\<lambda>g. ?lk g = None) ?grid)"
    using eq by (simp add: count_flat_reindex_ffill lookup_sound_lookup_ts)
  finally have c1: "missing = length (filter (\<lambda>r. timestamp_utc r \<notin> ?S) out)"
    using m by (simp add: lookup_sort_by_ts_None)
  have c2: "missing + length df = length out"
    if on_grid: "\<forall>r \<in> set df. hour_ms dvd (timestamp_utc r - ts_min df)"
  proof -
    have sub: "?S \<subseteq> set ?grid" using on_grid in_span_grid by blast
    have "length (filter (\<lambda>g. g \<in> ?S) ?grid) = card ?S"
      using sub by (simp add: distinct_length_filter distinct_date_range Int_absorb2 Collect_mem_eq)
    also have "\<dots> = length df"
      using f(2) by (metis distinct_card length_map set_map)
    finally have "length (filter (\<lambda>g. g \<in> ?S) ?grid) = length df" .
    moreover have "length out = length ?grid" using f(3) by (metis length_map)
    ultimately show ?thesis
      using m sum_length_filter_compl [of "\<lambda>g. g \<in> ?S" ?grid] by simp
  qed
  from c1 c2 show ?thesis by blast
qed

theorem fix_hourly_gaps_missing_witness:
  "(2::nat) = length (filter (\<lambda>r. timestamp_utc r \<notin> timestamp_utc ` set spec_example_raw)
      spec_example_fixed) \<and>
   2 + length spec_example_raw = length spec_example_fixed"
proof -
  have on: "\<forall>r \<in> set spec_example_raw. hour_ms dvd (timestamp_utc r - ts_min spec_example_raw)"
    by (simp add: spec_example_raw_def hour_ms_def)
  from fix_hourly_gaps_missing [OF fix_hourly_gaps_spec_example] on show ?thesis by simp
qed

text \<open>
  C5 (errors as values, spec section 7): the regularizer fails exactly on an empty table
  (\<open>pd.date_range\<close> on \<open>NaT\<close>) and on a table with a repeated timestamp
  (\<open>reindex\<close> on duplicate labels), in that order of checks; otherwise it returns.
\<close>

theorem fix_hourly_gaps_errors:
  "fix_hourly_gaps df = Inl e \<longleftrightarrow>
     (df = [] \<and> e = NaTRange) \<or>
     (df \<noteq> [] \<and> \<not> distinct (map timestamp_utc df) \<and> e = DuplicateLabels)"
  by (auto simp: fix_hourly_gaps_def Let_def)

theorem fix_hourly_gaps_errors_witness:
  "fix_hourly_gaps [] = Inl NaTRange \<and>
   fix_hourly_gaps (spec_example_raw @ spec_example_raw) = Inl DuplicateLabels"
proof -
  have "\<not> distinct (map timestamp_utc (spec_example_raw @ spec_example_raw))"
    by (simp add: spec_example_raw_def)
  then show ?thesis
    using fix_hourly_gaps_errors [of "[]" NaTRange]
      fix_hourly_gaps_errors [of "spec_example_raw @ spec_example_raw" DuplicateLabels]
    by (simp add: spec_example_raw_def)
qed

text \<open>
  C6 (idempotence): regularizing a regularized table changes nothing and reports no
  missing rows.
\<close>

theorem fix_hourly_gaps_idempotent:
  assumes "fix_hourly_gaps df = Inr (out, missing)"
  shows "fix_hourly_gaps out = Inr (out, 0)"
proof -
  let ?ts = "map timestamp_utc out"
  have ne: "out \<noteq> []" and wf: "wf_table out"
    and grid: "date_range (ts_min out) (ts_max out) = ?ts"
    using fix_hourly_gaps_out_grid [OF assms] by simp_all
  have srt: "sort_by_ts out = out" using wf by (rule wf_table_sorted_id)
  have d: "distinct ?ts" using wf by (rule wf_table_distinct)
  have all: "\<forall>g \<in> set ?ts. lookup_ts out g \<noteq> None"
    by (simp add: lookup_ts_None)
  have "reindex_ffill (lookup_ts out) (close (hd out)) ?ts = map (\<lambda>g. the (lookup_ts out g)) ?ts"
    using all by (simp add: reindex_ffill_all_present lookup_sound_lookup_ts)
  also have "\<dots> = out"
    using d by (simp add: map_idI lookup_ts_distinct)
  finally show ?thesis
    using ne d srt grid all by (simp add: fix_hourly_gaps_Inr_iff filter_empty_conv)
qed

theorem fix_hourly_gaps_idempotent_witness:
  "fix_hourly_gaps spec_example_fixed = Inr (spec_example_fixed, 0)"
  by (rule fix_hourly_gaps_idempotent [OF fix_hourly_gaps_spec_example])

text \<open>
  C7 (off-grid rows are dropped): a row whose timestamp is not a whole number of hours
  after the first one is not on the grid, and \<open>reindex\<close> drops it without a trace:
  its timestamp is absent from the output.
\<close>

theorem fix_hourly_gaps_drops_off_grid:
  assumes "fix_hourly_gaps df = Inr (out, missing)" and "r \<in> set df"
    and "\<not> hour_ms dvd (timestamp_utc r - ts_min df)"
  shows "timestamp_utc r \<notin> timestamp_utc ` set out"
  using fix_hourly_gaps_facts(3) [OF assms(1)] assms(2,3) in_span_grid
  by (metis list.set_map)

theorem fix_hourly_gaps_drops_off_grid_witness:
  "timestamp_utc half_hour_row \<notin>
     timestamp_utc ` set (fst (projr (fix_hourly_gaps (half_hour_row # spec_example_raw))))"
proof -
  let ?df = "half_hour_row # spec_example_raw"
  have run: "fix_hourly_gaps ?df = Inr (fst (projr (fix_hourly_gaps ?df)), 2)"
    by code_simp
  have "\<not> hour_ms dvd (timestamp_utc half_hour_row - ts_min ?df)"
    by (simp add: half_hour_row_def spec_example_raw_def hour_ms_def)
  from fix_hourly_gaps_drops_off_grid [OF run _ this] show ?thesis by simp
qed

lemma locf_grid_point:
  assumes "fix_hourly_gaps df = Inr (out, missing)" and "i < length out"
  shows "timestamp_utc (out ! i) = ts_min df + int i * hour_ms \<and>
         timestamp_utc (out ! i) \<in> set (date_range (ts_min df) (ts_max df))"
proof -
  note f = fix_hourly_gaps_facts [OF assms(1)]
  have "length out = length (date_range (ts_min df) (ts_max df))" using f(3) by (metis length_map)
  then show ?thesis using f(3) assms(2) by (metis nth_map nth_date_range nth_mem)
qed

text \<open>A grid point that has a row: the abstract close is that row's close.\<close>

lemma locf_present:
  assumes "fix_hourly_gaps df = Inr (out, missing)" and i: "i < length out"
    and r: "lookup_ts (sort_by_ts df) (timestamp_utc (out ! i)) = Some r"
  shows "close (out ! i) = last_close_on_grid df (timestamp_utc (out ! i))"
proof -
  note f = fix_hourly_gaps_facts [OF assms(1)]
  have wf: "wf_table (sort_by_ts df)" using f(2) by (rule wf_table_sort_by_ts)
  have r': "r \<in> set (sort_by_ts df)" "timestamp_utc r = timestamp_utc (out ! i)"
    using lookup_ts_Some [OF r] by auto
  have "out ! i = r" using f(5) [OF i] r by simp
  moreover have "last (filter (\<lambda>x. timestamp_utc x \<le> timestamp_utc (out ! i) \<and>
      timestamp_utc x \<in> set (date_range (ts_min df) (ts_max df))) (sort_by_ts df)) = r"
    by (rule last_filter_max [OF wf]) (use r' locf_grid_point [OF assms(1) i] in auto)
  ultimately show ?thesis by (simp add: last_close_on_grid_def)
qed

text \<open>A grid point without a row adds no on-grid observation to those of the point
  before it.\<close>

lemma locf_absent:
  assumes "fix_hourly_gaps df = Inr (out, missing)" and si: "Suc i < length out"
    and none: "lookup_ts (sort_by_ts df) (timestamp_utc (out ! Suc i)) = None"
  shows "last_close_on_grid df (timestamp_utc (out ! Suc i)) = last_close_on_grid df (timestamp_utc (out ! i))"
proof -
  let ?grid = "date_range (ts_min df) (ts_max df)"
  have i: "i < length out" using si by simp
  have "filter (\<lambda>x. timestamp_utc x \<le> timestamp_utc (out ! i) \<and> timestamp_utc x \<in> set ?grid) (sort_by_ts df) =
        filter (\<lambda>x. timestamp_utc x \<le> timestamp_utc (out ! Suc i) \<and> timestamp_utc x \<in> set ?grid) (sort_by_ts df)"
  proof (rule filter_cong [OF refl])
    fix x assume x: "x \<in> set (sort_by_ts df)"
    show "(timestamp_utc x \<le> timestamp_utc (out ! i) \<and> timestamp_utc x \<in> set ?grid) =
          (timestamp_utc x \<le> timestamp_utc (out ! Suc i) \<and> timestamp_utc x \<in> set ?grid)"
    proof (cases "timestamp_utc x \<in> set ?grid")
      case True
      then obtain k where k: "k < length ?grid" "timestamp_utc x = ts_min df + int k * hour_ms"
        by (metis in_set_conv_nth nth_date_range)
      have "timestamp_utc x \<noteq> timestamp_utc (out ! Suc i)"
        using none x by (metis image_eqI lookup_sort_by_ts_None set_sort_key)
      then have "k \<noteq> Suc i" using k locf_grid_point [OF assms(1) si] by auto
      then have iff: "k \<le> i \<longleftrightarrow> k \<le> Suc i" by auto
      have mono: "timestamp_utc x \<le> ts_min df + int j * hour_ms \<longleftrightarrow> k \<le> j" for j
        unfolding k(2) by (simp add: mult_le_cancel_right_pos [OF hour_ms_pos])
      show ?thesis
        unfolding conjunct1 [OF locf_grid_point [OF assms(1) i]]
          conjunct1 [OF locf_grid_point [OF assms(1) si]] mono
        using iff True by simp
    qed simp
  qed
  then show ?thesis by (simp add: last_close_on_grid_def)
qed

text \<open>
  C39 (refinement of last-observation-carried-forward): the close column the
  regularizer produces by its single forward-fill pass equals, at every grid point, the
  abstract specification \<open>last_close_on_grid\<close>: the close of the latest input row at or
  before that point whose timestamp lies on the grid.
\<close>

theorem fix_hourly_gaps_locf:
  assumes "fix_hourly_gaps df = Inr (out, missing)"
  shows "map close out = map (last_close_on_grid df) (map timestamp_utc out)"
proof -
  note f = fix_hourly_gaps_facts [OF assms]
  have "close (out ! i) = last_close_on_grid df (timestamp_utc (out ! i))" if "i < length out" for i
    using that
  proof (induction i)
    case 0
    obtain r where r: "r \<in> set df" "timestamp_utc r = ts_min df" using ts_min_in [OF f(1)] by auto
    have "timestamp_utc (out ! 0) = ts_min df"
      using locf_grid_point [OF assms "0.prems"] by simp
    then have "lookup_ts (sort_by_ts df) (timestamp_utc (out ! 0)) = Some r"
      using lookup_sort_by_ts_Some [OF f(2) r(1)] r(2) by simp
    then show ?case by (rule locf_present [OF assms "0.prems"])
  next
    case (Suc i)
    show ?case
    proof (cases "lookup_ts (sort_by_ts df) (timestamp_utc (out ! Suc i))")
      case (Some r)
      then show ?thesis by (rule locf_present [OF assms Suc.prems])
    next
      case None
      have "close (out ! Suc i) = close (out ! i)"
        by (subst f(5) [OF Suc.prems]) (simp add: None flat_candle_def)
      with Suc.IH Suc.prems locf_absent [OF assms Suc.prems None] show ?thesis by simp
    qed
  qed
  then show ?thesis by (simp add: list_eq_iff_nth_eq)
qed

theorem fix_hourly_gaps_locf_witness:
  "map close spec_example_fixed = map (last_close_on_grid spec_example_raw) (map timestamp_utc spec_example_fixed)"
  by (rule fix_hourly_gaps_locf [OF fix_hourly_gaps_spec_example])

end
