(* ===== verification/Downloader.thy ===== *)
theory Downloader
  imports Candle
begin

text \<open>
  The incremental downloader, \<open>download_incremental\<close> in
  \<open>src/data_pipeline/download_ohlcv.py\<close> (spec section 4.1). The exchange is a
  parameter: the answer of the \<open>n\<close>-th call of \<open>ex.fetch_ohlcv(symbol, since=s,
  limit=1000)\<close>, either an exception (\<open>Inl\<close>) or a page of candles. The page loop runs
  over an explicit state record (batch counter, cursor, pages, and the trace of
  requests and rate-limit sleeps the run performs) and is a \<open>function\<close> whose
  termination measure is \<open>max_batches - batch\<close>, the loop's own bound.
\<close>

section \<open>Definitions\<close>

text \<open>What the run does, in order: each request with its cursor, each rate-limit sleep
  (milliseconds), and the logged fetch error that ends the loop.\<close>

datatype event = Request int | Sleep nat | FetchFailed

type_synonym exchange = "nat \<Rightarrow> int \<Rightarrow> unit + candle list"

text \<open>The page size the code requests (\<open>limit=1000\<close>) and the fixed floor of the
  history, \<open>datetime(2017, 1, 1, tzinfo=timezone.utc)\<close> in milliseconds.\<close>

definition page_limit :: nat where
  "page_limit = 1000"

definition epoch_floor_ms :: int where
  "epoch_floor_ms = 1483228800000"

text \<open>\<open>rate_ms = int(getattr(ex, "rateLimit", 1000) or 1000)\<close>: an absent attribute
  (\<open>None\<close>) gives 1000, and so does 0, which Python's \<open>or\<close> treats as false.\<close>

definition rate_limit_ms :: "nat option \<Rightarrow> nat" where
  "rate_limit_ms rl = (case rl of None \<Rightarrow> 1000 | Some r \<Rightarrow> if r = 0 then 1000 else r)"

text \<open>
  The start cursor (lines 51--68): an existing non-empty table resumes one millisecond
  after its latest timestamp; an existing empty file restarts at the floor; without a
  file the \<open>since\<close> hint (already parsed to milliseconds; \<open>None\<close> for a missing or
  empty string) is used, else the floor.
\<close>

definition start_since :: "table option \<Rightarrow> int option \<Rightarrow> int" where
  "start_since existing since =
     (case existing of
        Some df \<Rightarrow> if df \<noteq> [] then list_max (map timestamp_utc df) + 1 else epoch_floor_ms
      | None \<Rightarrow> (case since of Some s \<Rightarrow> s | None \<Rightarrow> epoch_floor_ms))"

record dl_state =
  batch :: int
  since_ms :: int
  all_rows :: "candle list list"
  trace :: "event list"

text \<open>
  The \<open>while batch < max_batches\<close> loop (lines 74--102). A fetch exception is logged
  and ends the loop; an empty page ends it; otherwise the page is kept, the cursor moves
  one millisecond past the page's latest timestamp, the loop sleeps \<open>rate_ms\<close>, and a
  page shorter than 1000 rows ends it.
\<close>

function fetch_loop :: "exchange \<Rightarrow> nat \<Rightarrow> int \<Rightarrow> dl_state \<Rightarrow> dl_state" where
  "fetch_loop ex rate_ms max_batches st =
     (if batch st < max_batches then
        let b = batch st + 1;
            st1 = st\<lparr>batch := b, trace := trace st @ [Request (since_ms st)]\<rparr>
        in (case ex (nat b) (since_ms st) of
              Inl _ \<Rightarrow> st1\<lparr>trace := trace st1 @ [FetchFailed]\<rparr>
            | Inr ohlcv \<Rightarrow>
                if ohlcv = [] then st1
                else
                  let st2 = st1\<lparr>all_rows := all_rows st1 @ [ohlcv],
                                since_ms := list_max (map timestamp_utc ohlcv) + 1,
                                trace := trace st1 @ [Sleep rate_ms]\<rparr>
                  in if length ohlcv < page_limit then st2
                     else fetch_loop ex rate_ms max_batches st2)
      else st)"
  by pat_completeness auto
termination
  by (relation "measure (\<lambda>(ex, r, mb, st). nat (mb - batch st))") auto

text \<open>
  The merge (lines 104--120): the stored rows first, then the fetched pages in order,
  \<open>drop_duplicates(subset=["timestamp_utc"])\<close> keeping the first copy, then
  \<open>sort_values("timestamp_utc")\<close>.
\<close>

definition merge_tables :: "table \<Rightarrow> candle list list \<Rightarrow> table" where
  "merge_tables df_existing pages =
     sort_by_ts (dedup_by timestamp_utc [] (df_existing @ concat pages))"

text \<open>
  \<open>download_incremental\<close>: \<open>None\<close> for an exchange name ccxt does not know
  (\<open>_make_exchange\<close> raises), the \<open>rateLimit\<close> attribute, the stored table
  (\<open>None\<close> when the parquet file does not exist), the \<open>since\<close> hint and
  \<open>max_batches\<close>. The result is the table it persists and the trace of the run.
\<close>

text \<open>The loop's start state: no batch yet, the start cursor, no rows, an empty trace.\<close>

definition dl_init :: "int \<Rightarrow> dl_state" where
  "dl_init since = \<lparr>batch = 0, since_ms = since, all_rows = [], trace = []\<rparr>"

definition download_incremental ::
  "exchange option \<Rightarrow> nat option \<Rightarrow> table option \<Rightarrow> int option \<Rightarrow> int \<Rightarrow>
   error + table \<times> event list" where
  "download_incremental exo rl existing since max_batches =
     (case exo of
        None \<Rightarrow> Inl UnknownExchange
      | Some ex \<Rightarrow>
          let st = fetch_loop ex (rate_limit_ms rl) max_batches (dl_init (start_since existing since));
              df_existing = (case existing of None \<Rightarrow> [] | Some df \<Rightarrow> df)
          in Inr (merge_tables df_existing (all_rows st), trace st))"

text \<open>The contract of the exchange that the cursor argument needs: every candle of a
  page answered for cursor \<open>s\<close> is at or after \<open>s\<close>.\<close>

definition honours_since :: "exchange \<Rightarrow> bool" where
  "honours_since ex \<longleftrightarrow> (\<forall>n s p r. ex n s = Inr p \<longrightarrow> r \<in> set p \<longrightarrow> s \<le> timestamp_utc r)"

fun requests :: "event list \<Rightarrow> int list" where
  "requests [] = []"
| "requests (Request s # es) = s # requests es"
| "requests (_ # es) = requests es"

text \<open>Rate limiting as a property of a trace: every request but the first comes right
  after a sleep of \<open>r\<close> milliseconds.\<close>

definition paced :: "nat \<Rightarrow> event list \<Rightarrow> bool" where
  "paced r tr \<longleftrightarrow> (\<forall>i. Suc i < length tr \<longrightarrow> (\<exists>s. tr ! Suc i = Request s) \<longrightarrow> tr ! i = Sleep r)"

text \<open>Exchanges used to exercise the theorems: one that has nothing new, one that replays a
  stored table (pagination overlap), one that answers a single candle at the cursor, and
  one whose every request fails.\<close>

definition no_new_data :: exchange where
  "no_new_data n s = Inr []"

definition replay_exchange :: "table \<Rightarrow> exchange" where
  "replay_exchange t n s = Inr t"

definition one_candle_exchange :: exchange where
  "one_candle_exchange n s =
     Inr [\<lparr>timestamp_utc = s, open_price = 1, high = 1, low = 1, close = 1, volume = 1\<rparr>]"

definition failing_exchange :: exchange where
  "failing_exchange n s = Inl ()"

declare fetch_loop.simps [simp del]

section \<open>The page loop\<close>

lemma requests_append [simp]: "requests (xs @ ys) = requests xs @ requests ys"
  by (induction xs rule: requests.induct) auto

lemma paced_snoc:
  "paced r (tr @ [e]) \<longleftrightarrow> paced r tr \<and> (tr \<noteq> [] \<longrightarrow> (\<exists>s. e = Request s) \<longrightarrow> last tr = Sleep r)"
  by (auto simp: paced_def nth_append last_conv_nth less_Suc_eq)
    (metis One_nat_def diff_Suc_1)

lemma paced_snoc2:
  "paced r (tr @ [e1, e2]) \<longleftrightarrow> paced r (tr @ [e1]) \<and> ((\<exists>s. e2 = Request s) \<longrightarrow> e1 = Sleep r)"
  using paced_snoc [of r "tr @ [e1]" e2] by simp

text \<open>One unfolding of the loop, for exactly the given arguments.\<close>

lemmas fetch_loop_unfold = fetch_loop.simps [of ex r mb st] for ex r mb st

text \<open>Every run of the loop only appends to the trace and the pages, and every page
  it keeps is an answer of the exchange.\<close>

lemma fetch_loop_extends:
  "\<exists>tr' ps. trace (fetch_loop ex r mb st) = trace st @ tr' \<and>
            all_rows (fetch_loop ex r mb st) = all_rows st @ ps \<and>
            (\<forall>p \<in> set ps. \<exists>n s. ex n s = Inr p \<and> p \<noteq> [])"
proof (induction ex r mb st rule: fetch_loop.induct)
  case (1 ex r mb st)
  show ?case
  proof (cases "batch st < mb")
    case False
    then show ?thesis by (simp add: fetch_loop_unfold)
  next
    case True
    show ?thesis
    proof (cases "ex (nat (batch st + 1)) (since_ms st)")
      case (Inl u)
      with True show ?thesis by (simp add: fetch_loop_unfold)
    next
      case (Inr p)
      show ?thesis
      proof (cases "p = [] \<or> length p < page_limit")
        case True
        with \<open>batch st < mb\<close> Inr show ?thesis by (auto simp: fetch_loop_unfold Let_def)
      next
        case False
        let ?st2 = "st\<lparr>batch := batch st + 1, trace := trace st @ [Request (since_ms st)],
              all_rows := all_rows st @ [p], since_ms := list_max (map timestamp_utc p) + 1,
              trace := (trace st @ [Request (since_ms st)]) @ [Sleep r]\<rparr>"
        from "1" [OF True refl refl Inr] False obtain tr' ps where
          ih: "trace (fetch_loop ex r mb ?st2) = trace ?st2 @ tr'"
              "all_rows (fetch_loop ex r mb ?st2) = all_rows ?st2 @ ps"
              "\<forall>p \<in> set ps. \<exists>n s. ex n s = Inr p \<and> p \<noteq> []"
          by auto
        have "fetch_loop ex r mb st = fetch_loop ex r mb ?st2"
          using \<open>batch st < mb\<close> Inr False by (simp add: fetch_loop_unfold)
        with ih Inr False show ?thesis by (intro exI [of _ "[Request (since_ms st), Sleep r] @ tr'"]
            exI [of _ "p # ps"]) auto
      qed
    qed
  qed
qed

text \<open>
  The loop's invariant rule. \<open>I\<close> holds before every iteration; \<open>Q\<close> must hold
  wherever the loop stops: at the batch bound, after a failed fetch, after an empty page
  and after a short page. A full page must re-establish \<open>I\<close>.
\<close>

lemma fetch_loop_rule:
  assumes init: "I st"
    and stop: "\<And>st. I st \<Longrightarrow> \<not> batch st < mb \<Longrightarrow> Q st"
    and fail: "\<And>st u. I st \<Longrightarrow> batch st < mb \<Longrightarrow> ex (nat (batch st + 1)) (since_ms st) = Inl u \<Longrightarrow>
        Q (st\<lparr>batch := batch st + 1, trace := trace st @ [Request (since_ms st), FetchFailed]\<rparr>)"
    and empty: "\<And>st. I st \<Longrightarrow> batch st < mb \<Longrightarrow> ex (nat (batch st + 1)) (since_ms st) = Inr [] \<Longrightarrow>
        Q (st\<lparr>batch := batch st + 1, trace := trace st @ [Request (since_ms st)]\<rparr>)"
    and page: "\<And>st p. I st \<Longrightarrow> batch st < mb \<Longrightarrow> ex (nat (batch st + 1)) (since_ms st) = Inr p \<Longrightarrow>
        p \<noteq> [] \<Longrightarrow>
        (if length p < page_limit then Q else I)
          (st\<lparr>batch := batch st + 1, all_rows := all_rows st @ [p],
               since_ms := list_max (map timestamp_utc p) + 1,
               trace := trace st @ [Request (since_ms st), Sleep r]\<rparr>)"
  shows "Q (fetch_loop ex r mb st)"
  using init
proof (induction "nat (mb - batch st)" arbitrary: st rule: less_induct)
  case less
  show ?case
  proof (cases "batch st < mb")
    case False
    with less.prems stop show ?thesis by (simp add: fetch_loop_unfold)
  next
    case True
    show ?thesis
    proof (cases "ex (nat (batch st + 1)) (since_ms st)")
      case (Inl u)
      with True less.prems fail [of st u] show ?thesis by (simp add: fetch_loop_unfold)
    next
      case (Inr p)
      show ?thesis
      proof (cases "p = []")
        case True
        with \<open>batch st < mb\<close> Inr less.prems empty [of st] show ?thesis
          by (simp add: fetch_loop_unfold)
      next
        case False
        let ?st2 = "st\<lparr>batch := batch st + 1, all_rows := all_rows st @ [p],
               since_ms := list_max (map timestamp_utc p) + 1,
               trace := trace st @ [Request (since_ms st), Sleep r]\<rparr>"
        note pg = page [OF less.prems \<open>batch st < mb\<close> Inr False]
        show ?thesis
        proof (cases "length p < page_limit")
          case True
          with \<open>batch st < mb\<close> Inr False pg show ?thesis
            by (simp add: fetch_loop_unfold Let_def)
        next
          case short: False
          with pg have "I ?st2" by simp
          moreover have "nat (mb - batch ?st2) < nat (mb - batch st)"
            using \<open>batch st < mb\<close> by simp
          ultimately have "Q (fetch_loop ex r mb ?st2)" using less.hyps by blast
          with \<open>batch st < mb\<close> Inr False short show ?thesis
            by (simp add: fetch_loop_unfold Let_def)
        qed
      qed
    qed
  qed
qed

text \<open>One request per iteration, so at most \<open>max_batches\<close> requests.\<close>

lemma fetch_loop_requests:
  assumes "0 \<le> batch st" "batch st \<le> max mb 0" "length (requests (trace st)) = nat (batch st)"
  shows "length (requests (trace (fetch_loop ex r mb st))) \<le> nat mb"
  by (rule fetch_loop_rule [where I = "\<lambda>st. 0 \<le> batch st \<and> batch st \<le> max mb 0 \<and>
        length (requests (trace st)) = nat (batch st)"]) (use assms in \<open>auto simp: nat_add_distrib\<close>)

text \<open>A request is only issued at the start or right after a sleep.\<close>

lemma fetch_loop_paced:
  assumes "paced r (trace st)" "trace st \<noteq> [] \<longrightarrow> last (trace st) = Sleep r"
  shows "paced r (trace (fetch_loop ex r mb st))"
  by (rule fetch_loop_rule [where I = "\<lambda>st. paced r (trace st) \<and>
        (trace st \<noteq> [] \<longrightarrow> last (trace st) = Sleep r)"])
    (use assms in \<open>auto simp: paced_snoc2 paced_snoc\<close>)

text \<open>With an exchange that honours the cursor, each page's latest candle is at or after
  the cursor, so the next cursor is strictly larger and the requests strictly increase.\<close>

lemma honours_since_next:
  "honours_since ex \<Longrightarrow> ex n s = Inr p \<Longrightarrow> p \<noteq> [] \<Longrightarrow> s < list_max (map timestamp_utc p) + 1"
  using list_max_in [of "map timestamp_utc p"] by (auto simp: honours_since_def)

lemma fetch_loop_cursor:
  assumes h: "honours_since ex" and s0: "sorted_wrt (<) (requests (trace st))"
    "\<forall>x \<in> set (requests (trace st)). x < since_ms st"
  shows "sorted_wrt (<) (requests (trace (fetch_loop ex r mb st)))"
proof (rule fetch_loop_rule [where I = "\<lambda>st. sorted_wrt (<) (requests (trace st)) \<and>
        (\<forall>x \<in> set (requests (trace st)). x < since_ms st)"])
  fix st p
  assume I: "sorted_wrt (<) (requests (trace st)) \<and> (\<forall>x \<in> set (requests (trace st)). x < since_ms st)"
    and ans: "ex (nat (batch st + 1)) (since_ms st) = Inr p" and ne: "p \<noteq> []"
  have "since_ms st < list_max (map timestamp_utc p) + 1"
    using honours_since_next [OF h ans ne] .
  with I have "sorted_wrt (<) (requests (trace st) @ [since_ms st]) \<and>
      (\<forall>x \<in> set (requests (trace st) @ [since_ms st]). x < list_max (map timestamp_utc p) + 1)"
    by (auto simp: sorted_wrt_append)
  then show "(if length p < page_limit then (\<lambda>st. sorted_wrt (<) (requests (trace st)))
      else (\<lambda>st. sorted_wrt (<) (requests (trace st)) \<and>
        (\<forall>x \<in> set (requests (trace st)). x < since_ms st)))
     (st\<lparr>batch := batch st + 1, all_rows := all_rows st @ [p],
               since_ms := list_max (map timestamp_utc p) + 1,
               trace := trace st @ [Request (since_ms st), Sleep r]\<rparr>)"
    by simp
qed (use s0 in \<open>auto simp: sorted_wrt_append\<close>)

text \<open>A fetch error ends the loop: nothing follows it in the trace.\<close>

lemma fetch_loop_error_last:
  assumes "FetchFailed \<notin> set (trace st)"
  shows "FetchFailed \<in> set (trace (fetch_loop ex r mb st)) \<longrightarrow>
         last (trace (fetch_loop ex r mb st)) = FetchFailed"
  by (rule fetch_loop_rule [where I = "\<lambda>st. FetchFailed \<notin> set (trace st)"]) (use assms in auto)

section \<open>The merge\<close>

lemma dedup_by_covered:
  "f ` set xs \<subseteq> set seen \<Longrightarrow> dedup_by f seen xs = []"
  using keys_dedup_by [of f seen xs] by (metis Diff_eq_empty_iff image_is_empty set_empty)

lemma wf_table_merge_tables: "wf_table (merge_tables e ps)"
  by (simp add: merge_tables_def wf_table_sort_by_ts distinct_dedup_by)

lemma keys_merge_tables:
  "timestamp_utc ` set (merge_tables e ps) = timestamp_utc ` set e \<union> timestamp_utc ` set (concat ps)"
  using keys_dedup_by [of timestamp_utc "[]" "e @ concat ps"] by (simp add: merge_tables_def image_Un)

text \<open>The stored rows come first in the concatenation, so a well-formed stored table
  survives the de-duplication whole, and fetched rows only add new timestamps.\<close>

lemma merge_tables_split:
  "distinct (map timestamp_utc e) \<Longrightarrow>
   dedup_by timestamp_utc [] (e @ concat ps) =
     e @ dedup_by timestamp_utc (map timestamp_utc e) (concat ps)"
  by (simp add: dedup_by_append dedup_by_distinct_id)

lemma merge_tables_no_new:
  assumes "wf_table e" "timestamp_utc ` set (concat ps) \<subseteq> timestamp_utc ` set e"
  shows "merge_tables e ps = e"
proof -
  have "dedup_by timestamp_utc [] (e @ concat ps) = e"
    using assms by (simp add: merge_tables_split wf_table_distinct dedup_by_covered)
  then show ?thesis using assms(1) by (simp add: merge_tables_def wf_table_sorted_id)
qed

section \<open>Runs of \<open>download_incremental\<close>\<close>

lemma download_incremental_Inr:
  "download_incremental (Some ex) rl existing since mb = Inr (out, tr) \<longleftrightarrow>
     out = merge_tables (case existing of None \<Rightarrow> [] | Some df \<Rightarrow> df)
             (all_rows (fetch_loop ex (rate_limit_ms rl) mb (dl_init (start_since existing since)))) \<and>
     tr = trace (fetch_loop ex (rate_limit_ms rl) mb (dl_init (start_since existing since)))"
  by (auto simp: download_incremental_def Let_def)

lemma fetch_loop_first_request:
  assumes "batch st < mb" "trace st = []"
  shows "hd (trace (fetch_loop ex r mb st)) = Request (since_ms st)"
proof (cases "ex (nat (batch st + 1)) (since_ms st)")
  case (Inl u)
  with assms show ?thesis by (simp add: fetch_loop_unfold)
next
  case (Inr p)
  let ?st2 = "st\<lparr>batch := batch st + 1, trace := [Request (since_ms st)],
      all_rows := all_rows st @ [p], since_ms := list_max (map timestamp_utc p) + 1,
      trace := [Request (since_ms st), Sleep r]\<rparr>"
  obtain tr' where "trace (fetch_loop ex r mb ?st2) = trace ?st2 @ tr'"
    using fetch_loop_extends by blast
  with assms Inr show ?thesis by (simp add: fetch_loop_unfold Let_def)
qed

lemma rate_limit_ms_pos: "0 < rate_limit_ms rl"
  by (simp add: rate_limit_ms_def split: option.splits)

text \<open>
  C8 (the downloaded table is well formed, spec section 3): whatever the exchange
  answers, errors and overlapping pages included, the table the downloader persists has
  strictly increasing, hence unique and sorted, timestamps.
\<close>

theorem download_incremental_wf:
  assumes "download_incremental exo rl existing since mb = Inr (out, tr)"
  shows "wf_table out"
  using assms by (auto simp: download_incremental_def Let_def wf_table_merge_tables split: option.splits)

text \<open>
  C9 (idempotent resume, spec section 8): resuming a well-formed stored table against an
  exchange with no new data (every page it answers holds only timestamps the table
  already has, in particular empty pages or the table's own rows) persists the table
  unchanged.
\<close>

theorem download_incremental_idempotent:
  assumes "wf_table t"
    and "\<forall>n s p. ex n s = Inr p \<longrightarrow> timestamp_utc ` set p \<subseteq> timestamp_utc ` set t"
    and "download_incremental (Some ex) rl (Some t) since mb = Inr (out, tr)"
  shows "out = t"
proof -
  let ?st = "fetch_loop ex (rate_limit_ms rl) mb (dl_init (start_since (Some t) since))"
  obtain tr' ps where ps: "all_rows ?st = all_rows (dl_init (start_since (Some t) since)) @ ps"
    "\<forall>p \<in> set ps. \<exists>n s. ex n s = Inr p \<and> p \<noteq> []"
    using fetch_loop_extends by blast
  then have "timestamp_utc ` set (concat (all_rows ?st)) \<subseteq> timestamp_utc ` set t"
    using assms(2) by (fastforce simp: dl_init_def)
  with assms(1,3) show ?thesis
    by (simp add: download_incremental_Inr merge_tables_no_new)
qed

theorem download_incremental_wf_witness:
  "wf_table (fst (projr (download_incremental (Some no_new_data) None (Some spec_example_raw) None 10)))"
proof -
  have "download_incremental (Some no_new_data) None (Some spec_example_raw) None 10 =
        Inr (fst (projr (download_incremental (Some no_new_data) None (Some spec_example_raw) None 10)),
             snd (projr (download_incremental (Some no_new_data) None (Some spec_example_raw) None 10)))"
    by code_simp
  from download_incremental_wf [OF this] show ?thesis .
qed

theorem download_incremental_idempotent_witness:
  "fst (projr (download_incremental (Some (replay_exchange spec_example_fixed)) None
      (Some spec_example_fixed) None 10)) = spec_example_fixed"
proof -
  let ?d = "download_incremental (Some (replay_exchange spec_example_fixed)) None
      (Some spec_example_fixed) None 10"
  have run: "?d = Inr (fst (projr ?d), snd (projr ?d))" by code_simp
  have wf: "wf_table spec_example_fixed"
    by (simp add: wf_table_def spec_example_fixed_def)
  have "\<forall>n s p. replay_exchange spec_example_fixed n s = Inr p \<longrightarrow>
      timestamp_utc ` set p \<subseteq> timestamp_utc ` set spec_example_fixed"
    by (simp add: replay_exchange_def)
  from download_incremental_idempotent [OF wf this run] show ?thesis .
qed

text \<open>
  C10 (stored rows win, spec section 4.1): resuming a well-formed stored table keeps every
  stored row, and every persisted row whose timestamp the stored table has is the stored
  row itself, whatever the exchange answered for that timestamp.
\<close>

theorem download_incremental_keeps_stored:
  assumes "wf_table t"
    and "download_incremental (Some ex) rl (Some t) since mb = Inr (out, tr)"
  shows "set t \<subseteq> set out \<and>
         (\<forall>r \<in> set out. timestamp_utc r \<in> timestamp_utc ` set t \<longrightarrow> r \<in> set t)"
proof -
  let ?ps = "all_rows (fetch_loop ex (rate_limit_ms rl) mb (dl_init (start_since (Some t) since)))"
  have out: "set out = set t \<union> set (dedup_by timestamp_utc (map timestamp_utc t) (concat ?ps))"
    using assms by (simp add: download_incremental_Inr merge_tables_def merge_tables_split
        wf_table_distinct)
  have "timestamp_utc ` set (dedup_by timestamp_utc (map timestamp_utc t) (concat ?ps)) \<inter>
        timestamp_utc ` set t = {}"
    by (auto simp: keys_dedup_by)
  with out show ?thesis by blast
qed

theorem download_incremental_keeps_stored_witness:
  "set spec_example_raw \<subseteq>
     set (fst (projr (download_incremental (Some (replay_exchange spec_example_fixed)) None
        (Some spec_example_raw) None 10)))"
proof -
  let ?d = "download_incremental (Some (replay_exchange spec_example_fixed)) None
      (Some spec_example_raw) None 10"
  have run: "?d = Inr (fst (projr ?d), snd (projr ?d))" by code_simp
  have wf: "wf_table spec_example_raw"
    by (simp add: wf_table_def spec_example_raw_def)
  from download_incremental_keeps_stored [OF wf run] show ?thesis by blast
qed

text \<open>
  C11 (prior state wins the resume point, spec section 4.1): with a non-empty stored
  table and at least one batch allowed, the first request asks for candles from one
  millisecond after the latest stored timestamp, whatever the \<open>since\<close> hint says.
\<close>

theorem download_incremental_resume:
  assumes "t \<noteq> []" and "0 < mb"
    and "download_incremental (Some ex) rl (Some t) since mb = Inr (out, tr)"
  shows "hd tr = Request (ts_max t + 1)"
proof -
  have "start_since (Some t) since = ts_max t + 1"
    using assms(1) by (simp add: start_since_def list_max_Max)
  with assms show ?thesis
    by (simp add: download_incremental_Inr fetch_loop_first_request dl_init_def)
qed

theorem download_incremental_resume_witness:
  "hd (snd (projr (download_incremental (Some no_new_data) None (Some spec_example_raw)
      (Some 0) 10))) = Request (ts_max spec_example_raw + 1)"
proof -
  let ?d = "download_incremental (Some no_new_data) None (Some spec_example_raw) (Some 0) 10"
  have run: "?d = Inr (fst (projr ?d), snd (projr ?d))" by code_simp
  have "spec_example_raw \<noteq> []" by (simp add: spec_example_raw_def)
  from download_incremental_resume [OF this _ run] show ?thesis by simp
qed

text \<open>
  C12 (the page loop is bounded, spec section 5): a run issues at most \<open>max_batches\<close>
  requests, and none when \<open>max_batches \<le> 0\<close>.
\<close>

theorem download_incremental_requests_bound:
  assumes "download_incremental exo rl existing since mb = Inr (out, tr)"
  shows "length (requests tr) \<le> nat mb"
  using assms fetch_loop_requests [of "dl_init (start_since existing since)" mb]
  by (cases exo) (auto simp: download_incremental_def Let_def dl_init_def)

theorem download_incremental_requests_bound_witness:
  "length (requests (snd (projr (download_incremental (Some one_candle_exchange) None None
      (Some 0) 3)))) \<le> 3"
proof -
  let ?d = "download_incremental (Some one_candle_exchange) None None (Some 0) 3"
  have run: "?d = Inr (fst (projr ?d), snd (projr ?d))" by code_simp
  from download_incremental_requests_bound [OF run] show ?thesis by simp
qed

text \<open>
  C13 (rate limit, spec sections 4.1 and 5): every request after the first follows
  directly a sleep of \<open>rate_ms\<close> milliseconds, and \<open>rate_ms\<close> is positive (an absent
  or zero \<open>rateLimit\<close> becomes 1000).
\<close>

theorem download_incremental_paced:
  assumes "download_incremental exo rl existing since mb = Inr (out, tr)"
  shows "paced (rate_limit_ms rl) tr \<and> 0 < rate_limit_ms rl"
  using assms fetch_loop_paced [of "rate_limit_ms rl" "dl_init (start_since existing since)"]
  by (cases exo) (auto simp: download_incremental_def Let_def dl_init_def paced_def rate_limit_ms_pos)

theorem download_incremental_paced_witness:
  "paced 1000 (snd (projr (download_incremental (Some one_candle_exchange) None None (Some 0) 3)))"
proof -
  let ?d = "download_incremental (Some one_candle_exchange) None None (Some 0) 3"
  have run: "?d = Inr (fst (projr ?d), snd (projr ?d))" by code_simp
  from download_incremental_paced [OF run] show ?thesis by (simp add: rate_limit_ms_def)
qed

text \<open>
  C14 (the cursor advances, spec section 4.1): against an exchange that only answers
  candles at or after the requested cursor, the cursors of successive requests strictly
  increase, so no page is requested twice.
\<close>

theorem download_incremental_cursor:
  assumes "honours_since ex"
    and "download_incremental (Some ex) rl existing since mb = Inr (out, tr)"
  shows "sorted_wrt (<) (requests tr)"
  using assms fetch_loop_cursor [OF assms(1), of "dl_init (start_since existing since)"]
  by (simp add: download_incremental_Inr dl_init_def)

theorem download_incremental_cursor_witness:
  "sorted_wrt (<) (requests (snd (projr (download_incremental (Some one_candle_exchange) None None
      (Some 0) 3))))"
proof -
  let ?d = "download_incremental (Some one_candle_exchange) None None (Some 0) 3"
  have run: "?d = Inr (fst (projr ?d), snd (projr ?d))" by code_simp
  have "honours_since one_candle_exchange"
    by (simp add: honours_since_def one_candle_exchange_def)
  from download_incremental_cursor [OF this run] show ?thesis .
qed

text \<open>
  C15 (a fetch error ends the loop but not the run, spec section 7): with an exchange
  ccxt knows, \<open>download_incremental\<close> never raises, whatever the exchange answers: it
  returns a well-formed merged table and its trace, and once a request fails nothing
  follows it in the trace.
\<close>

theorem download_incremental_error_stops:
  "\<exists>out tr. download_incremental (Some ex) rl existing since mb = Inr (out, tr) \<and> wf_table out \<and>
     (FetchFailed \<in> set tr \<longrightarrow> last tr = FetchFailed)"
  using fetch_loop_error_last [of "dl_init (start_since existing since)" ex "rate_limit_ms rl" mb]
  by (simp add: download_incremental_def Let_def wf_table_merge_tables dl_init_def)

theorem download_incremental_error_stops_witness:
  "last (snd (projr (download_incremental (Some failing_exchange) None (Some spec_example_raw)
      None 10))) = FetchFailed"
proof -
  let ?d = "download_incremental (Some failing_exchange) None (Some spec_example_raw) None 10"
  obtain out tr where run: "?d = Inr (out, tr)" and l: "FetchFailed \<in> set tr \<longrightarrow> last tr = FetchFailed"
    using download_incremental_error_stops [of failing_exchange None "Some spec_example_raw" None 10] by blast
  have "FetchFailed \<in> set (snd (projr ?d))" by code_simp
  with run l show ?thesis by simp
qed

text \<open>
  C16 (an empty stored file ignores the hint): when the stored file exists but holds no
  rows, the first request starts at the 2017 floor even if a \<open>since\<close> hint is given.
\<close>

theorem download_incremental_empty_file_ignores_hint:
  assumes "0 < mb"
    and "download_incremental (Some ex) rl (Some []) (Some s) mb = Inr (out, tr)"
  shows "hd tr = Request epoch_floor_ms"
  using assms by (simp add: download_incremental_Inr fetch_loop_first_request dl_init_def start_since_def)

theorem download_incremental_empty_file_ignores_hint_witness:
  "hd (snd (projr (download_incremental (Some no_new_data) None (Some []) (Some 1704067200000) 10))) =
   Request epoch_floor_ms"
proof -
  let ?d = "download_incremental (Some no_new_data) None (Some []) (Some 1704067200000) 10"
  have run: "?d = Inr (fst (projr ?d), snd (projr ?d))" by code_simp
  from download_incremental_empty_file_ignores_hint [OF _ run] show ?thesis by simp
qed

end
