(* ===== verification/Validator.thy ===== *)
theory Validator
  imports Candle
begin

text \<open>
  The validator, \<open>validate\<close> in \<open>src/data_pipeline/validate_ohlcv.py\<close> (spec section
  4.4). It refuses a missing file and an empty table, and otherwise returns a report of
  counters over the sorted table; it never changes the table. The report is a record
  with the code's fields (their Russian JSON keys are given beside each field); the
  timestamps \<open>str(min)\<close>/\<open>str(max)\<close> are kept as the instants themselves.
\<close>

section \<open>Definitions\<close>

text \<open>The report's JSON keys are Russian; they are given transliterated beside each field.\<close>

record report =
  rows :: nat                 \<comment> \<open>\<open>strok\<close>, the row count\<close>
  start_ts :: int             \<comment> \<open>\<open>nachalo\<close>, the first timestamp\<close>
  end_ts :: int               \<comment> \<open>\<open>konets\<close>, the last timestamp\<close>
  duplicates :: nat           \<comment> \<open>\<open>dublikaty_timestamp\<close>\<close>
  invalid_high :: nat         \<comment> \<open>\<open>oshibki_high\<close>\<close>
  invalid_low :: nat          \<comment> \<open>\<open>oshibki_low\<close>\<close>
  negative_prices :: nat      \<comment> \<open>\<open>otritsatelnye_tseny\<close>\<close>
  negative_volume :: nat      \<comment> \<open>\<open>otritsatelnyi_obyom\<close>\<close>
  gaps_1h :: "nat option"     \<comment> \<open>\<open>propuski_1h\<close>, \<open>None\<close> for other timeframes\<close>

text \<open>\<open>validate(path, timeframe)\<close>: the file's table (\<open>None\<close> when the file does not
  exist) and the configured timeframe string.\<close>

definition validate :: "table option \<Rightarrow> string \<Rightarrow> error + report" where
  "validate file timeframe =
     (case file of
        None \<Rightarrow> Inl RawFileMissing
      | Some df0 \<Rightarrow>
          if df0 = [] then Inl EmptyData
          else
            let df = sort_by_ts df0;
                duplicates = length (filter id (duplicated_by timestamp_utc [] df));
                invalid_high = length (filter (\<lambda>r. high r < max (open_price r) (close r)) df);
                invalid_low = length (filter (\<lambda>r. min (open_price r) (close r) < low r) df);
                negative_prices = length (filter (\<lambda>r. open_price r \<le> 0 \<or> high r \<le> 0 \<or>
                                                       low r \<le> 0 \<or> close r \<le> 0) df);
                negative_volume = length (filter (\<lambda>r. volume r < 0) df);
                gaps = (if timeframe = ''1h''
                        then Some (length (filter (\<lambda>g. g \<notin> set (map timestamp_utc df))
                                     (date_range (ts_min df) (ts_max df))))
                        else None)
            in Inr \<lparr>rows = length df, start_ts = ts_min df, end_ts = ts_max df,
                    duplicates = duplicates, invalid_high = invalid_high,
                    invalid_low = invalid_low, negative_prices = negative_prices,
                    negative_volume = negative_volume, gaps_1h = gaps\<rparr>)"

text \<open>The table of the spec's second example (section 8): one candle with
  \<open>high = 99\<close> while \<open>open = 100\<close> and \<open>close = 105\<close>.\<close>

definition bad_high_table :: table where
  "bad_high_table =
     [\<lparr>timestamp_utc = 1704067200000, open_price = 100, high = 99, low = 98, close = 105, volume = 5\<rparr>]"

declare validate_def [model_defs]

section \<open>Lemmas\<close>

lemma validate_Inr:
  "validate (Some df) tf = Inr rep \<longleftrightarrow> df \<noteq> [] \<and>
     rep = \<lparr>rows = length df, start_ts = ts_min df, end_ts = ts_max df,
       duplicates = length (filter id (duplicated_by timestamp_utc [] (sort_by_ts df))),
       invalid_high = length (filter (\<lambda>r. high r < max (open_price r) (close r)) (sort_by_ts df)),
       invalid_low = length (filter (\<lambda>r. min (open_price r) (close r) < low r) (sort_by_ts df)),
       negative_prices = length (filter (\<lambda>r. open_price r \<le> 0 \<or> high r \<le> 0 \<or>
                                          low r \<le> 0 \<or> close r \<le> 0) (sort_by_ts df)),
       negative_volume = length (filter (\<lambda>r. volume r < 0) (sort_by_ts df)),
       gaps_1h = (if tf = ''1h''
                  then Some (length (filter (\<lambda>g. g \<notin> timestamp_utc ` set df)
                                (date_range (ts_min df) (ts_max df))))
                  else None)\<rparr>"
  by (auto simp: validate_def Let_def)

lemma count_duplicated_distinct:
  "length (filter id (duplicated_by f [] xs)) = length xs - card (f ` set xs)"
proof -
  have "length (dedup_by f [] xs) = card (f ` set (dedup_by f [] xs))"
    by (metis distinct_card distinct_dedup_by length_map set_map)
  also have "\<dots> = card (f ` set xs)" by (simp add: keys_dedup_by)
  finally show ?thesis using count_duplicated_by [of f "[]" xs] by simp
qed

section \<open>Properties of the validator\<close>

text \<open>
  C17 (fail fast, spec sections 4.4 and 7): the validator fails exactly when the file is
  absent or its table is empty; on any non-empty table it returns a report.
\<close>

theorem validate_errors:
  "validate file tf = Inl e \<longleftrightarrow>
     (file = None \<and> e = RawFileMissing) \<or> (file = Some [] \<and> e = EmptyData)"
  by (auto simp: validate_def Let_def split: option.splits)

theorem validate_errors_witness:
  "validate None ''1h'' = Inl RawFileMissing \<and> validate (Some []) ''1h'' = Inl EmptyData"
  using validate_errors [of None "''1h''" RawFileMissing] validate_errors [of "Some []" "''1h''" EmptyData]
  by simp

text \<open>
  C18 (duplicate counter): the duplicate count is the number of rows beyond the first
  with each timestamp, so it is zero exactly when the timestamps are unique.
\<close>

theorem validate_duplicates:
  assumes "validate (Some df) tf = Inr rep"
  shows "duplicates rep = length df - card (timestamp_utc ` set df) \<and>
         (duplicates rep = 0 \<longleftrightarrow> distinct (map timestamp_utc df))"
proof -
  have d: "duplicates rep = length df - card (timestamp_utc ` set df)"
    using assms by (simp add: validate_Inr count_duplicated_distinct)
  have "card (timestamp_utc ` set df) \<le> length df"
    by (metis card_length length_map set_map)
  then have "length df - card (timestamp_utc ` set df) = 0 \<longleftrightarrow> distinct (map timestamp_utc df)"
    by (metis card_distinct diff_is_0_eq distinct_card le_antisym length_map set_map)
  with d show ?thesis by simp
qed

theorem validate_duplicates_witness:
  "duplicates (projr (validate (Some (spec_example_raw @ spec_example_raw)) ''1h'')) = 4"
proof -
  let ?v = "validate (Some (spec_example_raw @ spec_example_raw)) ''1h''"
  have run: "?v = Inr (projr ?v)" by code_simp
  have "length (spec_example_raw @ spec_example_raw) -
      card (timestamp_utc ` set (spec_example_raw @ spec_example_raw)) = 4"
    by code_simp
  with validate_duplicates [OF run] show ?thesis by simp
qed

text \<open>
  C19 (OHLC and sign counters): the four value counters are all zero exactly when every
  row is a valid candle in the sense of spec section 3.
\<close>

theorem validate_counters_zero_iff_valid:
  assumes "validate (Some df) tf = Inr rep"
  shows "invalid_high rep = 0 \<and> invalid_low rep = 0 \<and> negative_prices rep = 0 \<and>
         negative_volume rep = 0 \<longleftrightarrow> (\<forall>r \<in> set df. candle_valid r)"
  using assms by (auto simp: validate_Inr candle_valid_def filter_empty_conv not_less)

theorem validate_counters_zero_iff_valid_witness:
  "\<not> (\<forall>r \<in> set bad_high_table. candle_valid r)"
proof -
  let ?v = "validate (Some bad_high_table) ''1h''"
  have run: "?v = Inr (projr ?v)" by code_simp
  have "invalid_high (projr ?v) = 1" by code_simp
  with validate_counters_zero_iff_valid [OF run] show ?thesis by simp
qed

text \<open>
  The spec's example (section 8): on the one-row table with \<open>high = 99\<close>,
  \<open>open = 100\<close>, \<open>close = 105\<close> the report has \<open>oshibki_high = 1\<close> and every other
  counter 0.
\<close>

theorem validate_spec_example:
  "validate (Some bad_high_table) ''1h'' =
     Inr \<lparr>rows = 1, start_ts = 1704067200000, end_ts = 1704067200000, duplicates = 0,
          invalid_high = 1, invalid_low = 0, negative_prices = 0, negative_volume = 0,
          gaps_1h = Some 0\<rparr>"
  by code_simp

end
