(* ===== verification/PyTime.thy ===== *)
theory PyTime
  imports PyFormat
begin

text \<open>
  Calendar arithmetic of Python's \<open>datetime\<close> and of pandas' UTC timestamps, in the
  proleptic Gregorian calendar. \<open>days_from_civil\<close> and \<open>civil_from_days\<close> convert
  between a date and the number of days since 1970-01-01 (the closed forms over
  400-year eras). \<open>utc_ms\<close> is \<open>_utc_ms\<close> of \<open>download_ohlcv.py\<close> on a datetime with
  whole seconds: the product \<open>dt.timestamp() * 1000\<close> is exact in float64 for such values
  up to the year 285000, so \<open>int\<close> returns it unchanged. \<open>fmt_timestamp\<close> is
  \<open>str()\<close> of a UTC \<open>pd.Timestamp\<close> given in milliseconds, as the bot and the logs
  print it. The lemmas show that \<open>civil_from_days\<close> inverts \<open>days_from_civil\<close> on
  every valid date and that printing the instant of a valid UTC \<open>datetime\<close> gives
  its fields back.
\<close>

section \<open>Definitions\<close>

text \<open>A \<open>datetime\<close> with whole seconds; \<open>dt_tzinfo\<close> is the UTC offset in seconds,
  \<open>None\<close> for a naive value.\<close>

record datetime =
  dt_year :: int
  dt_month :: int
  dt_day :: int
  dt_hour :: int
  dt_minute :: int
  dt_second :: int
  dt_tzinfo :: "int option"

definition days_from_civil :: "int \<Rightarrow> int \<Rightarrow> int \<Rightarrow> int" where
  "days_from_civil y m d =
     (let y' = (if m \<le> 2 then y - 1 else y); era = y' div 400; yoe = y' - era * 400;
          mp = (if 2 < m then m - 3 else m + 9); doy = (153 * mp + 2) div 5 + d - 1;
          doe = yoe * 365 + yoe div 4 - yoe div 100 + doy
      in era * 146097 + doe - 719468)"

definition civil_from_days :: "int \<Rightarrow> int \<times> int \<times> int" where
  "civil_from_days z0 =
     (let z = z0 + 719468; era = z div 146097; doe = z mod 146097;
          yoe = (doe - doe div 1460 + doe div 36524 - doe div 146096) div 365;
          doy = doe - (365 * yoe + yoe div 4 - yoe div 100);
          mp = (5 * doy + 2) div 153; d = doy - (153 * mp + 2) div 5 + 1;
          m = (if mp < 10 then mp + 3 else mp - 9); y = yoe + era * 400
      in (if m \<le> 2 then y + 1 else y, m, d))"

text \<open>\<open>_utc_ms(dt)\<close> (lines 15--18): a naive value is read as UTC.\<close>

definition utc_ms :: "datetime \<Rightarrow> int" where
  "utc_ms dt =
     (let off = (case dt_tzinfo dt of None \<Rightarrow> 0 | Some t \<Rightarrow> t)
      in (days_from_civil (dt_year dt) (dt_month dt) (dt_day dt) * 86400 + dt_hour dt * 3600 +
          dt_minute dt * 60 + dt_second dt - off) * 1000)"

definition two_digits :: "int \<Rightarrow> string" where
  "two_digits i = zfill 2 (nat_str (nat i))"

text \<open>\<open>str(pd.Timestamp(ms, unit="ms", tz="UTC"))\<close>: \<open>YYYY-MM-DD HH:MM:SS+00:00\<close>,
  with six digits of microseconds after the seconds when the milliseconds are not zero.
  pandas' range (years 1677 to 2262) has four-digit years.\<close>

definition fmt_timestamp :: "int \<Rightarrow> string" where
  "fmt_timestamp ms =
     (let r = ms mod 86400000; (y, m, d) = civil_from_days (ms div 86400000);
          secs = r div 1000; frac = r mod 1000
      in zfill 4 (nat_str (nat y)) @ ''-'' @ two_digits m @ ''-'' @ two_digits d @ '' '' @
         two_digits (secs div 3600) @ '':'' @ two_digits (secs mod 3600 div 60) @ '':'' @
         two_digits (secs mod 60) @
         (if frac = 0 then [] else ''.'' @ zfill 3 (nat_str (nat frac)) @ ''000'') @ ''+00:00'')"

text \<open>\<open>calendar.isleap\<close> and the month lengths by which the \<open>datetime\<close> constructor
  checks its day (it raises \<open>ValueError\<close> outside them).\<close>

definition is_leap :: "int \<Rightarrow> bool" where
  "is_leap y \<longleftrightarrow> y mod 4 = 0 \<and> (y mod 100 \<noteq> 0 \<or> y mod 400 = 0)"

definition days_in_month :: "int \<Rightarrow> int \<Rightarrow> int" where
  "days_in_month y m =
     (if m = 2 then (if is_leap y then 29 else 28)
      else if m = 4 \<or> m = 6 \<or> m = 9 \<or> m = 11 then 30 else 31)"

text \<open>A value the \<open>datetime\<close> constructor accepts (\<open>MINYEAR = 1\<close>, \<open>MAXYEAR = 9999\<close>),
  with whole seconds.\<close>

definition valid_datetime :: "datetime \<Rightarrow> bool" where
  "valid_datetime dt \<longleftrightarrow>
     1 \<le> dt_year dt \<and> dt_year dt \<le> 9999 \<and> 1 \<le> dt_month dt \<and> dt_month dt \<le> 12 \<and>
     1 \<le> dt_day dt \<and> dt_day dt \<le> days_in_month (dt_year dt) (dt_month dt) \<and>
     0 \<le> dt_hour dt \<and> dt_hour dt < 24 \<and> 0 \<le> dt_minute dt \<and> dt_minute dt < 60 \<and>
     0 \<le> dt_second dt \<and> dt_second dt < 60"

section \<open>The calendar round trip\<close>

text \<open>A year of an era, split as \<open>100 c + 4 q + r\<close>: centuries, four-year cycles and
  years of the cycle.\<close>

lemma yoe_decomp:
  fixes yoe :: int
  assumes "0 \<le> yoe" "yoe < 400"
  obtains c q r where "yoe = 100 * c + 4 * q + r" "0 \<le> c" "c \<le> 3" "0 \<le> q" "q \<le> 24" "0 \<le> r" "r \<le> 3"
proof
  let ?c = "yoe div 100" and ?q = "yoe mod 100 div 4" and ?r = "yoe mod 100 mod 4"
  have a: "yoe mod 100 = 4 * ?q + ?r" by simp
  have "yoe = 100 * ?c + yoe mod 100" by simp
  with a show "yoe = 100 * ?c + 4 * ?q + ?r" by simp
  show "0 \<le> ?c" "?c \<le> 3" using assms by simp_all
  show "0 \<le> ?q" "?q \<le> 24" using assms by simp_all
  show "0 \<le> ?r" "?r \<le> 3" by simp_all
qed


lemma leap_decomp:
  fixes c q r :: int
  assumes "0 \<le> c" "c \<le> 3" "0 \<le> q" "q \<le> 24" "0 \<le> r" "r \<le> 3"
  shows "((100 * c + 4 * q + r + 1) mod 4 = 0 \<and> ((100 * c + 4 * q + r + 1) mod 100 \<noteq> 0 \<or> 100 * c + 4 * q + r = 399))
         \<longleftrightarrow> r = 3 \<and> (q \<noteq> 24 \<or> c = 3)"
proof (cases "r = 3")
  case True
  have m4: "(100 * c + 4 * q + r + 1) mod 4 = 0" using True by (intro mod_by_bounds [of _ _ "25 * c + q + 1"]) simp_all
  show ?thesis
  proof (cases "q = 24")
    case True
    have "(100 * c + 4 * q + r + 1) mod 100 = 0" using True \<open>r = 3\<close> by (intro mod_by_bounds [of _ _ "c + 1"]) simp_all
    with m4 True \<open>r = 3\<close> show ?thesis by auto
  next
    case False
    have "(100 * c + 4 * q + r + 1) mod 100 = 4 * q + 4"
      using False \<open>r = 3\<close> assms by (intro mod_by_bounds [of _ _ c]) simp_all
    with m4 False \<open>r = 3\<close> assms show ?thesis by auto
  qed
next
  case False
  have "(100 * c + 4 * q + r + 1) mod 4 = r + 1"
    using False assms by (intro mod_by_bounds [of _ _ "25 * c + q"]) simp_all
  with False assms show ?thesis by auto
qed


text \<open>The core of \<open>civil_from_days\<close>: from the day of the era it recovers the year of
  the era (the three corrections undo the leap days of \<open>days_from_civil\<close>).\<close>

lemma doe_core:
  fixes c q r doy :: int
  assumes b: "0 \<le> c" "c \<le> 3" "0 \<le> q" "q \<le> 24" "0 \<le> r" "r \<le> 3" "0 \<le> doy"
    and dlim: "doy \<le> 364 + (if r = 3 \<and> (q \<noteq> 24 \<or> c = 3) then 1 else 0)"
  defines "doe \<equiv> 36524 * c + 1461 * q + 365 * r + doy"
  shows "doe \<le> 146096 \<and> (doe - doe div 1460 + doe div 36524 - doe div 146096) div 365 = 100 * c + 4 * q + r"
proof -
  define e1 :: int where "e1 = (if 1460 \<le> 24 * c + q + 365 * r + doy then 1 else 0)"
  define e2 :: int where "e2 = (if 36524 \<le> 1461 * q + 365 * r + doy then 1 else 0)"
  define e3 :: int where "e3 = (if 146096 \<le> doe then 1 else 0)"
  have top: "doe \<le> 146096" using b dlim unfolding doe_def by (auto split: if_splits)
  have q1: "doe div 1460 = 25 * c + q + e1"
    using b dlim unfolding doe_def e1_def by (intro div_by_bounds) (auto split: if_splits)
  have q2: "doe div 36524 = c + e2"
    using b dlim unfolding doe_def e2_def by (intro div_by_bounds) (auto split: if_splits)
  have q3: "doe div 146096 = e3"
    using top b unfolding e3_def doe_def by (intro div_by_bounds) auto
  have e2_top: "e2 = 1 \<Longrightarrow> e3 = 1 \<and> e1 = 1"
    using b dlim unfolding e1_def e2_def e3_def doe_def by (auto split: if_splits)
  have e3_doy: "e3 = 1 \<Longrightarrow> doy = 365" using b dlim top unfolding e3_def doe_def by (auto split: if_splits)
  have e1_doy: "e1 = 1 \<Longrightarrow> 269 \<le> doy" using b unfolding e1_def by (auto split: if_splits)
  have e1_leap: "365 \<le> doy \<Longrightarrow> e1 = 1" using b dlim unfolding e1_def by (auto split: if_splits)
  have e01: "e1 \<in> {0, 1}" "e2 \<in> {0, 1}" "e3 \<in> {0, 1}" by (simp_all add: e1_def e2_def e3_def)
  have "0 \<le> doy - e1 + e2 - e3 \<and> doy - e1 + e2 - e3 < 365"
  proof (cases "doy \<le> 364")
    case True
    then show ?thesis using e01 e2_top e3_doy e1_doy b(7) by auto
  next
    case False
    then have "e1 = 1" using e1_leap by simp
    then show ?thesis using e01 e2_top e3_doy False dlim by (auto split: if_splits)
  qed
  then have "(doe - doe div 1460 + doe div 36524 - doe div 146096) div 365 = 100 * c + 4 * q + r"
    unfolding q1 q2 q3 by (intro div_by_bounds) (simp_all add: doe_def algebra_simps)
  with top show ?thesis by simp
qed


lemma month_cases:
  fixes m :: int
  assumes "1 \<le> m" "m \<le> 12"
  shows "m = 1 \<or> m = 2 \<or> m = 3 \<or> m = 4 \<or> m = 5 \<or> m = 6 \<or> m = 7 \<or> m = 8 \<or> m = 9 \<or>
         m = 10 \<or> m = 11 \<or> m = 12"
  using assms by arith

text \<open>The month and day from the day of the March-based year.\<close>

lemma month_core:
  fixes m d :: int
  assumes "1 \<le> m" "m \<le> 12" "1 \<le> d" "d \<le> days_in_month y m"
  defines "mp \<equiv> (if 2 < m then m - 3 else m + 9)"
  defines "doy \<equiv> (153 * mp + 2) div 5 + d - 1"
  shows "(5 * doy + 2) div 153 = mp \<and> doy - (153 * mp + 2) div 5 + 1 = d \<and> 0 \<le> doy \<and>
         doy \<le> 364 + (if m = 2 \<and> is_leap y then 1 else 0)"
  using month_cases [OF assms(1,2)] assms(3,4)
  by (auto simp: mp_def doy_def days_in_month_def intro!: div_by_bounds split: if_splits)


lemma mod_shift: "(k * a + x) mod k = x mod (k :: int)"
  by simp

lemma leap_shift:
  fixes era yoe :: int
  assumes "0 \<le> yoe" "yoe < 400"
  shows "is_leap (era * 400 + yoe + 1) \<longleftrightarrow>
         (yoe + 1) mod 4 = 0 \<and> ((yoe + 1) mod 100 \<noteq> 0 \<or> yoe = 399)"
proof -
  have a: "(era * 400 + yoe + 1) mod 4 = (yoe + 1) mod 4"
    using mod_shift [of 4 "100 * era" "yoe + 1"] by (simp add: algebra_simps)
  have b: "(era * 400 + yoe + 1) mod 100 = (yoe + 1) mod 100"
    using mod_shift [of 100 "4 * era" "yoe + 1"] by (simp add: algebra_simps)
  have c: "(era * 400 + yoe + 1) mod 400 = (yoe + 1) mod 400"
    using mod_shift [of 400 era "yoe + 1"] by (simp add: algebra_simps)
  have d: "(yoe + 1) mod 400 = 0 \<longleftrightarrow> yoe = 399"
  proof
    assume "(yoe + 1) mod 400 = 0"
    moreover have "yoe \<noteq> 399 \<Longrightarrow> (yoe + 1) mod 400 = yoe + 1"
      using assms by (intro mod_by_bounds [of _ _ 0]) simp_all
    ultimately show "yoe = 399" using assms by fastforce
  qed simp
  show ?thesis using a b c d by (auto simp: is_leap_def)
qed

text \<open>\<open>civil_from_days\<close> inverts \<open>days_from_civil\<close> on every date the \<open>datetime\<close>
  constructor accepts, in every era.\<close>

lemma civil_from_days_days_from_civil:
  assumes "1 \<le> m" "m \<le> 12" "1 \<le> d" "d \<le> days_in_month y m"
  shows "civil_from_days (days_from_civil y m d) = (y, m, d)"
proof -
  define y' where "y' = (if m \<le> 2 then y - 1 else y)"
  define era where "era = y' div 400"
  define yoe where "yoe = y' - era * 400"
  define mp where "mp = (if 2 < m then m - 3 else m + 9)"
  define doy where "doy = (153 * mp + 2) div 5 + d - 1"
  have yb: "0 \<le> yoe" "yoe < 400" by (simp_all add: yoe_def era_def minus_div_mult_eq_mod [symmetric])
  have mc: "(5 * doy + 2) div 153 = mp" "doy - (153 * mp + 2) div 5 + 1 = d" "0 \<le> doy"
    "doy \<le> 364 + (if m = 2 \<and> is_leap y then 1 else 0)"
    using month_core [OF assms] unfolding mp_def doy_def by simp_all
  have leap: "m = 2 \<and> is_leap y \<Longrightarrow> (yoe + 1) mod 4 = 0 \<and> ((yoe + 1) mod 100 \<noteq> 0 \<or> yoe = 399)"
  proof -
    assume "m = 2 \<and> is_leap y"
    moreover have "y = era * 400 + yoe + 1" if "m = 2" using that by (simp add: y'_def yoe_def)
    ultimately show ?thesis using leap_shift [OF yb, of era] by simp
  qed
  obtain c q r where y: "yoe = 100 * c + 4 * q + r" and b: "0 \<le> c" "c \<le> 3" "0 \<le> q" "q \<le> 24" "0 \<le> r" "r \<le> 3"
    using yoe_decomp [OF yb] by blast
  have d4: "yoe div 4 = 25 * c + q" using y b by (intro div_by_bounds) simp_all
  have d100: "yoe div 100 = c" using y b by (intro div_by_bounds) simp_all
  have dlim: "doy \<le> 364 + (if r = 3 \<and> (q \<noteq> 24 \<or> c = 3) then 1 else 0)"
    using mc(4) leap leap_decomp [OF b] y by (auto split: if_splits)
  define doe where "doe = yoe * 365 + yoe div 4 - yoe div 100 + doy"
  have doe_eq: "doe = 36524 * c + 1461 * q + 365 * r + doy" using y d4 d100 by (simp add: doe_def)
  note core = doe_core [OF b mc(3) dlim, folded doe_eq]
  have doe_b: "0 \<le> doe" "doe < 146097" using core doe_eq b mc(3) by simp_all
  have z: "days_from_civil y m d + 719468 = era * 146097 + doe"
    by (simp add: days_from_civil_def Let_def y'_def era_def yoe_def mp_def doy_def doe_def)
  have zdiv: "(era * 146097 + doe) div 146097 = era" using doe_b by (intro div_by_bounds) simp_all
  have zmod: "(era * 146097 + doe) mod 146097 = doe" using doe_b by (intro mod_by_bounds [of _ _ era]) simp_all
  have yoe': "(doe - doe div 1460 + doe div 36524 - doe div 146096) div 365 = yoe" using core y by simp
  have doy': "doe - (365 * yoe + yoe div 4 - yoe div 100) = doy" by (simp add: doe_def)
  have m': "(if mp < 10 then mp + 3 else mp - 9) = m" using assms(1,2) by (simp add: mp_def)
  have y'': "yoe + era * 400 = y'" by (simp add: yoe_def)
  have "civil_from_days (days_from_civil y m d) = (if m \<le> 2 then y' + 1 else y', m, d)"
    by (simp only: civil_from_days_def Let_def z zdiv zmod yoe' doy' mc(1) mc(2) m' y'')
  then show ?thesis by (simp add: y'_def)
qed


section \<open>Examples\<close>

lemma days_from_civil_epoch: "days_from_civil 1970 1 1 = 0"
  by code_simp

lemma fmt_timestamp_example:
  "fmt_timestamp 1704067200000 = ''2024-01-01 00:00:00+00:00'' \<and>
   fmt_timestamp 1704070800001 = ''2024-01-01 01:00:00.001000+00:00''"
  by code_simp

section \<open>Printing a datetime's instant\<close>

text \<open>The instant of a valid UTC \<open>datetime\<close> in milliseconds splits into its day
  number and the milliseconds of its time of day.\<close>

lemma utc_ms_split:
  assumes "valid_datetime dt" "dt_tzinfo dt \<in> {None, Some 0}"
  defines "T \<equiv> dt_hour dt * 3600 + dt_minute dt * 60 + dt_second dt"
  shows "utc_ms dt div 86400000 = days_from_civil (dt_year dt) (dt_month dt) (dt_day dt) \<and>
         utc_ms dt mod 86400000 = T * 1000 \<and> 0 \<le> T \<and> T < 86400"
proof -
  have b: "0 \<le> dt_hour dt" "dt_hour dt < 24" "0 \<le> dt_minute dt" "dt_minute dt < 60"
    "0 \<le> dt_second dt" "dt_second dt < 60"
    using assms(1) by (simp_all add: valid_datetime_def)
  have off: "(case dt_tzinfo dt of None \<Rightarrow> 0 | Some t \<Rightarrow> t) = 0" using assms(2) by auto
  have Tb: "0 \<le> T" "T < 86400" using b by (simp_all add: T_def)
  have ms: "utc_ms dt = 86400000 * days_from_civil (dt_year dt) (dt_month dt) (dt_day dt) + T * 1000"
    by (simp add: utc_ms_def off T_def algebra_simps)
  have "utc_ms dt div 86400000 = days_from_civil (dt_year dt) (dt_month dt) (dt_day dt)"
    using ms Tb by (intro div_by_bounds) simp_all
  moreover have "utc_ms dt mod 86400000 = T * 1000"
    using ms Tb by (intro mod_by_bounds) simp_all
  ultimately show ?thesis using Tb by simp
qed

lemma clock_digits:
  fixes h mi s :: int
  assumes "0 \<le> h" "0 \<le> mi" "mi < 60" "0 \<le> s" "s < 60"
  shows "(h * 3600 + mi * 60 + s) div 3600 = h \<and> (h * 3600 + mi * 60 + s) mod 3600 div 60 = mi \<and>
         (h * 3600 + mi * 60 + s) mod 60 = s"
proof -
  have "(h * 3600 + mi * 60 + s) mod 3600 = mi * 60 + s"
    using assms by (intro mod_by_bounds [of _ _ h]) simp_all
  moreover have "(mi * 60 + s) div 60 = mi" using assms by (intro div_by_bounds) simp_all
  moreover have "(h * 3600 + mi * 60 + s) div 3600 = h" using assms by (intro div_by_bounds) simp_all
  moreover have "(h * 3600 + mi * 60 + s) mod 60 = s"
    using assms by (intro mod_by_bounds [of _ _ "h * 60 + mi"]) (simp_all add: algebra_simps)
  ultimately show ?thesis by simp
qed

text \<open>
  C26 (printing a datetime's instant gives the datetime back): for every value the
  \<open>datetime\<close> constructor accepts, read as UTC, \<open>str()\<close> of the pandas timestamp at
  \<open>_utc_ms(dt)\<close> milliseconds prints exactly \<open>dt\<close>'s year, month, day, hour, minute and
  second, with no fractional part: the downloader's cursor arithmetic and the printed
  timestamps agree on every date, leap days included.
\<close>

theorem fmt_timestamp_utc_ms:
  assumes "valid_datetime dt" "dt_tzinfo dt \<in> {None, Some 0}"
  shows "fmt_timestamp (utc_ms dt) =
           zfill 4 (nat_str (nat (dt_year dt))) @ ''-'' @ two_digits (dt_month dt) @ ''-'' @
           two_digits (dt_day dt) @ '' '' @ two_digits (dt_hour dt) @ '':'' @
           two_digits (dt_minute dt) @ '':'' @ two_digits (dt_second dt) @ ''+00:00''"
proof -
  let ?T = "dt_hour dt * 3600 + dt_minute dt * 60 + dt_second dt"
  note sp = utc_ms_split [OF assms]
  have v: "1 \<le> dt_month dt" "dt_month dt \<le> 12" "1 \<le> dt_day dt"
    "dt_day dt \<le> days_in_month (dt_year dt) (dt_month dt)"
    "0 \<le> dt_hour dt" "0 \<le> dt_minute dt" "dt_minute dt < 60" "0 \<le> dt_second dt" "dt_second dt < 60"
    using assms(1) by (simp_all add: valid_datetime_def)
  have c: "civil_from_days (utc_ms dt div 86400000) = (dt_year dt, dt_month dt, dt_day dt)"
    using sp civil_from_days_days_from_civil [OF v(1-4)] by simp
  have r: "utc_ms dt mod 86400000 div 1000 = ?T" "utc_ms dt mod 86400000 mod 1000 = 0"
    using sp by simp_all
  show ?thesis
    using c r clock_digits [OF v(5-9)] by (simp add: fmt_timestamp_def Let_def)
qed

text \<open>The downloader's floor, 2017-01-01 UTC, prints as that date.\<close>

theorem fmt_timestamp_utc_ms_witness:
  "fmt_timestamp (utc_ms \<lparr>dt_year = 2017, dt_month = 1, dt_day = 1, dt_hour = 0, dt_minute = 0,
                          dt_second = 0, dt_tzinfo = Some 0\<rparr>) = ''2017-01-01 00:00:00+00:00''"
proof -
  have v: "valid_datetime \<lparr>dt_year = 2017, dt_month = 1, dt_day = 1, dt_hour = 0, dt_minute = 0,
                          dt_second = 0, dt_tzinfo = Some 0\<rparr>"
    by (simp add: valid_datetime_def days_in_month_def)
  have n: "zfill 4 (nat_str (nat 2017)) = ''2017''" "two_digits 1 = ''01''" "two_digits 0 = ''00''"
    by code_simp+
  show ?thesis using fmt_timestamp_utc_ms [OF v] n by simp
qed

end
