(* ===== verification/Pipeline.thy ===== *)
theory Pipeline
  imports Config Features FixGaps Downloader Validator PyTime
begin

text \<open>
  The \<open>main\<close> functions of the four stages as transformers of the file store, with
  the paths \<open>get_settings\<close> gives them: the downloader writes \<open>data_raw_path\<close>; the
  regularizer reads \<open>data_raw_path\<close> and writes the path with \<open>.parquet\<close> replaced by
  \<open>_fixed.parquet\<close>; the feature engine and the validator read \<open>data_raw_path\<close>.
  The order in which they run (download, fix gaps, features) is the data flow of the
  spec (section 2); no file of \<open>src/\<close> runs them together.
\<close>

section \<open>Definitions\<close>

text \<open>\<open>download_ohlcv.main\<close>: the exchange ccxt builds for the configured name (with its
  \<open>rateLimit\<close> attribute), the stored raw table, \<open>since=None\<close> and the default
  \<open>max_batches = 10000\<close>; the merged table replaces the raw file.\<close>

text \<open>\<open>_make_exchange(name)\<close> (lines 25--32): the ccxt class of that name, built with
  rate limiting on and its markets loaded, or a \<open>RuntimeError\<close> when ccxt has no such
  class. The registry maps a name to the exchange and its \<open>rateLimit\<close> attribute.\<close>

definition make_exchange ::
  "(string \<Rightarrow> (exchange \<times> nat option) option) \<Rightarrow> string \<Rightarrow> error + exchange \<times> nat option" where
  "make_exchange exs name = (case exs name of None \<Rightarrow> Inl UnknownExchange | Some x \<Rightarrow> Inr x)"

definition download_main :: "(string \<Rightarrow> (exchange \<times> nat option) option) \<Rightarrow> env \<Rightarrow> store \<Rightarrow> error + store" where
  "download_main exs e fs =
     (let s = get_settings e; p = data_raw_path s; x = exs (exchange_name s)
      in case download_incremental (map_option fst x) (Option.bind x snd) (fs p) None 10000 of
           Inl err \<Rightarrow> Inl err
         | Inr (t, _) \<Rightarrow> Inr (fs(p := Some t)))"

text \<open>\<open>s.data_raw_path.replace(".parquet", "_fixed.parquet")\<close>.\<close>

definition fixed_path :: "string \<Rightarrow> string" where
  "fixed_path p = str_replace ''.parquet'' ''_fixed.parquet'' p"

text \<open>\<open>fix_gaps.main\<close>.\<close>

definition fix_gaps_stage :: "env \<Rightarrow> store \<Rightarrow> error + store" where
  "fix_gaps_stage e fs =
     (let p = data_raw_path (get_settings e)
      in case fix_gaps_main (fs p) of
           Inl err \<Rightarrow> Inl err
         | Inr t \<Rightarrow> Inr (fs(fixed_path p := Some t)))"

text \<open>\<open>make_features.main\<close> and \<open>validate_ohlcv.main\<close>.\<close>

definition make_features_stage ::
  "env \<Rightarrow> store \<Rightarrow> error + feature_row list \<times> string list \<times> (error + split_meta)" where
  "make_features_stage e fs = build_features (fs (data_raw_path (get_settings e)))"

definition validate_stage :: "env \<Rightarrow> store \<Rightarrow> error + report" where
  "validate_stage e fs = (let s = get_settings e in validate (fs (data_raw_path s)) (timeframe s))"

text \<open>\<open>validate_ohlcv.main\<close> (lines 60--74): the report is dumped as JSON to a fixed
  path; the model returns the path and the report written there.\<close>

definition validation_report_path :: string where
  "validation_report_path = ''data/processed/validation_report.json''"

definition validate_main :: "env \<Rightarrow> store \<Rightarrow> error + string \<times> report" where
  "validate_main e fs =
     (case validate_stage e fs of
        Inl err \<Rightarrow> Inl err
      | Inr rep \<Rightarrow> Inr (validation_report_path, rep))"

text \<open>The spec's data flow: download, then regularize, then build the features.\<close>

definition run_pipeline ::
  "(string \<Rightarrow> (exchange \<times> nat option) option) \<Rightarrow> env \<Rightarrow> store \<Rightarrow>
   error + store \<times> (error + feature_row list \<times> string list \<times> (error + split_meta))" where
  "run_pipeline exs e fs =
     (case download_main exs e fs of
        Inl err \<Rightarrow> Inl err
      | Inr fs1 \<Rightarrow>
          (case fix_gaps_stage e fs1 of
             Inl err \<Rightarrow> Inl err
           | Inr fs2 \<Rightarrow> Inr (fs2, make_features_stage e fs2)))"

text \<open>A store holding the spec's example as the raw file at the default path, and an
  exchange table in which every name is an exchange with nothing new.\<close>

definition example_store :: store where
  "example_store p = (if p = ''data/raw/btcusdt_1h_fixed.parquet'' then Some spec_example_raw else None)"

definition quiet_exchanges :: "string \<Rightarrow> (exchange \<times> nat option) option" where
  "quiet_exchanges n = Some (no_new_data, None)"

section \<open>Lemmas\<close>

text \<open>The downloader's floor is \<open>_utc_ms(datetime(2017, 1, 1, tzinfo=timezone.utc))\<close>.\<close>

text \<open>The downloader stage fails exactly as \<open>_make_exchange\<close> does for an unknown
  exchange name, before touching the store.\<close>

lemma download_main_unknown_exchange:
  "make_exchange exs (exchange_name (get_settings e)) = Inl err \<Longrightarrow> download_main exs e fs = Inl err"
  by (auto simp: make_exchange_def download_main_def download_incremental_def Let_def split: option.splits)

lemma epoch_floor_utc_ms:
  "epoch_floor_ms = utc_ms \<lparr>dt_year = 2017, dt_month = 1, dt_day = 1, dt_hour = 0, dt_minute = 0,
                            dt_second = 0, dt_tzinfo = Some 0\<rparr>"
  unfolding epoch_floor_ms_def by code_simp

lemma fixed_path_changes:
  "take 8 (drop i p) = ''.parquet'' \<Longrightarrow> fixed_path p \<noteq> p"
proof -
  assume "take 8 (drop i p) = ''.parquet''"
  moreover have "length ''.parquet'' = 8" by simp
  ultimately have "take (length ''.parquet'') (drop i p) = ''.parquet''" by (simp only:)
  then show ?thesis unfolding fixed_path_def by (intro str_replace_grows) simp_all
qed

lemma default_fixed_path:
  "fixed_path ''data/raw/btcusdt_1h_fixed.parquet'' = ''data/raw/btcusdt_1h_fixed_fixed.parquet''"
  by (simp add: fixed_path_def str_replace.simps)

lemma run_pipeline_Inr:
  assumes "run_pipeline exs e fs = Inr (fs2, feats)"
  obtains fs1 t where "download_main exs e fs = Inr fs1"
    and "fix_gaps_main (fs1 (data_raw_path (get_settings e))) = Inr t"
    and "fs2 = fs1(fixed_path (data_raw_path (get_settings e)) := Some t)"
    and "feats = make_features_stage e fs2"
  using assms by (auto simp: run_pipeline_def fix_gaps_stage_def Let_def split: sum.splits)

lemma example_download: "download_main quiet_exchanges empty_env example_store = Inr example_store"
proof -
  have "download_incremental (Some no_new_data) None (Some spec_example_raw) None 10000 =
        Inr (spec_example_raw, snd (projr (download_incremental (Some no_new_data) None (Some spec_example_raw) None 10000)))"
    by code_simp
  then obtain tr where dl: "download_incremental (Some no_new_data) None (Some spec_example_raw) None 10000 =
        Inr (spec_example_raw, tr)" by blast
  have st: "example_store(''data/raw/btcusdt_1h_fixed.parquet'' := Some spec_example_raw) = example_store"
    by (auto simp: example_store_def fun_eq_iff)
  show ?thesis
    using dl default_paths st by (simp add: download_main_def quiet_exchanges_def example_store_def Let_def)
qed

lemma example_run:
  "run_pipeline quiet_exchanges empty_env example_store =
     Inr (example_store(''data/raw/btcusdt_1h_fixed_fixed.parquet'' := Some spec_example_fixed),
          build_features (Some spec_example_raw))"
proof -
  have "fix_gaps_main (Some spec_example_raw) = Inr spec_example_fixed"
    by (simp add: fix_gaps_main_def fix_hourly_gaps_spec_example)
  then show ?thesis
    using example_download default_paths default_fixed_path
    by (simp add: run_pipeline_def fix_gaps_stage_def make_features_stage_def example_store_def Let_def)
qed

section \<open>Properties of the stage composition\<close>

text \<open>
  C40 (the feature engine reads the unregularized table): whenever download, gap
  fixing and feature building run in order with a raw path that contains
  \<open>.parquet\<close>, the features are built from the downloader's table at
  \<open>data_raw_path\<close>, while the regularized table is written to a different path and
  never read; the spec requires the feature engine to run on the regularized table.
\<close>

theorem features_read_unregularized:
  assumes "run_pipeline exs e fs = Inr (fs2, feats)"
    and "take 8 (drop i (data_raw_path (get_settings e))) = ''.parquet''"
  shows "\<exists>t. fs2 (data_raw_path (get_settings e)) = Some t \<and> feats = build_features (Some t) \<and>
             (\<exists>out. fix_gaps_main (Some t) = Inr out \<and>
                    fs2 (fixed_path (data_raw_path (get_settings e))) = Some out)"
proof -
  let ?p = "data_raw_path (get_settings e)"
  obtain fs1 out where d: "download_main exs e fs = Inr fs1"
    and f: "fix_gaps_main (fs1 ?p) = Inr out"
    and fs2: "fs2 = fs1(fixed_path ?p := Some out)"
    and ft: "feats = make_features_stage e fs2"
    using run_pipeline_Inr [OF assms(1)] by blast
  obtain t where t: "fs1 ?p = Some t"
    using d by (auto simp: download_main_def Let_def split: sum.splits)
  have ne: "fixed_path ?p \<noteq> ?p" using fixed_path_changes [OF assms(2)] .
  have "fs2 ?p = Some t" using fs2 ne t by simp
  moreover have "feats = build_features (Some t)"
    using ft \<open>fs2 ?p = Some t\<close> by (simp add: make_features_stage_def)
  ultimately show ?thesis using f t fs2 by auto
qed

theorem features_read_unregularized_witness:
  "snd (projr (run_pipeline quiet_exchanges empty_env example_store)) = build_features (Some spec_example_raw) \<and>
   fix_gaps_main (Some spec_example_raw) = Inr spec_example_fixed"
proof -
  have p: "take 8 (drop 25 (data_raw_path (get_settings empty_env))) = ''.parquet''"
    using default_paths by simp
  show ?thesis
    using features_read_unregularized [OF example_run p] example_run default_paths default_fixed_path
    by (auto simp: example_store_def)
qed

end
