(* ===== verification/Logging.thy ===== *)
theory Logging
  imports Prelude
begin

text \<open>
  The loguru logger as the stages use it (\<open>src/common/logging.py\<close>). The logger is the
  list of its sinks, each with the minimum severity it accepts and its formatting
  options; \<open>logger.remove()\<close> removes every sink and \<open>logger.add\<close> appends one. A call
  \<open>logger.info(m)\<close> hands the record to every sink whose level it reaches, so its output
  is one copy of \<open>(level, m)\<close> per accepting sink, in the order the sinks were added.
  The line loguru prints around the message (time, level name, module, colours) is
  the sink's formatting and is not modelled; the message text is.
\<close>

section \<open>Definitions\<close>

text \<open>loguru's levels with their severities (\<open>logger.level(name).no\<close>).\<close>

datatype level = TRACE | DEBUG | INFO | SUCCESS | WARNING | ERROR | CRITICAL

fun severity :: "level \<Rightarrow> nat" where
  "severity TRACE = 5"
| "severity DEBUG = 10"
| "severity INFO = 20"
| "severity SUCCESS = 25"
| "severity WARNING = 30"
| "severity ERROR = 40"
| "severity CRITICAL = 50"

text \<open>A handler added with \<open>logger.add\<close>: the severity it accepts from, and the options
  \<open>colorize\<close> (\<open>None\<close> lets loguru decide from the terminal), \<open>backtrace\<close> and
  \<open>diagnose\<close>.\<close>

record sink =
  sink_level :: nat
  colorize :: "bool option"
  backtrace :: bool
  diagnose :: bool

type_synonym logger = "sink list"

type_synonym 'm log_record = "level \<times> 'm"

text \<open>The logger loguru starts with: one \<open>stderr\<close> sink at \<open>DEBUG\<close> with backtrace and
  diagnose on.\<close>

definition loguru_default :: logger where
  "loguru_default = [\<lparr>sink_level = severity DEBUG, colorize = None, backtrace = True, diagnose = True\<rparr>]"

definition logger_remove :: "logger \<Rightarrow> logger" where
  "logger_remove lg = []"

definition logger_add :: "logger \<Rightarrow> sink \<Rightarrow> logger" where
  "logger_add lg s = lg @ [s]"

text \<open>\<open>setup_logger()\<close> (lines 4--13): remove every sink, then add the printing sink at
  \<open>INFO\<close>, coloured, without backtrace or variable dumps.\<close>

definition print_sink :: sink where
  "print_sink = \<lparr>sink_level = severity INFO, colorize = Some True, backtrace = False, diagnose = False\<rparr>"

definition setup_logger :: "logger \<Rightarrow> logger" where
  "setup_logger lg = logger_add (logger_remove lg) print_sink"

text \<open>\<open>logger.log(lv, m)\<close>: one record per sink that accepts the level.\<close>

definition emit :: "logger \<Rightarrow> level \<Rightarrow> 'm \<Rightarrow> 'm log_record list" where
  "emit lg lv m = map (\<lambda>_. (lv, m)) (filter (\<lambda>s. sink_level s \<le> severity lv) lg)"

text \<open>The output of a sequence of logging calls made in order.\<close>

definition emit_all :: "logger \<Rightarrow> 'm log_record list \<Rightarrow> 'm log_record list" where
  "emit_all lg calls = concat (map (\<lambda>(lv, m). emit lg lv m) calls)"

text \<open>The calls of a run that reach a logger which prints each of them once.\<close>

definition printed :: "'m log_record list \<Rightarrow> 'm log_record list" where
  "printed calls = filter (\<lambda>(lv, _). severity INFO \<le> severity lv) calls"

section \<open>Lemmas\<close>

lemma setup_logger_sinks: "setup_logger lg = [print_sink]"
  by (simp add: setup_logger_def logger_add_def logger_remove_def)

text \<open>Calling \<open>setup_logger\<close> again (every stage's \<open>main\<close> does) leaves the same single
  sink: the configuration does not depend on what was set up before.\<close>

lemma setup_logger_idempotent: "setup_logger (setup_logger lg) = setup_logger lg"
  by (simp add: setup_logger_sinks)

lemma emit_setup [simp]:
  "emit (setup_logger lg) lv m = (if severity INFO \<le> severity lv then [(lv, m)] else [])"
  by (simp add: emit_def setup_logger_sinks print_sink_def)

lemma emit_all_append [simp]: "emit_all lg (xs @ ys) = emit_all lg xs @ emit_all lg ys"
  by (simp add: emit_all_def)

lemma emit_all_setup: "emit_all (setup_logger lg) calls = printed calls"
  by (induction calls) (auto simp: emit_all_def printed_def)

lemma printed_Nil [simp]: "printed [] = []"
  by (simp add: printed_def)

lemma printed_info [simp]: "printed ((INFO, m) # calls) = (INFO, m) # printed calls"
  by (simp add: printed_def)

lemma printed_error [simp]: "printed ((ERROR, m) # calls) = (ERROR, m) # printed calls"
  by (simp add: printed_def)

lemma printed_append [simp]: "printed (xs @ ys) = printed xs @ printed ys"
  by (simp add: printed_def)

text \<open>loguru's default sink would also print the \<open>DEBUG\<close> records that the configured
  logger drops.\<close>

lemma default_prints_debug: "emit loguru_default DEBUG m = [(DEBUG, m)] \<and> emit (setup_logger lg) DEBUG m = []"
  by (simp add: emit_def loguru_default_def setup_logger_sinks print_sink_def)

end
