(* ===== verification/StageLogs.thy ===== *)
theory StageLogs
  imports Pipeline Logging
begin

text \<open>
  The log lines of the stages' \<open>main\<close> functions and of \<open>download_incremental\<close>, each
  stage run as the model of \<open>Pipeline\<close> runs it, now also returning what the
  configured logger prints. A message is a list of pieces: the fixed texts of the
  source (Russian, named here by constructors with the text transliterated beside
  them), ASCII text, values printed as Python prints them, the validator's report as
  the JSON object \<open>json.dumps\<close> writes, and the text of a caught exception, which the
  model's exchange does not carry.
\<close>

section \<open>Definitions\<close>

datatype log_lit =
    FixDone         \<comment> \<open>\<open>"[ok] Ispravlenie propuskov zaversheno.\n"\<close>\<close>
  | FixMissing      \<comment> \<open>\<open>"Propushchennykh svechei bylo: "\<close>\<close>
  | FixSaved        \<comment> \<open>\<open>"Sokhraneno: "\<close>\<close>
  | FixRows         \<comment> \<open>\<open>"Strok teper': "\<close>\<close>
  | PeriodLabel     \<comment> \<open>\<open>"Period: "\<close>\<close>
  | PeriodArrow     \<comment> \<open>two spaces, a right arrow, two spaces\<close>
  | ReportHeader    \<comment> \<open>\<open>"[clipboard] Otchet proverki dannykh:\n"\<close>\<close>
  | ReportSaved     \<comment> \<open>\<open>"[ok] Otchet sokhranen: "\<close>\<close>
  | ResumeFrom      \<comment> \<open>\<open>"Prodolzhayu dokachku s: "\<close>\<close>
  | NoFileStart     \<comment> \<open>\<open>"Faila net -- nachinayu skachivanie s: "\<close>\<close>
  | FetchError      \<comment> \<open>\<open>"[x] Oshibka pri zaprose svechei: "\<close>\<close>
  | BatchesDone     \<comment> \<open>\<open>"Skachano partii: "\<close>\<close>
  | LastCandle      \<comment> \<open>\<open>", poslednyaya svecha: "\<close>\<close>
  | DlSaved         \<comment> \<open>\<open>"[ok] Sokhraneno: "\<close>\<close>
  | DlRows          \<comment> \<open>\<open>"Strok: "\<close>\<close>
  | RawRows         \<comment> \<open>\<open>"[pin] Zagruzheno raw-strok: "\<close>\<close>
  | AfterDropna     \<comment> \<open>\<open>"[ok] Posle dropna ostalos' strok: "\<close>\<close>
  | FeaturesSaved   \<comment> \<open>\<open>"[ok] Fichi sokhraneny: "\<close>\<close>
  | MetaSaved       \<comment> \<open>\<open>"[ok] Sokhraneny: data/processed/feature_list.json i data/processed/splits.json\n"\<close>\<close>
  | KeyRows | KeyStart | KeyEnd | KeyDuplicates | KeyHigh | KeyLow | KeyNegPrices
  | KeyNegVolume | KeyGaps   \<comment> \<open>the report's keys, as in \<open>Validator.report\<close>\<close>

datatype json_val = JInt nat | JStr string | JNull

datatype log_piece = LLit log_lit | LStr string | LJson "(log_lit \<times> json_val) list" | LExc

type_synonym log_msg = "log_piece list"

type_synonym log_out = "log_msg log_record list"

text \<open>\<open>str()\<close> of the minimum and maximum of a timestamp column: \<open>NaT\<close> when it is empty.\<close>

definition ts_min_str :: "table \<Rightarrow> string" where
  "ts_min_str t = (if t = [] then ''NaT'' else fmt_timestamp (ts_min t))"

definition ts_max_str :: "table \<Rightarrow> string" where
  "ts_max_str t = (if t = [] then ''NaT'' else fmt_timestamp (ts_max t))"

definition period_msg :: "table \<Rightarrow> log_msg" where
  "period_msg t = [LLit PeriodLabel, LStr (ts_min_str t), LLit PeriodArrow, LStr (ts_max_str t), LStr ''\<newline>'']"

text \<open>\<open>fix_gaps.main\<close> (lines 38--55): the five lines after the fixed table is written.\<close>

definition fix_gaps_logged :: "logger \<Rightarrow> env \<Rightarrow> store \<Rightarrow> (error + store) \<times> log_out" where
  "fix_gaps_logged lg0 e fs =
     (let lg = setup_logger lg0; p = data_raw_path (get_settings e)
      in case fs p of
           None \<Rightarrow> (Inl RawFileMissing, [])
         | Some df \<Rightarrow>
             (case fix_hourly_gaps df of
                Inl err \<Rightarrow> (Inl err, [])
              | Inr (df_fixed, missing) \<Rightarrow>
                  let out_path = fixed_path p
                  in (Inr (fs(out_path := Some df_fixed)),
                      emit_all lg
                        [(INFO, [LLit FixDone]),
                         (INFO, [LLit FixMissing, LStr (nat_str missing), LStr ''\<newline>'']),
                         (INFO, [LLit FixSaved, LStr out_path, LStr ''\<newline>'']),
                         (INFO, [LLit FixRows, LStr (nat_str (length df_fixed)), LStr ''\<newline>'']),
                         (INFO, period_msg df_fixed)])))"

text \<open>The report as \<open>json.dumps(rep)\<close> writes it: its keys in the order of the dict
  literal (lines 45--55), \<open>str()\<close> of the first and last timestamp, \<open>null\<close> for
  \<open>None\<close>.\<close>

definition report_json :: "report \<Rightarrow> (log_lit \<times> json_val) list" where
  "report_json rep =
     [(KeyRows, JInt (rows rep)), (KeyStart, JStr (fmt_timestamp (start_ts rep))),
      (KeyEnd, JStr (fmt_timestamp (end_ts rep))), (KeyDuplicates, JInt (duplicates rep)),
      (KeyHigh, JInt (invalid_high rep)), (KeyLow, JInt (invalid_low rep)),
      (KeyNegPrices, JInt (negative_prices rep)), (KeyNegVolume, JInt (negative_volume rep)),
      (KeyGaps, (case gaps_1h rep of None \<Rightarrow> JNull | Some g \<Rightarrow> JInt g))]"

text \<open>\<open>validate_ohlcv.main\<close> (lines 60--74).\<close>

definition validate_logged :: "logger \<Rightarrow> env \<Rightarrow> store \<Rightarrow> (error + string \<times> report) \<times> log_out" where
  "validate_logged lg0 e fs =
     (let lg = setup_logger lg0
      in case validate_stage e fs of
           Inl err \<Rightarrow> (Inl err, [])
         | Inr rep \<Rightarrow>
             (Inr (validation_report_path, rep),
              emit_all lg
                [(INFO, [LLit ReportHeader]),
                 (INFO, [LJson (report_json rep), LStr ''\<newline>'']),
                 (INFO, [LLit ReportSaved, LStr validation_report_path, LStr ''\<newline>''])]))"

text \<open>\<open>logger.error(f"... {e}\\n")\<close> after a failed fetch (line 79).\<close>

definition fetch_error_line :: "log_msg log_record" where
  "fetch_error_line = (ERROR, [LLit FetchError, LExc, LStr ''\<newline>''])"

text \<open>The fetch loop of \<open>download_incremental\<close> (lines 74--102) with its log lines: the
  error line of a failed fetch (line 79), and every tenth batch that returned a full page
  the progress line (lines 101--102), which a short page ends the loop before.\<close>

function fetch_loop_logged :: "exchange \<Rightarrow> nat \<Rightarrow> int \<Rightarrow> dl_state \<Rightarrow> dl_state \<times> log_out" where
  "fetch_loop_logged ex rate_ms max_batches st =
     (if batch st < max_batches then
        let b = batch st + 1;
            st1 = st\<lparr>batch := b, trace := trace st @ [Request (since_ms st)]\<rparr>
        in (case ex (nat b) (since_ms st) of
              Inl _ \<Rightarrow> (st1\<lparr>trace := trace st1 @ [FetchFailed]\<rparr>, [fetch_error_line])
            | Inr ohlcv \<Rightarrow>
                if ohlcv = [] then (st1, [])
                else
                  let st2 = st1\<lparr>all_rows := all_rows st1 @ [ohlcv],
                                since_ms := list_max (map timestamp_utc ohlcv) + 1,
                                trace := trace st1 @ [Sleep rate_ms]\<rparr>
                  in if length ohlcv < page_limit then (st2, [])
                     else
                       let progress =
                             (if b mod 10 = 0
                              then [(INFO, [LLit BatchesDone, LStr (nat_str (nat b)), LLit LastCandle,
                                            LStr (fmt_timestamp (list_max (map timestamp_utc ohlcv))),
                                            LStr ''\<newline>''])]
                              else []);
                           (st3, logs) = fetch_loop_logged ex rate_ms max_batches st2
                       in (st3, progress @ logs))
      else (st, []))"
  by pat_completeness auto
termination
  by (relation "measure (\<lambda>(ex, r, mb, st). nat (mb - batch st))") auto

text \<open>The line before the loop (lines 53--68): a non-empty stored table logs its latest
  timestamp, a missing file logs the start cursor as a UTC \<open>datetime\<close>, an existing
  empty file logs nothing.\<close>

definition start_log :: "table option \<Rightarrow> int \<Rightarrow> log_out" where
  "start_log existing since0 =
     (case existing of
        Some df \<Rightarrow>
          if df \<noteq> []
          then [(INFO, [LLit ResumeFrom, LStr (fmt_timestamp (list_max (map timestamp_utc df))),
                        LStr '' (UTC)\<newline>''])]
          else []
      | None \<Rightarrow> [(INFO, [LLit NoFileStart, LStr (fmt_timestamp since0), LStr ''\<newline>''])])"

text \<open>The three lines after the merged table is written (lines 124--126).\<close>

definition end_log :: "string \<Rightarrow> table \<Rightarrow> log_out" where
  "end_log out_path df_all =
     [(INFO, [LLit DlSaved, LStr out_path, LStr ''\<newline>'']),
      (INFO, [LLit DlRows, LStr (nat_str (length df_all)), LStr ''\<newline>'']),
      (INFO, period_msg df_all)]"

text \<open>\<open>download_incremental\<close> with its log calls, in the order it makes them.\<close>

definition download_logged ::
  "exchange option \<Rightarrow> nat option \<Rightarrow> table option \<Rightarrow> int option \<Rightarrow> int \<Rightarrow> string \<Rightarrow>
   (error + table \<times> event list) \<times> log_out" where
  "download_logged exo rl existing since max_batches out_path =
     (case exo of
        None \<Rightarrow> (Inl UnknownExchange, [])
      | Some ex \<Rightarrow>
          let since0 = start_since existing since;
              (st, loop_log) = fetch_loop_logged ex (rate_limit_ms rl) max_batches (dl_init since0);
              df_existing = (case existing of None \<Rightarrow> [] | Some df \<Rightarrow> df);
              df_all = merge_tables df_existing (all_rows st)
          in (Inr (df_all, trace st), start_log existing since0 @ loop_log @ end_log out_path df_all))"

text \<open>\<open>download_ohlcv.main\<close> with \<open>setup_logger()\<close> first.\<close>

definition download_main_logged ::
  "logger \<Rightarrow> (string \<Rightarrow> (exchange \<times> nat option) option) \<Rightarrow> env \<Rightarrow> store \<Rightarrow> (error + store) \<times> log_out" where
  "download_main_logged lg0 exs e fs =
     (let lg = setup_logger lg0; s = get_settings e; p = data_raw_path s; x = exs (exchange_name s);
          (r, calls) = download_logged (map_option fst x) (Option.bind x snd) (fs p) None 10000 p
      in (case r of Inl err \<Rightarrow> Inl err | Inr (t, _) \<Rightarrow> Inr (fs(p := Some t)), emit_all lg calls))"

text \<open>\<open>make_features.main\<close> (lines 78--160): the raw row count, the row count after
  \<open>dropna\<close>, the features path, and, when the time split succeeds, the line naming the
  two metadata files.\<close>

definition make_features_logged ::
  "logger \<Rightarrow> env \<Rightarrow> store \<Rightarrow>
   (error + feature_row list \<times> string list \<times> (error + split_meta)) \<times> log_out" where
  "make_features_logged lg0 e fs =
     (let lg = setup_logger lg0; s = get_settings e; r = build_features (fs (data_raw_path s))
      in case fs (data_raw_path s) of
           None \<Rightarrow> (r, [])
         | Some df \<Rightarrow>
             (case r of
                Inl _ \<Rightarrow> (r, [])
              | Inr (df_feat, cols, splits) \<Rightarrow>
                  (r, emit_all lg
                        ([(INFO, [LLit RawRows, LStr (nat_str (length df)), LStr ''\<newline>'']),
                          (INFO, [LLit AfterDropna, LStr (nat_str (length df_feat)), LStr ''\<newline>'']),
                          (INFO, [LLit FeaturesSaved, LStr (data_features_path s), LStr ''\<newline>''])] @
                         (case splits of Inl _ \<Rightarrow> [] | Inr _ \<Rightarrow> [(INFO, [LLit MetaSaved])])))))"

section \<open>Lemmas\<close>

declare fetch_loop_logged.simps [simp del]

lemmas fetch_loop_logged_unfold = fetch_loop_logged.simps [of ex r mb st] for ex r mb st

text \<open>One turn of the loop on a full page: the progress line of a tenth batch, then
  the rest of the loop.\<close>

lemma fetch_loop_logged_full_page:
  assumes "batch st < mb" "ex (nat (batch st + 1)) (since_ms st) = Inr p" "p \<noteq> []"
    "\<not> length p < page_limit"
  shows "fetch_loop_logged ex r mb st =
    (fst (fetch_loop_logged ex r mb (st\<lparr>batch := batch st + 1, all_rows := all_rows st @ [p],
                 since_ms := list_max (map timestamp_utc p) + 1,
                 trace := trace st @ [Request (since_ms st), Sleep r]\<rparr>)),
     (if (batch st + 1) mod 10 = 0
      then [(INFO, [LLit BatchesDone, LStr (nat_str (nat (batch st + 1))), LLit LastCandle,
                    LStr (fmt_timestamp (list_max (map timestamp_utc p))), LStr ''\<newline>''])]
      else []) @
     snd (fetch_loop_logged ex r mb (st\<lparr>batch := batch st + 1, all_rows := all_rows st @ [p],
                 since_ms := list_max (map timestamp_utc p) + 1,
                 trace := trace st @ [Request (since_ms st), Sleep r]\<rparr>)))"
  using assms by (subst fetch_loop_logged.simps) (simp add: Let_def split_def)

text \<open>Logging changes nothing the loop computes.\<close>

lemma fetch_loop_logged_fst: "fst (fetch_loop_logged ex r mb st) = fetch_loop ex r mb st"
proof (induction ex r mb st rule: fetch_loop_logged.induct)
  case (1 ex r mb st)
  show ?case
  proof (cases "batch st < mb")
    case False
    then show ?thesis by (simp add: fetch_loop_logged_unfold fetch_loop_unfold)
  next
    case True
    show ?thesis
    proof (cases "ex (nat (batch st + 1)) (since_ms st)")
      case (Inl u)
      with True show ?thesis by (simp add: fetch_loop_logged_unfold fetch_loop_unfold)
    next
      case (Inr p)
      show ?thesis
      proof (cases "p = [] \<or> length p < page_limit")
        case True
        with \<open>batch st < mb\<close> Inr show ?thesis
          by (auto simp: fetch_loop_logged_unfold fetch_loop_unfold Let_def)
      next
        case False
        note ih = "1.IH" [OF True refl refl Inr _ refl _ refl]
        from False \<open>batch st < mb\<close> Inr ih show ?thesis
          by (subst fetch_loop_logged.simps, subst fetch_loop.simps) (simp add: Let_def split_def)
      qed
    qed
  qed
qed

text \<open>Every line of the loop reaches the configured logger, and the only \<open>ERROR\<close> line
  is the one of a failed fetch.\<close>

lemma fetch_loop_logged_errors:
  "FetchFailed \<notin> set (trace st) \<Longrightarrow>
   printed (snd (fetch_loop_logged ex r mb st)) = snd (fetch_loop_logged ex r mb st) \<and>
   filter (\<lambda>c. fst c = ERROR) (snd (fetch_loop_logged ex r mb st)) =
     (if FetchFailed \<in> set (trace (fst (fetch_loop_logged ex r mb st))) then [fetch_error_line] else [])"
proof (induction ex r mb st rule: fetch_loop_logged.induct)
  case (1 ex r mb st)
  show ?case
  proof (cases "batch st < mb")
    case False
    then show ?thesis using "1.prems" by (simp add: fetch_loop_logged_unfold)
  next
    case True
    show ?thesis
    proof (cases "ex (nat (batch st + 1)) (since_ms st)")
      case (Inl u)
      with True "1.prems" show ?thesis by (simp add: fetch_loop_logged_unfold fetch_error_line_def)
    next
      case (Inr p)
      show ?thesis
      proof (cases "p = [] \<or> length p < page_limit")
        case True
        with \<open>batch st < mb\<close> Inr "1.prems" show ?thesis
          by (auto simp: fetch_loop_logged_unfold Let_def)
      next
        case False
        note ih = "1.IH" [OF True refl refl Inr _ refl _ refl]
        have ne: "p \<noteq> []" and full: "\<not> length p < page_limit" using False by simp_all
        from "1.prems" ih ne full show ?thesis
          by (simp add: fetch_loop_logged_full_page [where ex=ex and st=st and r=r, OF True Inr ne full])
      qed
    qed
  qed
qed


section \<open>The regularizer's log\<close>

text \<open>The regularized table spans the hourly grid from the raw minimum: its last row is
  the last grid point, which is below the raw maximum when that is off the grid.\<close>

lemma fix_hourly_gaps_span:
  assumes "fix_hourly_gaps df = Inr (out, m)"
  shows "length out = grid_count (ts_min df) (ts_max df) \<and> ts_min out = ts_min df \<and>
         ts_max out = ts_min df + int (grid_count (ts_min df) (ts_max df) - 1) * hour_ms"
proof -
  note f = fix_hourly_gaps_facts [OF assms] and g = fix_hourly_gaps_out_grid [OF assms]
  let ?a = "ts_min df" and ?b = "ts_max df"
  have len: "length out = grid_count ?a ?b"
    using f(3) f(4) by (metis length_map length_date_range not_less)
  have "ts_min out = timestamp_utc (hd out)" using wf_table_hd_Min g by simp
  also have "\<dots> = hd (date_range ?a ?b)" using f(3) g by (metis hd_map)
  also have "\<dots> = ?a" using f(4) by (rule hd_date_range)
  finally have mn: "ts_min out = ?a" .
  have "ts_max out = timestamp_utc (last out)" using wf_table_last_Max g by simp
  also have "\<dots> = last (date_range ?a ?b)" using f(3) g by (metis last_map)
  also have "\<dots> = date_range ?a ?b ! (grid_count ?a ?b - 1)"
    using f(3) f(4) g by (simp add: last_conv_nth length_date_range)
  also have "\<dots> = ?a + int (grid_count ?a ?b - 1) * hour_ms"
    using f(4) grid_count_pos [of ?a ?b] by (simp add: nth_date_range length_date_range)
  finally show ?thesis using len mn by simp
qed

lemma fix_gaps_logged_Inr:
  assumes "fs (data_raw_path (get_settings e)) = Some df" "fix_hourly_gaps df = Inr (out, m)"
  shows "fix_gaps_logged lg e fs =
           (Inr (fs(fixed_path (data_raw_path (get_settings e)) := Some out)),
            [(INFO, [LLit FixDone]),
             (INFO, [LLit FixMissing, LStr (nat_str m), LStr ''\<newline>'']),
             (INFO, [LLit FixSaved, LStr (fixed_path (data_raw_path (get_settings e))), LStr ''\<newline>'']),
             (INFO, [LLit FixRows, LStr (nat_str (length out)), LStr ''\<newline>'']),
             (INFO, period_msg out)])"
  using assms by (simp add: fix_gaps_logged_def emit_all_setup Let_def)

lemma fix_gaps_logged_fst: "fst (fix_gaps_logged lg e fs) = fix_gaps_stage e fs"
  by (simp add: fix_gaps_logged_def fix_gaps_stage_def fix_gaps_main_def Let_def
      split: option.splits sum.splits prod.splits)

text \<open>
  C37 (the regularizer's log is truthful): when \<open>fix_gaps.main\<close> succeeds it prints
  exactly five lines, at \<open>INFO\<close>: the missing-candle count it reports is the 1h gap count
  the validator reports on the same raw file, the row count is the size of the hourly
  grid from the raw minimum to the raw maximum, and the period runs from the raw
  minimum to the last grid point.
\<close>

theorem fix_gaps_log_truthful:
  assumes "fs (data_raw_path (get_settings e)) = Some df"
    and "fix_gaps_stage e fs = Inr fs'"
    and "validate (Some df) ''1h'' = Inr rep"
  shows "\<exists>g. gaps_1h rep = Some g \<and>
           snd (fix_gaps_logged lg e fs) =
            [(INFO, [LLit FixDone]),
             (INFO, [LLit FixMissing, LStr (nat_str g), LStr ''\<newline>'']),
             (INFO, [LLit FixSaved, LStr (fixed_path (data_raw_path (get_settings e))), LStr ''\<newline>'']),
             (INFO, [LLit FixRows, LStr (nat_str (grid_count (ts_min df) (ts_max df))), LStr ''\<newline>'']),
             (INFO, [LLit PeriodLabel, LStr (fmt_timestamp (ts_min df)), LLit PeriodArrow,
                     LStr (fmt_timestamp (ts_min df + int (grid_count (ts_min df) (ts_max df) - 1) * hour_ms)),
                     LStr ''\<newline>''])]"
proof -
  obtain out m where fx: "fix_hourly_gaps df = Inr (out, m)"
    using assms(1,2) by (auto simp: fix_gaps_stage_def fix_gaps_main_def Let_def split: sum.splits)
  have gaps: "gaps_1h rep = Some m"
    using fx assms(3) by (simp add: fix_hourly_gaps_Inr_iff validate_Inr lookup_sort_by_ts_None)
  have ne: "out \<noteq> []" using fix_hourly_gaps_out_grid [OF fx] by simp
  show ?thesis
    using fix_gaps_logged_Inr [where fs=fs and e=e and lg=lg, OF assms(1) fx] fix_hourly_gaps_span [OF fx] gaps ne
    by (simp add: period_msg_def ts_min_str_def ts_max_str_def)
qed


section \<open>The downloader's log\<close>

lemma start_log_levels:
  "printed (start_log existing s) = start_log existing s \<and>
   filter (\<lambda>c. fst c = ERROR) (start_log existing s) = []"
  by (simp add: start_log_def split: option.splits)

lemma end_log_levels:
  "printed (end_log p t) = end_log p t \<and> filter (\<lambda>c. fst c = ERROR) (end_log p t) = []"
  by (simp add: end_log_def)

lemma download_logged_Some:
  "download_logged (Some ex) rl existing since mb p =
     (Inr (merge_tables (case existing of None \<Rightarrow> [] | Some df \<Rightarrow> df)
             (all_rows (fetch_loop ex (rate_limit_ms rl) mb (dl_init (start_since existing since)))),
           trace (fetch_loop ex (rate_limit_ms rl) mb (dl_init (start_since existing since)))),
      start_log existing (start_since existing since) @
      snd (fetch_loop_logged ex (rate_limit_ms rl) mb (dl_init (start_since existing since))) @
      end_log p (merge_tables (case existing of None \<Rightarrow> [] | Some df \<Rightarrow> df)
             (all_rows (fetch_loop ex (rate_limit_ms rl) mb (dl_init (start_since existing since))))))"
  by (simp add: download_logged_def Let_def split_def fetch_loop_logged_fst [symmetric])

lemma download_logged_fst:
  "fst (download_logged exo rl existing since mb p) = download_incremental exo rl existing since mb"
proof (cases exo)
  case None
  then show ?thesis by (simp add: download_logged_def download_incremental_def)
next
  case (Some ex)
  then show ?thesis by (simp add: download_logged_Some download_incremental_def Let_def)
qed

lemma dl_init_no_failure [simp]: "FetchFailed \<notin> set (trace (dl_init s))"
  by (simp add: dl_init_def)

lemma download_logged_printed:
  "printed (snd (download_logged exo rl existing since mb p)) = snd (download_logged exo rl existing since mb p)"
proof (cases exo)
  case None
  then show ?thesis by (simp add: download_logged_def)
next
  case (Some ex)
  note err = fetch_loop_logged_errors [OF dl_init_no_failure [of "start_since existing since"],
      of ex "rate_limit_ms rl" mb]
  from Some err show ?thesis by (simp add: download_logged_Some start_log_levels end_log_levels)
qed



lemma download_main_logged_fst: "fst (download_main_logged lg exs e fs) = download_main exs e fs"
  by (simp add: download_main_logged_def download_main_def Let_def split_def download_logged_fst)

lemma download_main_logged_out:
  "snd (download_main_logged lg exs e fs) =
     (let s = get_settings e; p = data_raw_path s; x = exs (exchange_name s)
      in snd (download_logged (map_option fst x) (Option.bind x snd) (fs p) None 10000 p))"
  by (simp add: download_main_logged_def Let_def split_def emit_all_setup download_logged_printed)


section \<open>The validator's and the feature engine's logs\<close>

lemma validate_logged_fst: "fst (validate_logged lg e fs) = validate_main e fs"
  by (simp add: validate_logged_def validate_main_def split: sum.splits)

lemma validate_logged_out:
  "validate_stage e fs = Inr rep \<Longrightarrow>
   snd (validate_logged lg e fs) =
     [(INFO, [LLit ReportHeader]),
      (INFO, [LJson (report_json rep), LStr ''\<newline>'']),
      (INFO, [LLit ReportSaved, LStr validation_report_path, LStr ''\<newline>''])]"
  by (simp add: validate_logged_def emit_all_setup)

lemma make_features_logged_fst: "fst (make_features_logged lg e fs) = make_features_stage e fs"
  by (simp add: make_features_logged_def make_features_stage_def Let_def split: option.splits sum.splits prod.splits)

lemma make_features_logged_out:
  assumes "fs (data_raw_path (get_settings e)) = Some df"
  shows "snd (make_features_logged lg e fs) =
     [(INFO, [LLit RawRows, LStr (nat_str (length df)), LStr ''\<newline>'']),
      (INFO, [LLit AfterDropna, LStr (nat_str (length (dropna (sort_by_ts df)))), LStr ''\<newline>'']),
      (INFO, [LLit FeaturesSaved, LStr (data_features_path (get_settings e)), LStr ''\<newline>''])] @
     (case make_splits (map fst (dropna (sort_by_ts df))) of Inl _ \<Rightarrow> [] | Inr _ \<Rightarrow> [(INFO, [LLit MetaSaved])])"
  using assms
  by (simp add: make_features_logged_def build_features_def Let_def emit_all_setup split: sum.splits)

theorem fix_gaps_log_truthful_witness:
  "snd (fix_gaps_logged [] empty_env example_store) =
     [(INFO, [LLit FixDone]),
      (INFO, [LLit FixMissing, LStr ''2'', LStr ''\<newline>'']),
      (INFO, [LLit FixSaved, LStr ''data/raw/btcusdt_1h_fixed_fixed.parquet'', LStr ''\<newline>'']),
      (INFO, [LLit FixRows, LStr ''6'', LStr ''\<newline>'']),
      (INFO, [LLit PeriodLabel, LStr ''2024-01-01 00:00:00+00:00'', LLit PeriodArrow,
              LStr ''2024-01-01 05:00:00+00:00'', LStr ''\<newline>''])]"
proof -
  have p: "data_raw_path (get_settings empty_env) = ''data/raw/btcusdt_1h_fixed.parquet''"
    using default_paths by simp
  have h1: "example_store (data_raw_path (get_settings empty_env)) = Some spec_example_raw"
    by (simp add: p example_store_def)
  have h2: "fix_gaps_stage empty_env example_store =
      Inr (example_store(''data/raw/btcusdt_1h_fixed_fixed.parquet'' := Some spec_example_fixed))"
    by (simp add: fix_gaps_stage_def fix_gaps_main_def fix_hourly_gaps_spec_example p default_fixed_path
        example_store_def)
  have h3: "validate (Some spec_example_raw) ''1h'' = Inr (projr (validate (Some spec_example_raw) ''1h''))"
    by code_simp
  have g: "gaps_1h (projr (validate (Some spec_example_raw) ''1h'')) = Some 2"
    by code_simp
  have v1: "grid_count (ts_min spec_example_raw) (ts_max spec_example_raw) = 6"
    by code_simp
  have v2: "fmt_timestamp (ts_min spec_example_raw) = ''2024-01-01 00:00:00+00:00''"
    by code_simp
  have v3: "fmt_timestamp (ts_min spec_example_raw + int (6 - 1) * hour_ms) = ''2024-01-01 05:00:00+00:00''"
    by code_simp
  have n: "nat_str 2 = ''2''" "nat_str 6 = ''6''"
    by code_simp+
  from fix_gaps_log_truthful [OF h1 h2 h3] g obtain log where
    "snd (fix_gaps_logged [] empty_env example_store) = log" and
    "log = [(INFO, [LLit FixDone]),
             (INFO, [LLit FixMissing, LStr (nat_str 2), LStr ''\<newline>'']),
             (INFO, [LLit FixSaved, LStr (fixed_path (data_raw_path (get_settings empty_env))), LStr ''\<newline>'']),
             (INFO, [LLit FixRows, LStr (nat_str (grid_count (ts_min spec_example_raw) (ts_max spec_example_raw))), LStr ''\<newline>'']),
             (INFO, [LLit PeriodLabel, LStr (fmt_timestamp (ts_min spec_example_raw)), LLit PeriodArrow,
                     LStr (fmt_timestamp (ts_min spec_example_raw + int (grid_count (ts_min spec_example_raw) (ts_max spec_example_raw) - 1) * hour_ms)),
                     LStr ''\<newline>''])]"
    by auto
  then show ?thesis by (simp only: v1 v2 v3 n p default_fixed_path)
qed

end
