(* ===== verification/Bot.thy ===== *)
theory Bot
  imports Config Indicators
begin

text \<open>
  The chat bot's data services: \<open>src/bot/services/market_data.py\<close> (the latest rows
  of the raw file) and \<open>src/bot/services/indicators.py\<close> (its own copies of \<open>ema\<close>,
  \<open>rsi\<close> and \<open>macd\<close>, and \<open>calc_indicators\<close>, which reads the last value of each and
  classifies it). The handlers that display these results are in \<open>Handlers\<close>.
\<close>

section \<open>Definitions\<close>

text \<open>The module's own \<open>ema\<close>, \<open>rsi\<close> and \<open>macd\<close> (lines 7--27).\<close>

definition bot_ema :: "real list \<Rightarrow> nat \<Rightarrow> real list" where
  "bot_ema s sp = ewm_mean sp s"

definition bot_rsi :: "series \<Rightarrow> nat \<Rightarrow> series" where
  "bot_rsi close_s period =
     (let delta = pdiff close_s;
          gain = clip_lower0 delta;
          loss = clip_lower0 (map (map_option uminus) delta);
          avg_gain = rolling_mean period gain;
          avg_loss = rolling_mean period loss;
          rs = map2 (lift2 (\<lambda>g l. g / (l + eps))) avg_gain avg_loss
      in map (map_option (\<lambda>r. 100 - 100 / (1 + r))) rs)"

definition bot_macd :: "real list \<Rightarrow> real list \<times> real list \<times> real list" where
  "bot_macd close_s =
     (let fast = bot_ema close_s 12;
          slow = bot_ema close_s 26;
          macd_line = map2 (-) fast slow;
          signal = bot_ema macd_line 9;
          hist = map2 (-) macd_line signal
      in (macd_line, signal, hist))"

text \<open>The two interpretations \<open>calc_indicators\<close> attaches. A NaN RSI fails both
  comparisons and lands in the neutral zone.\<close>

datatype rsi_note = Overbought | Oversold | RsiNeutral

datatype macd_note = Bullish | Bearish | NoSignal

record indicator_report =
  rsi_last :: "real option"
  macd_last :: real
  signal_last :: real
  hist_last :: real
  rsi_text :: rsi_note
  macd_text :: macd_note

definition rsi_note_of :: "real option \<Rightarrow> rsi_note" where
  "rsi_note_of r =
     (case r of
        None \<Rightarrow> RsiNeutral
      | Some v \<Rightarrow> if 70 \<le> v then Overbought else if v \<le> 30 then Oversold else RsiNeutral)"

definition macd_note_of :: "real \<Rightarrow> real \<Rightarrow> real \<Rightarrow> macd_note" where
  "macd_note_of m s h =
     (if s < m \<and> 0 < h then Bullish else if m < s \<and> h < 0 then Bearish else NoSignal)"

text \<open>\<open>calc_indicators(df)\<close> (lines 30--64): \<open>iloc[-1]\<close> of an empty frame raises
  \<open>IndexError\<close>.\<close>

definition calc_indicators :: "table \<Rightarrow> error + indicator_report" where
  "calc_indicators df =
     (let close_s = map close df;
          rsi_series = bot_rsi (map Some close_s) 14;
          (macd_line, signal, hist) = bot_macd close_s
      in case (py_index rsi_series (-1), py_index macd_line (-1), py_index signal (-1),
               py_index hist (-1)) of
           (Some r, Some m, Some s, Some h) \<Rightarrow>
             Inr \<lparr>rsi_last = r, macd_last = m, signal_last = s, hist_last = h,
                  rsi_text = rsi_note_of r, macd_text = macd_note_of m s h\<rparr>
         | _ \<Rightarrow> Inl IndexOutOfRange)"

text \<open>\<open>load_df_last_n(n)\<close>: the raw file, sorted by timestamp, its last \<open>n\<close> rows
  (\<open>tail(n)\<close>); \<open>get_last_candle()\<close>: the last row of \<open>load_df_last_n(1)\<close>.\<close>

definition load_df_last_n :: "env \<Rightarrow> store \<Rightarrow> nat \<Rightarrow> error + table" where
  "load_df_last_n e fs n =
     (case fs (data_raw_path (get_settings e)) of
        None \<Rightarrow> Inl RawFileMissing
      | Some df \<Rightarrow> let d = sort_by_ts df in Inr (drop (length d - n) d))"

definition get_last_candle :: "env \<Rightarrow> store \<Rightarrow> error + candle" where
  "get_last_candle e fs =
     (case load_df_last_n e fs 1 of
        Inl err \<Rightarrow> Inl err
      | Inr df \<Rightarrow> (case py_index df (-1) of None \<Rightarrow> Inl IndexOutOfRange | Some r \<Rightarrow> Inr r))"

section \<open>Lemmas\<close>

text \<open>The bot's copies compute what the pipeline's functions compute.\<close>

lemma bot_rsi_eq_rsi: "bot_rsi = rsi"
  by (simp add: fun_eq_iff bot_rsi_def rsi_def)

lemma bot_macd_eq_macd: "bot_macd = macd"
  by (simp add: fun_eq_iff bot_macd_def bot_ema_def macd_def ema_def)

lemma length_macd:
  "length (fst (macd c)) = length c \<and> length (fst (snd (macd c))) = length c \<and>
   length (snd (snd (macd c))) = length c"
  by (simp add: macd_def ema_def Let_def)

lemma calc_indicators_Inr:
  "df \<noteq> [] \<Longrightarrow>
   calc_indicators df =
     Inr \<lparr>rsi_last = last (rsi (map (\<lambda>r. Some (close r)) df) 14),
          macd_last = last (fst (macd (map close df))),
          signal_last = last (fst (snd (macd (map close df)))),
          hist_last = last (snd (snd (macd (map close df)))),
          rsi_text = rsi_note_of (last (rsi (map (\<lambda>r. Some (close r)) df) 14)),
          macd_text = macd_note_of (last (fst (macd (map close df)))) (last (fst (snd (macd (map close df)))))
                        (last (snd (snd (macd (map close df)))))\<rparr>"
proof -
  assume ne: "df \<noteq> []"
  obtain ml sg hs where m: "macd (map close df) = (ml, sg, hs)" by (cases "macd (map close df)") auto
  have "ml \<noteq> []" "sg \<noteq> []" "hs \<noteq> []"
    using ne length_macd [of "map close df"] m by (metis fst_conv snd_conv length_0_conv length_map)+
  moreover have "rsi (map (\<lambda>r. Some (close r)) df) 14 \<noteq> []"
    using ne by (metis length_rsi length_0_conv length_map)
  ultimately show ?thesis
    unfolding calc_indicators_def Let_def bot_rsi_eq_rsi bot_macd_eq_macd m by (simp add: comp_def)
qed

lemma calc_indicators_empty: "calc_indicators [] = Inl IndexOutOfRange"
  by (simp add: calc_indicators_def py_index_def Let_def split_def bot_rsi_eq_rsi bot_macd_eq_macd
      length_macd [of "[]", simplified])

text \<open>The last MACD histogram value is the line minus the signal, so the histogram
  condition of \<open>calc_indicators\<close> adds nothing to the comparison of line and signal.\<close>

lemma last_map2:
  "length xs = length ys \<Longrightarrow> xs \<noteq> [] \<Longrightarrow> last (map2 f xs ys) = f (last xs) (last ys)"
  by (induction xs ys rule: list_induct2) auto

lemma last_hist: "c \<noteq> [] \<Longrightarrow> last (snd (snd (macd c))) = last (fst (macd c)) - last (fst (snd (macd c)))"
proof -
  assume c: "c \<noteq> []"
  have "length (fst (macd c)) = length (fst (snd (macd c)))" "fst (macd c) \<noteq> []"
    using length_macd [of c] c by (metis length_0_conv)+
  then show ?thesis by (simp add: macd_def Let_def last_map2)
qed

theorem calc_indicators_macd_text:
  assumes "calc_indicators df = Inr rep"
  shows "(macd_text rep = Bullish \<longleftrightarrow> signal_last rep < macd_last rep) \<and>
         (macd_text rep = Bearish \<longleftrightarrow> macd_last rep < signal_last rep)"
proof -
  have ne: "df \<noteq> []" using assms calc_indicators_empty by auto
  show ?thesis
    using assms last_hist [of "map close df"] ne
    by (auto simp: calc_indicators_Inr macd_note_of_def split: if_splits)
qed

text \<open>With at most 14 rows the RSI window is never complete: the bot reports a NaN RSI
  and files it under the neutral zone.\<close>

theorem calc_indicators_rsi_warmup:
  assumes "df \<noteq> []" and "length df \<le> 14"
  shows "\<exists>rep. calc_indicators df = Inr rep \<and> rsi_last rep = None \<and> rsi_text rep = RsiNeutral"
proof -
  have "last (rsi (map (\<lambda>r. Some (close r)) df) 14) = None"
  proof -
    let ?c = "map (\<lambda>r. Some (close r)) df"
    have i: "length df - 1 < length ?c" using assms(1) by simp
    have "window 14 (clip_lower0 (pdiff ?c)) (length df - 1) = None"
    proof (cases "length df = 14")
      case True
      have "clip_lower0 (pdiff ?c) ! 0 = None"
        using assms(1) by (simp add: nth_pdiff clip_lower0_def)
      then have "\<not> list_all (\<lambda>x. x \<noteq> None) (take 14 (drop (Suc (length df - 1) - 14) (clip_lower0 (pdiff ?c))))"
        using True by (auto simp: list_all_length intro!: exI [of _ 0])
      then show ?thesis by (simp add: window_def)
    next
      case False
      with assms(2) show ?thesis by (simp add: window_short)
    qed
    then have "rolling_mean 14 (clip_lower0 (pdiff ?c)) ! (length df - 1) = None"
      using i by (simp add: rolling_mean_def nth_rolling)
    then have "rsi ?c 14 ! (length df - 1) = None"
      using i by (simp add: rsi_def Let_def lift2_def)
    moreover have "rsi ?c 14 \<noteq> []" using assms(1) by (metis length_rsi length_0_conv length_map)
    ultimately show ?thesis by (simp add: last_conv_nth)
  qed
  then show ?thesis using calc_indicators_Inr [OF assms(1)] by (simp add: rsi_note_of_def)
qed

lemma load_df_last_n_Inr:
  "fs (data_raw_path (get_settings e)) = Some df \<Longrightarrow>
   load_df_last_n e fs n = Inr (drop (length df - n) (sort_by_ts df))"
  by (simp add: load_df_last_n_def)

text \<open>After the stable sort by timestamp, the last row is a row of the table with the
  largest timestamp.\<close>

lemma last_sort_by_ts_max:
  assumes "df \<noteq> []"
  shows "last (sort_by_ts df) \<in> set df \<and> timestamp_utc (last (sort_by_ts df)) = ts_max df"
proof -
  have ne: "sort_by_ts df \<noteq> []" using assms by simp
  have "sorted (map timestamp_utc (sort_by_ts df))" by (rule sorted_sort_key)
  then have "list_max (map timestamp_utc (sort_by_ts df)) = last (map timestamp_utc (sort_by_ts df))"
    using ne by (simp add: list_max_sorted_last)
  moreover have "list_max (map timestamp_utc (sort_by_ts df)) = ts_max df"
    using ne by (simp add: list_max_Max)
  moreover have "last (sort_by_ts df) \<in> set (sort_by_ts df)" using ne by (rule last_in_set)
  then have "last (sort_by_ts df) \<in> set df" by simp
  ultimately show ?thesis using ne by (simp add: last_map)
qed

lemma drop_last_one: "xs \<noteq> [] \<Longrightarrow> drop (length xs - 1) xs = [last xs]"
proof -
  assume "xs \<noteq> []"
  then have "xs = butlast xs @ [last xs]" by simp
  then show ?thesis by (metis append_eq_conv_conj length_butlast)
qed

lemma get_last_candle_latest:
  assumes "fs (data_raw_path (get_settings e)) = Some df" and "df \<noteq> []"
  shows "get_last_candle e fs = Inr (last (sort_by_ts df)) \<and>
         timestamp_utc (last (sort_by_ts df)) = ts_max df"
  using assms last_sort_by_ts_max [OF assms(2)] drop_last_one [of "sort_by_ts df"]
  by (simp add: get_last_candle_def load_df_last_n_Inr)

text \<open>
  C32 (the bot reports the latest candle): whatever the order of the rows in the raw
  file, the candle \<open>get_last_candle\<close> returns (and the price reply prints) is a row of
  the file with the largest timestamp, because \<open>load_df_last_n\<close> sorts before taking
  the tail; on a file without rows \<open>iloc[-1]\<close> raises \<open>IndexError\<close>.
\<close>

theorem get_last_candle_shows_latest:
  assumes "fs (data_raw_path (get_settings e)) = Some df"
  shows "(df = [] \<longrightarrow> get_last_candle e fs = Inl IndexOutOfRange) \<and>
         (df \<noteq> [] \<longrightarrow> (\<exists>r. get_last_candle e fs = Inr r \<and> r \<in> set df \<and> timestamp_utc r = ts_max df))"
proof (intro conjI impI)
  assume "df = []"
  then show "get_last_candle e fs = Inl IndexOutOfRange"
    using assms by (simp add: get_last_candle_def load_df_last_n_def py_index_def)
next
  assume ne: "df \<noteq> []"
  have "get_last_candle e fs = Inr (last (sort_by_ts df))"
    using assms ne drop_last_one [of "sort_by_ts df"] by (simp add: get_last_candle_def load_df_last_n_def)
  then show "\<exists>r. get_last_candle e fs = Inr r \<and> r \<in> set df \<and> timestamp_utc r = ts_max df"
    using last_sort_by_ts_max [OF ne] by blast
qed

theorem get_last_candle_shows_latest_witness:
  "\<exists>r. get_last_candle empty_env (\<lambda>p. Some spec_example_raw) = Inr r \<and> timestamp_utc r = 1704085200000"
proof -
  have "ts_max spec_example_raw = 1704085200000" by code_simp
  moreover have "spec_example_raw \<noteq> []" by (simp add: spec_example_raw_def)
  ultimately show ?thesis
    using get_last_candle_shows_latest [of "\<lambda>p. Some spec_example_raw" empty_env spec_example_raw] by auto
qed

end
