(* ===== verification/Handlers.thy ===== *)
theory Handlers
  imports Bot PyTime
begin

text \<open>
  The chat bot's front end: the inline keyboard of \<open>src/bot/keyboards.py\<close>, the
  handlers of \<open>src/bot/handlers.py\<close>, the chart of \<open>src/bot/services/charts.py\<close> and
  the entry point \<open>src/bot/main.py\<close>. A handler is modelled by what it does: the list
  of actions it performs on the chat (messages with their keyboard, the photo, the
  chart file it saves, the acknowledgement of the callback query) and the exception
  that ends it, if any. The fixed Russian texts of the source are constants of the
  datatype \<open>lit\<close>, one per literal; the values printed into them are the strings
  Python's formatting produces (\<open>PyFormat\<close>, \<open>PyTime\<close>). aiogram's polling hands each
  update to the router and logs an exception of a handler without stopping, so a run
  of the bot maps the dispatch over the updates it receives.
\<close>

section \<open>Definitions\<close>

text \<open>The literal texts, in the order of the source.\<close>

datatype lit =
    StartText          \<comment> \<open>greeting of \<open>start\<close>, line 18\<close>
  | HelpText           \<comment> \<open>the help text, lines 26--30\<close>
  | PriceHeader | TimeLabel | OpenLabel | HighLabel | LowLabel | CloseLabel | VolumeLabel
  | ChartCaption       \<comment> \<open>caption of the photo, line 58\<close>
  | IndicatorsHeader | RsiLabel | MacdLabel | SignalLabel | HistLabel | RsiComment | MacdComment
  | ForecastHeader | ForecastCloseLabel | ForecastPlan
  | NewLine
  | BtnPriceNow | BtnChart | BtnIndicators | BtnForecast | BtnHelp  \<comment> \<open>button labels\<close>
  | ChartTitlePrefix | ChartTitleSuffix  \<comment> \<open>around the candle count of the chart title\<close>

datatype piece = Lit lit | Val string | RsiText rsi_note | MacdText macd_note

type_synonym message = "piece list"

record button =
  btn_text :: lit
  callback_data :: string

text \<open>\<open>main_menu()\<close>: five rows of one button each.\<close>

definition main_menu :: "button list list" where
  "main_menu =
     [[\<lparr>btn_text = BtnPriceNow, callback_data = ''price_now''\<rparr>],
      [\<lparr>btn_text = BtnChart, callback_data = ''chart''\<rparr>],
      [\<lparr>btn_text = BtnIndicators, callback_data = ''indicators''\<rparr>],
      [\<lparr>btn_text = BtnForecast, callback_data = ''forecast''\<rparr>],
      [\<lparr>btn_text = BtnHelp, callback_data = ''help''\<rparr>]]"

text \<open>The picture \<open>mpf.plot\<close> renders: the candles (renaming the columns and indexing by
  the timestamp keep every row) and the title.\<close>

record chart =
  chart_rows :: table
  chart_title :: message

datatype action =
    Answer message "button list list"               \<comment> \<open>\<open>message.answer(txt, reply_markup=...)\<close>\<close>
  | AnswerPhoto string message "button list list"   \<comment> \<open>\<open>answer_photo(FSInputFile(path), caption=...)\<close>\<close>
  | SaveChart string chart                       \<comment> \<open>\<open>mpf.plot(..., savefig=dict(fname=path))\<close>\<close>
  | AckCallback                                  \<comment> \<open>\<open>cb.answer()\<close>\<close>

type_synonym outcome = "action list \<times> error option"

text \<open>\<open>make_candles_chart(df, out_path)\<close>: saves the chart and returns the path.\<close>

definition make_candles_chart :: "table \<Rightarrow> string \<Rightarrow> action list \<times> string" where
  "make_candles_chart df out_path =
     ([SaveChart out_path
        \<lparr>chart_rows = df, chart_title = [Lit ChartTitlePrefix, Val (nat_str (length df)), Lit ChartTitleSuffix]\<rparr>],
      out_path)"

text \<open>\<open>start\<close> (\<open>/start\<close>) and \<open>help_cb\<close>.\<close>

definition start :: outcome where
  "start = ([Answer [Lit StartText] main_menu], None)"

definition help_cb :: outcome where
  "help_cb = ([Answer [Lit HelpText] main_menu, AckCallback], None)"

text \<open>\<open>price_now\<close>: the last candle with two decimals for prices, four for the volume.\<close>

definition price_text :: "candle \<Rightarrow> message" where
  "price_text c =
     [Lit PriceHeader, Lit TimeLabel, Val (fmt_timestamp (timestamp_utc c)), Lit NewLine,
      Lit OpenLabel, Val (fmt_fixed 2 (open_price c)), Lit NewLine,
      Lit HighLabel, Val (fmt_fixed 2 (high c)), Lit NewLine,
      Lit LowLabel, Val (fmt_fixed 2 (low c)), Lit NewLine,
      Lit CloseLabel, Val (fmt_fixed 2 (close c)), Lit NewLine,
      Lit VolumeLabel, Val (fmt_fixed 4 (volume c)), Lit NewLine]"

definition price_now :: "env \<Rightarrow> store \<Rightarrow> outcome" where
  "price_now e fs =
     (case get_last_candle e fs of
        Inl err \<Rightarrow> ([], Some err)
      | Inr c \<Rightarrow> ([Answer (price_text c) main_menu, AckCallback], None))"

text \<open>\<open>chart\<close>: the last 300 rows drawn to a fixed file, then sent as a photo.\<close>

definition chart_path :: string where
  "chart_path = ''data/processed/chart_last_300.png''"

definition chart_cb :: "env \<Rightarrow> store \<Rightarrow> outcome" where
  "chart_cb e fs =
     (case load_df_last_n e fs 300 of
        Inl err \<Rightarrow> ([], Some err)
      | Inr df \<Rightarrow>
          (fst (make_candles_chart df chart_path) @
           [AnswerPhoto chart_path [Lit ChartCaption] main_menu, AckCallback], None))"

text \<open>\<open>indicators\<close>: \<open>calc_indicators\<close> on the last 400 rows; RSI with two decimals
  (\<open>nan\<close> during the warm-up), MACD, signal and histogram with four.\<close>

definition indicators_text :: "indicator_report \<Rightarrow> message" where
  "indicators_text r =
     [Lit IndicatorsHeader, Lit RsiLabel, Val (fmt_float 2 (rsi_last r)), Lit NewLine,
      Lit MacdLabel, Val (fmt_fixed 4 (macd_last r)), Lit NewLine,
      Lit SignalLabel, Val (fmt_fixed 4 (signal_last r)), Lit NewLine,
      Lit HistLabel, Val (fmt_fixed 4 (hist_last r)), Lit NewLine, Lit NewLine,
      Lit RsiComment, RsiText (rsi_text r), Lit NewLine,
      Lit MacdComment, MacdText (macd_text r), Lit NewLine]"

definition indicators_cb :: "env \<Rightarrow> store \<Rightarrow> outcome" where
  "indicators_cb e fs =
     (case load_df_last_n e fs 400 of
        Inl err \<Rightarrow> ([], Some err)
      | Inr df \<Rightarrow>
          (case calc_indicators df of
             Inl err \<Rightarrow> ([], Some err)
           | Inr r \<Rightarrow> ([Answer (indicators_text r) main_menu, AckCallback], None)))"

text \<open>\<open>forecast\<close>: a placeholder reply with the last close.\<close>

definition forecast_text :: "candle \<Rightarrow> message" where
  "forecast_text c =
     [Lit ForecastHeader, Lit ForecastCloseLabel, Val (fmt_fixed 2 (close c)), Lit NewLine, Lit NewLine,
      Lit ForecastPlan]"

definition forecast :: "env \<Rightarrow> store \<Rightarrow> outcome" where
  "forecast e fs =
     (case get_last_candle e fs of
        Inl err \<Rightarrow> ([], Some err)
      | Inr c \<Rightarrow> ([Answer (forecast_text c) main_menu, AckCallback], None))"

text \<open>The router: the filters \<open>F.data == ...\<close> of the callback handlers, and the
  updates the bot receives.\<close>

datatype callback = CbHelp | CbPriceNow | CbChart | CbIndicators | CbForecast

definition route :: "string \<Rightarrow> callback option" where
  "route d =
     (if d = ''help'' then Some CbHelp
      else if d = ''price_now'' then Some CbPriceNow
      else if d = ''chart'' then Some CbChart
      else if d = ''indicators'' then Some CbIndicators
      else if d = ''forecast'' then Some CbForecast
      else None)"

definition run_callback :: "env \<Rightarrow> store \<Rightarrow> callback \<Rightarrow> outcome" where
  "run_callback e fs cb =
     (case cb of
        CbHelp \<Rightarrow> help_cb
      | CbPriceNow \<Rightarrow> price_now e fs
      | CbChart \<Rightarrow> chart_cb e fs
      | CbIndicators \<Rightarrow> indicators_cb e fs
      | CbForecast \<Rightarrow> forecast e fs)"

datatype update = StartCommand | CallbackQuery string | OtherMessage

text \<open>An update no handler matches is dropped by aiogram: nothing is sent and a callback
  query stays unanswered.\<close>

definition dispatch :: "env \<Rightarrow> store \<Rightarrow> update \<Rightarrow> outcome" where
  "dispatch e fs u =
     (case u of
        StartCommand \<Rightarrow> start
      | CallbackQuery d \<Rightarrow> (case route d of None \<Rightarrow> ([], None) | Some cb \<Rightarrow> run_callback e fs cb)
      | OtherMessage \<Rightarrow> ([], None))"

text \<open>aiogram's \<open>Bot(token=...)\<close> validates the token first (\<open>validate_token\<close> of
  \<open>aiogram.utils.token\<close>): no whitespace character, and \<open>token.partition(":")\<close> must
  find the colon, with a non-empty all-digit left part and a non-empty right part;
  otherwise it raises \<open>TokenValidationError\<close>.\<close>

definition aiogram_token_valid :: "string \<Rightarrow> bool" where
  "aiogram_token_valid t \<longleftrightarrow>
     list_all (\<lambda>c. c \<notin> set py_whitespace) t \<and>
     (let left = takeWhile (\<lambda>c. c \<noteq> CHR '':'') t; rest = dropWhile (\<lambda>c. c \<noteq> CHR '':'') t
      in rest \<noteq> [] \<and> left \<noteq> [] \<and> list_all (\<lambda>c. c \<in> set ''0123456789'') left \<and> tl rest \<noteq> [])"

text \<open>\<open>bot/main.py\<close> (lines 9--18): the token check before anything else, then
  \<open>Bot(token=token)\<close>, which validates the token's format, then polling; each update
  is dispatched on the files as they are.\<close>

definition bot_main :: "env \<Rightarrow> store \<Rightarrow> update list \<Rightarrow> error + string \<times> outcome list" where
  "bot_main e fs us =
     (case require_telegram_token e of
        Inl err \<Rightarrow> Inl err
      | Inr token \<Rightarrow>
          if aiogram_token_valid token then Inr (token, map (dispatch e fs) us) else Inl TokenInvalid)"

text \<open>A reply to the user: a message or a photo.\<close>

fun is_reply :: "action \<Rightarrow> bool" where
  "is_reply (Answer _ _) = True"
| "is_reply (AnswerPhoto _ _ _) = True"
| "is_reply _ = False"

text \<open>An environment that sets a token, and a store holding the spec's example table
  as the raw file at the default path.\<close>

definition token_env :: env where
  "token_env k = (if k = ''TELEGRAM_TOKEN'' then Some ''123:abc'' else None)"

definition bot_store :: store where
  "bot_store p = (if p = ''data/raw/btcusdt_1h_fixed.parquet'' then Some spec_example_raw else None)"

section \<open>Lemmas\<close>

lemma menu_callbacks:
  "map callback_data (concat main_menu) = [''price_now'', ''chart'', ''indicators'', ''forecast'', ''help'']"
  by (simp add: main_menu_def)

lemma route_menu: "b \<in> set (concat main_menu) \<Longrightarrow> route (callback_data b) \<noteq> None"
  by (auto simp: main_menu_def route_def)

lemma load_df_last_n_ne:
  "fs (data_raw_path (get_settings e)) = Some df \<Longrightarrow> df \<noteq> [] \<Longrightarrow> 0 < n \<Longrightarrow>
   \<exists>d. load_df_last_n e fs n = Inr d \<and> d \<noteq> []"
  by (cases df) (auto simp: load_df_last_n_def)

lemma price_now_ok:
  assumes "fs (data_raw_path (get_settings e)) = Some df" and "df \<noteq> []"
  shows "price_now e fs = ([Answer (price_text (last (sort_by_ts df))) main_menu, AckCallback], None)"
  using get_last_candle_latest [where fs=fs and e=e, OF assms] by (simp add: price_now_def)

lemma chart_cb_ok:
  assumes "fs (data_raw_path (get_settings e)) = Some df" and "df \<noteq> []"
  shows "\<exists>d. chart_cb e fs = (fst (make_candles_chart d chart_path) @
           [AnswerPhoto chart_path [Lit ChartCaption] main_menu, AckCallback], None)"
proof -
  obtain d where "load_df_last_n e fs 300 = Inr d"
    using load_df_last_n_ne [where fs=fs and e=e and n=300, OF assms] by auto
  then show ?thesis by (auto simp: chart_cb_def)
qed

lemma indicators_cb_ok:
  assumes "fs (data_raw_path (get_settings e)) = Some df" and "df \<noteq> []"
  shows "\<exists>r. indicators_cb e fs = ([Answer (indicators_text r) main_menu, AckCallback], None)"
proof -
  obtain d where d: "load_df_last_n e fs 400 = Inr d" "d \<noteq> []"
    using load_df_last_n_ne [where fs=fs and e=e and n=400, OF assms] by auto
  have "\<exists>r. calc_indicators d = Inr r" using calc_indicators_Inr [OF d(2)] by (rule exI)
  then obtain r where "calc_indicators d = Inr r" ..
  then show ?thesis using d by (auto simp: indicators_cb_def)
qed

lemma run_callback_answered:
  assumes "fs (data_raw_path (get_settings e)) = Some df" and "df \<noteq> []"
  shows "snd (run_callback e fs cb) = None \<and> last (fst (run_callback e fs cb)) = AckCallback \<and>
         length (filter is_reply (fst (run_callback e fs cb))) = 1"
proof (cases cb)
  case CbHelp
  then show ?thesis by (simp add: run_callback_def help_cb_def)
next
  case CbPriceNow
  then show ?thesis using price_now_ok [where fs=fs and e=e, OF assms] by (simp add: run_callback_def)
next
  case CbChart
  then show ?thesis using chart_cb_ok [where fs=fs and e=e, OF assms] by (auto simp: run_callback_def make_candles_chart_def)
next
  case CbIndicators
  then show ?thesis using indicators_cb_ok [where fs=fs and e=e, OF assms] by (auto simp: run_callback_def)
next
  case CbForecast
  have "forecast e fs = ([Answer (forecast_text (last (sort_by_ts df))) main_menu, AckCallback], None)"
    using get_last_candle_latest [where fs=fs and e=e, OF assms] by (simp add: forecast_def)
  then show ?thesis using CbForecast by (simp add: run_callback_def)
qed

lemma dispatch_menu:
  "b \<in> set (concat main_menu) \<Longrightarrow> \<exists>cb. dispatch e fs (CallbackQuery (callback_data b)) = run_callback e fs cb"
  using route_menu [of b] by (auto simp: dispatch_def split: option.splits)

lemma bot_main_Inr: "bot_main e fs us = Inr (token, outs) \<Longrightarrow> outs = map (dispatch e fs) us"
  by (auto simp: bot_main_def split: sum.splits if_splits)

text \<open>Without the raw file every data button raises inside its handler: nothing is sent
  and \<open>cb.answer()\<close> is never reached, so the query stays unanswered.\<close>

lemma data_callbacks_unanswered:
  assumes "fs (data_raw_path (get_settings e)) = None" and "cb \<noteq> CbHelp"
  shows "run_callback e fs cb = ([], Some RawFileMissing)"
proof -
  have "load_df_last_n e fs n = Inl RawFileMissing" for n using assms(1) by (simp add: load_df_last_n_def)
  then have "get_last_candle e fs = Inl RawFileMissing" by (simp add: get_last_candle_def)
  then show ?thesis using assms(2) \<open>\<And>n. load_df_last_n e fs n = Inl RawFileMissing\<close>
    by (cases cb) (simp_all add: run_callback_def price_now_def chart_cb_def indicators_cb_def forecast_def)
qed

text \<open>The chart shows the latest \<open>min 300 n\<close> candles of the file, in time order, and
  its title prints that count.\<close>

lemma chart_cb_rows:
  assumes "fs (data_raw_path (get_settings e)) = Some df"
  shows "chart_cb e fs =
           ([SaveChart chart_path
              \<lparr>chart_rows = drop (length df - 300) (sort_by_ts df),
               chart_title = [Lit ChartTitlePrefix, Val (nat_str (min 300 (length df))), Lit ChartTitleSuffix]\<rparr>,
             AnswerPhoto chart_path [Lit ChartCaption] main_menu, AckCallback], None)"
proof -
  have "length (drop (length df - 300) (sort_by_ts df)) = min 300 (length df)" by simp
  then show ?thesis
    using assms by (simp add: chart_cb_def load_df_last_n_def make_candles_chart_def)
qed

text \<open>On a file of at most 14 rows the indicators reply prints \<open>nan\<close> for the RSI and the
  neutral comment.\<close>

lemma indicators_cb_warmup:
  assumes "fs (data_raw_path (get_settings e)) = Some df" and "df \<noteq> []" and "length df \<le> 14"
  shows "\<exists>r. indicators_cb e fs = ([Answer (indicators_text r) main_menu, AckCallback], None) \<and>
             fmt_float 2 (rsi_last r) = ''nan'' \<and> rsi_text r = RsiNeutral"
proof -
  let ?d = "drop (length df - 400) (sort_by_ts df)"
  have d: "load_df_last_n e fs 400 = Inr ?d" using assms(1) by (simp add: load_df_last_n_def)
  have "?d \<noteq> []" "length ?d \<le> 14" using assms(2,3) by simp_all
  then obtain r where r: "calc_indicators ?d = Inr r" "rsi_last r = None" "rsi_text r = RsiNeutral"
    using calc_indicators_rsi_warmup by blast
  then show ?thesis using d by (intro exI [of _ r]) (simp add: indicators_cb_def fmt_float_def)
qed

section \<open>Properties of the bot\<close>

text \<open>
  C33 (every menu button is answered): in a run of the bot, whenever the raw file exists
  and holds at least one row, each callback query that carries the data of a button of
  the main menu is handled without exception, gets exactly one reply (a message or the
  chart photo) and ends with the acknowledgement of the query.
\<close>

theorem menu_callbacks_answered:
  assumes "bot_main e fs us = Inr (token, outs)"
    and "fs (data_raw_path (get_settings e)) = Some df" and "df \<noteq> []"
    and "i < length us" and "us ! i = CallbackQuery (callback_data b)" and "b \<in> set (concat main_menu)"
  shows "snd (outs ! i) = None \<and> last (fst (outs ! i)) = AckCallback \<and>
         length (filter is_reply (fst (outs ! i))) = 1"
proof -
  have "outs ! i = dispatch e fs (CallbackQuery (callback_data b))"
    using bot_main_Inr [OF assms(1)] assms(4,5) by simp
  then obtain cb where "outs ! i = run_callback e fs cb" using dispatch_menu [OF assms(6)] by metis
  then show ?thesis using run_callback_answered [where fs=fs and e=e and cb=cb, OF assms(2,3)] by simp
qed

theorem menu_callbacks_answered_witness:
  "bot_main token_env bot_store [CallbackQuery ''chart''] =
     Inr (''123:abc'', [dispatch token_env bot_store (CallbackQuery ''chart'')]) \<and>
   last (fst (dispatch token_env bot_store (CallbackQuery ''chart''))) = AckCallback"
proof -
  have tok: "require_telegram_token token_env = Inr ''123:abc''"
    by (simp add: require_telegram_token_def token_env_def getenv_def py_strip_def py_whitespace_def
        token_placeholder_def)
  then have bm: "bot_main token_env bot_store [CallbackQuery ''chart''] =
      Inr (''123:abc'', [dispatch token_env bot_store (CallbackQuery ''chart'')])"
    by (simp add: bot_main_def aiogram_token_valid_def py_whitespace_def)
  have raw: "bot_store (data_raw_path (get_settings token_env)) = Some spec_example_raw"
    by (simp add: bot_store_def get_settings_def getenv_def token_env_def py_strip_def py_whitespace_def)
  have b: "\<lparr>btn_text = BtnChart, callback_data = ''chart''\<rparr> \<in> set (concat main_menu)"
    by (simp add: main_menu_def)
  show ?thesis
    using menu_callbacks_answered [OF bm raw _ _ _ b, of 0] bm by (simp add: spec_example_raw_def)
qed

text \<open>
  C20 (the price reply prints each price to its displayed precision): when the bot
  finds the last candle, \<open>price_now\<close> answers one message, with the menu, and
  acknowledges the query; after each of the labels open, high, low, close (two
  decimals) and volume (four decimals) comes the value as \<open>f"{x:.kf}"\<close> prints it:
  read back it is \<open>x\<close> rounded half to even at the \<open>k\<close>-th decimal, keeping the sign,
  hence within half a unit of that place.
\<close>

theorem price_now_prices:
  assumes "get_last_candle e fs = Inr c"
  shows "\<exists>msg. price_now e fs = ([Answer msg main_menu, AckCallback], None) \<and>
           (\<forall>(lbl, f, k) \<in> {(OpenLabel, open_price :: candle \<Rightarrow> real, 2), (HighLabel, high, 2), (LowLabel, low, 2),
                             (CloseLabel, close, 2), (VolumeLabel, volume, 4)}.
              \<exists>s. (Lit lbl, Val s) \<in> set (zip msg (tl msg)) \<and>
                  read_fixed s * 10 ^ k = (if f c < 0 then -1 else 1) * of_int (round_half_even (\<bar>f c\<bar> * 10 ^ k)) \<and>
                  \<bar>read_fixed s - f c\<bar> \<le> 1 / (2 * 10 ^ k))"
proof -
  let ?m = "price_text c"
  have pn: "price_now e fs = ([Answer ?m main_menu, AckCallback], None)"
    using assms by (simp add: price_now_def)
  have "\<forall>(lbl, f, k) \<in> {(OpenLabel, open_price :: candle \<Rightarrow> real, 2), (HighLabel, high, 2), (LowLabel, low, 2),
                             (CloseLabel, close, 2), (VolumeLabel, volume, 4 :: nat)}.
          \<exists>s. (Lit lbl, Val s) \<in> set (zip ?m (tl ?m)) \<and>
              read_fixed s * 10 ^ k = (if f c < 0 then -1 else 1) * of_int (round_half_even (\<bar>f c\<bar> * 10 ^ k)) \<and>
              \<bar>read_fixed s - f c\<bar> \<le> 1 / (2 * 10 ^ k)"
  proof (intro ballI, clarify)
    fix lbl f k
    assume m: "(lbl, f, k) \<in> {(OpenLabel, open_price :: candle \<Rightarrow> real, 2), (HighLabel, high, 2), (LowLabel, low, 2),
                             (CloseLabel, close, 2), (VolumeLabel, volume, 4 :: nat)}"
    have "(Lit lbl, Val (fmt_fixed k (f c))) \<in> set (zip ?m (tl ?m))"
      using m by (auto simp: price_text_def)
    moreover have "read_fixed (fmt_fixed k (f c)) * 10 ^ k =
        (if f c < 0 then -1 else 1) * of_int (round_half_even (\<bar>f c\<bar> * 10 ^ k))"
      by (simp add: read_fmt_fixed)
    ultimately show "\<exists>s. (Lit lbl, Val s) \<in> set (zip ?m (tl ?m)) \<and>
        read_fixed s * 10 ^ k = (if f c < 0 then -1 else 1) * of_int (round_half_even (\<bar>f c\<bar> * 10 ^ k)) \<and>
        \<bar>read_fixed s - f c\<bar> \<le> 1 / (2 * 10 ^ k)"
      using fmt_fixed_roundtrip [of k "f c"] by blast
  qed
  with pn show ?thesis by blast
qed

theorem price_now_prices_witness:
  "\<exists>msg. price_now token_env bot_store = ([Answer msg main_menu, AckCallback], None) \<and>
     (\<exists>s. (Lit CloseLabel, Val s) \<in> set (zip msg (tl msg)) \<and>
          \<bar>read_fixed s - close (last spec_example_raw)\<bar> \<le> 1 / 200)"
proof -
  have raw: "bot_store (data_raw_path (get_settings token_env)) = Some spec_example_raw"
    by (simp add: bot_store_def get_settings_def getenv_def token_env_def py_strip_def py_whitespace_def)
  have ne: "spec_example_raw \<noteq> []" by (simp add: spec_example_raw_def)
  have "sort_by_ts spec_example_raw = spec_example_raw" by code_simp
  then have g: "get_last_candle token_env bot_store = Inr (last spec_example_raw)"
    using get_last_candle_latest [where fs=bot_store and e=token_env, OF raw ne] by simp
  show ?thesis using price_now_prices [OF g] by fastforce
qed

text \<open>A valid token has no whitespace, so it starts and ends with non-whitespace.\<close>

lemma aiogram_token_valid_ends:
  assumes "aiogram_token_valid t"
  shows "t \<noteq> [] \<and> hd t \<notin> set py_whitespace \<and> last t \<notin> set py_whitespace"
proof -
  have ne: "t \<noteq> []" using assms by (auto simp: aiogram_token_valid_def Let_def)
  moreover have "list_all (\<lambda>c. c \<notin> set py_whitespace) t"
    using assms by (simp add: aiogram_token_valid_def)
  ultimately show ?thesis by (simp add: list_all_iff)
qed

lemma require_telegram_token_Inr:
  "require_telegram_token e = Inr t \<longleftrightarrow>
     (\<exists>v. e ''TELEGRAM_TOKEN'' = Some v \<and> t = py_strip v) \<and> t \<noteq> [] \<and> \<not> is_substring token_placeholder t"
proof (cases "e ''TELEGRAM_TOKEN''")
  case None
  have "py_strip [] = []" by (simp add: py_strip_def)
  with None show ?thesis by (auto simp: require_telegram_token_def getenv_def)
qed (auto simp: require_telegram_token_def getenv_def Let_def split: if_splits)

text \<open>
  C36 (which tokens start the bot): the bot gets past its start and handles every update
  exactly when the environment's \<open>TELEGRAM_TOKEN\<close> is a token \<open>t\<close> padded with
  whitespace on either side (which \<open>.strip()\<close> removes), \<open>t\<close> passes aiogram's format
  check (digits, a colon, a non-empty rest, no whitespace) and \<open>t\<close> does not contain the
  template's placeholder; it then runs with \<open>t\<close>. Every other value (unset, empty,
  the placeholder, or a malformed token like \<open>abc\<close>) stops it before any update.
\<close>

theorem bot_main_token:
  "bot_main e fs us = Inr (t, outs) \<longleftrightarrow>
     (\<exists>ws1 ws2. e ''TELEGRAM_TOKEN'' = Some (ws1 @ t @ ws2) \<and>
        list_all (\<lambda>c. c \<in> set py_whitespace) (ws1 @ ws2) \<and>
        aiogram_token_valid t \<and> \<not> is_substring token_placeholder t \<and> outs = map (dispatch e fs) us)"
proof
  assume "bot_main e fs us = Inr (t, outs)"
  then have r: "require_telegram_token e = Inr t" and v: "aiogram_token_valid t"
    and o: "outs = map (dispatch e fs) us"
    by (auto simp: bot_main_def split: sum.splits if_splits)
  from r obtain s where s: "e ''TELEGRAM_TOKEN'' = Some s" "t = py_strip s"
    and p: "\<not> is_substring token_placeholder t"
    by (auto simp: require_telegram_token_Inr)
  obtain ws1 ws2 where "s = ws1 @ py_strip s @ ws2" "list_all (\<lambda>c. c \<in> set py_whitespace) (ws1 @ ws2)"
    using py_strip_split by blast
  with s v p o show "\<exists>ws1 ws2. e ''TELEGRAM_TOKEN'' = Some (ws1 @ t @ ws2) \<and>
        list_all (\<lambda>c. c \<in> set py_whitespace) (ws1 @ ws2) \<and>
        aiogram_token_valid t \<and> \<not> is_substring token_placeholder t \<and> outs = map (dispatch e fs) us"
    by auto
next
  assume "\<exists>ws1 ws2. e ''TELEGRAM_TOKEN'' = Some (ws1 @ t @ ws2) \<and>
        list_all (\<lambda>c. c \<in> set py_whitespace) (ws1 @ ws2) \<and>
        aiogram_token_valid t \<and> \<not> is_substring token_placeholder t \<and> outs = map (dispatch e fs) us"
  then obtain ws1 ws2 where e: "e ''TELEGRAM_TOKEN'' = Some (ws1 @ t @ ws2)"
    and w: "list_all (\<lambda>c. c \<in> set py_whitespace) (ws1 @ ws2)"
    and v: "aiogram_token_valid t" and p: "\<not> is_substring token_placeholder t"
    and o: "outs = map (dispatch e fs) us" by blast
  have ends: "t \<noteq> []" "hd t \<notin> set py_whitespace" "last t \<notin> set py_whitespace"
    using aiogram_token_valid_ends [OF v] by simp_all
  have "py_strip (ws1 @ t @ ws2) = t" using py_strip_pad [OF w ends] .
  then have "require_telegram_token e = Inr t"
    using e ends(1) p by (auto simp: require_telegram_token_Inr)
  then show "bot_main e fs us = Inr (t, outs)" using v o by (simp add: bot_main_def)
qed

theorem bot_main_token_witness:
  "bot_main token_env bot_store [StartCommand] = Inr (''123:abc'', [start])"
proof -
  have e: "token_env ''TELEGRAM_TOKEN'' = Some ([] @ ''123:abc'' @ [])" by (simp add: token_env_def)
  have w: "list_all (\<lambda>c. c \<in> set py_whitespace) ([] @ [])" by simp
  have v: "aiogram_token_valid ''123:abc''" by (simp add: aiogram_token_valid_def py_whitespace_def)
  have p: "\<not> is_substring token_placeholder ''123:abc''" by (simp add: token_placeholder_def)
  have "bot_main token_env bot_store [StartCommand] =
          Inr (''123:abc'', map (dispatch token_env bot_store) [StartCommand])"
    using bot_main_token [of token_env bot_store "[StartCommand]" "''123:abc''"
        "map (dispatch token_env bot_store) [StartCommand]"] e w v p by blast
  then show ?thesis by (simp add: dispatch_def)
qed

text \<open>A token without the colon and digits, here \<open>abc\<close>, passes the configuration's
  check but not aiogram's: the bot stops with \<open>TokenValidationError\<close>.\<close>

lemma bot_main_malformed_token:
  "e ''TELEGRAM_TOKEN'' = Some ''abc'' \<Longrightarrow> bot_main e fs us = Inl TokenInvalid"
  by (simp add: bot_main_def require_telegram_token_def getenv_def py_strip_def py_whitespace_def
      token_placeholder_def aiogram_token_valid_def)

end
