(* ===== verification/Spec2Isabelle.thy ===== *)
theory Spec2Isabelle
  imports StageLogs Handlers
begin

text \<open>
  \<^bold>\<open>A verification development of the BTC-predict data pipeline.\<close>

  The program (\<open>src/src/\<close>) keeps an hourly OHLCV price series of one instrument and
  derives a feature table from it. Four batch stages run one after the other on a
  table held in memory and rewritten whole to disk:
  \<^item> the incremental downloader, \<open>data_pipeline/download_ohlcv.py\<close>, pages candles
    from the exchange from the last stored timestamp on and merges them into the table;
  \<^item> the gap regularizer, \<open>data_pipeline/fix_gaps.py\<close>, reindexes the table onto the
    hourly grid and fills the missing hours with flat candles;
  \<^item> the feature engine, \<open>data_pipeline/make_features.py\<close>, adds returns, rolling
    statistics, indicators, a Hurst-like exponent, time encodings and forward labels,
    drops incomplete rows and splits the rest 70/15/15 in time;
  \<^item> the validator, \<open>data_pipeline/validate_ohlcv.py\<close>, counts duplicates, OHLC
    violations, non-positive values and grid gaps of a table.
  The stages find their files through \<open>common/config.py\<close>. The chat bot (\<open>bot/\<close>)
  checks its token, polls Telegram and answers the buttons of its menu from the raw
  file: the last candle, a chart of the last 300 rows, RSI and MACD recomputed on the
  last 400 rows, and a placeholder forecast.

  \<^bold>\<open>Library layout\<close> (each theory imports the ones above it that it uses).
  \<^item> \<open>Prelude\<close>: the collections \<open>model_defs\<close>, \<open>causal_intros\<close> and
    \<open>take_commute\<close>; Python's \<open>iloc\<close> (\<open>py_index\<close>), key-based de-duplication
    (\<open>drop_duplicates\<close>, \<open>duplicated\<close> with \<open>keep="first"\<close>) and the shared lemmas on
    lists, keys and sorting.
  \<^item> \<open>Candle\<close>: the candle record (timestamps in milliseconds as \<open>int\<close>, prices as
    \<open>real\<close>), the table invariant \<open>wf_table\<close> (strictly increasing timestamps), the
    error type (one constructor per exception the stages raise), the hourly grid
    \<open>date_range\<close> of \<open>pd.date_range(start, end, freq="1h")\<close>, \<open>is_hourly\<close> and the
    spec's example tables.
  \<^item> \<open>FixGaps\<close>: \<open>fix_hourly_gaps\<close> and \<open>fix_gaps_main\<close>; the reindex-and-ffill pass
    is \<open>reindex_ffill\<close>, one step per grid point; \<open>last_close_on_grid\<close> is the
    abstract specification of the close column it refines.
  \<^item> \<open>Downloader\<close>: \<open>download_incremental\<close>; the page loop \<open>fetch_loop\<close> is a
    \<open>function\<close> over the state record \<open>dl_state\<close> (batch counter, cursor, pages, trace of
    requests and sleeps) with the measure \<open>max_batches - batch\<close>; the exchange is a
    parameter; \<open>fetch_loop_rule\<close> is the loop's invariant rule.
  \<^item> \<open>Validator\<close>: \<open>validate\<close> and its report record.
  \<^item> \<open>PandasSeries\<close>: a float column is \<open>real option list\<close> (\<open>None\<close> = NaN) with
    \<open>diff\<close>, \<open>shift\<close>, \<open>clip\<close>, \<open>rolling(w)\<close> (\<open>min_periods = w\<close>), \<open>mean\<close>,
    \<open>std\<close> (ddof 1; numpy's ddof 0) and \<open>ewm(adjust=False)\<close>; causality of a
    transformer is commuting with \<open>take\<close>.
  \<^item> \<open>Indicators\<close>: \<open>rsi\<close>, \<open>ema\<close>, \<open>macd\<close>, \<open>atr\<close>, \<open>hurst_simple\<close> and the
    time encodings of \<open>make_features.py\<close>.
  \<^item> \<open>PyFormat\<close>: Python's \<open>f"{n}"\<close> (\<open>nat_str\<close>) and \<open>f"{x:.kf}"\<close>
    (\<open>fmt_fixed\<close>: the exact value rounded half to even, the value's sign, \<open>nan\<close>), with
    the read-back \<open>read_fixed\<close> that states their round trip.
  \<^item> \<open>PyTime\<close>: proleptic Gregorian days (\<open>days_from_civil\<close>, \<open>civil_from_days\<close>),
    \<open>_utc_ms\<close> of the downloader, \<open>str()\<close> of a UTC pandas timestamp, and the
    \<open>datetime\<close> constructor's validity (\<open>is_leap\<close>, \<open>days_in_month\<close>,
    \<open>valid_datetime\<close>).
  \<^item> \<open>Features\<close>: the frame of named columns in the code's order, the labels,
    \<open>dropna\<close>, the manifest and the split, with \<open>int(n * 0.70)\<close> in float64
    (\<open>round_f64\<close>: 53-bit round-half-even of the exact product).
  \<^item> \<open>Config\<close>: \<open>get_settings\<close> over an environment, the \<open>.env\<close> file laid over
    the process environment (\<open>load_dotenv_override\<close>), \<open>str.strip\<close>,
    \<open>str.replace\<close>, \<open>require_telegram_token\<close> (the placeholder as its UTF-8 bytes), and
    the file store (path to table).
  \<^item> \<open>Pipeline\<close>: \<open>_make_exchange\<close> over a registry of exchanges, the four
    \<open>main\<close> functions as store transformers (the
    validator's returns the report file it writes) and their composition in the spec's
    order.
  \<^item> \<open>Bot\<close>: \<open>load_df_last_n\<close>, \<open>get_last_candle\<close>, the bot's own copies of
    \<open>ema\<close>/\<open>rsi\<close>/\<open>macd\<close> (proved equal to the pipeline's) and \<open>calc_indicators\<close>.
  \<^item> \<open>Handlers\<close>: the keyboard \<open>main_menu\<close>, the five callback handlers and \<open>start\<close>
    as lists of chat actions (\<open>action\<close>: message, photo, saved chart, \<open>cb.answer()\<close>)
    with the exception that ends them, the router (\<open>route\<close>, \<open>dispatch\<close>) and
    \<open>bot_main\<close> of \<open>bot/main.py\<close> (with aiogram's token-format check of \<open>Bot(token)\<close>,
    \<open>aiogram_token_valid\<close>, modelled from aiogram's \<open>validate_token\<close>), which maps the dispatch over the polled updates
    (aiogram logs a handler's exception and keeps polling). The Russian literals are
    the constants of \<open>lit\<close>.
  \<^item> \<open>Logging\<close>: loguru as \<open>common/logging.py\<close> configures it: the logger is its
    list of sinks (minimum severity, colour, backtrace, diagnose); \<open>setup_logger\<close> is
    \<open>logger.remove()\<close> then \<open>logger.add\<close> of the printing sink at \<open>INFO\<close>; a call
    emits one record per sink whose level it reaches.
  \<^item> \<open>StageLogs\<close>: every \<open>logger\<close> call of the four stages. \<open>fix_gaps_logged\<close>,
    \<open>validate_logged\<close>, \<open>download_main_logged\<close> and \<open>make_features_logged\<close> return
    the stage's result and the records printed; the loop of the downloader with its
    error and progress lines is \<open>fetch_loop_logged\<close>, proved to compute what
    \<open>fetch_loop\<close> computes. Messages are lists of pieces: the Russian texts are the
    constants of \<open>log_lit\<close>, values are printed as Python prints them (\<open>nat_str\<close>,
    \<open>fmt_timestamp\<close>, \<open>NaT\<close> for an empty column), the report is the JSON object of
    \<open>report_json\<close>.
  \<^item> \<open>Spec2Isabelle\<close> (this theory): the header and the properties that span stages.

  \<^bold>\<open>What is proved\<close> (claims C1--C40, each after a \<open>text\<close> naming it).
  \<^item> Regularizer (C1--C7, C39): the output is exactly the grid spanning the input;
    filled rows are flat candles at the previous close; on-grid rows are kept; the
    missing count; errors as values; idempotence; off-grid rows are dropped; the close
    column refines last-observation-carried-forward over the on-grid rows.
  \<^item> Downloader (C8--C16): the merged table is well formed, idempotent on no new data,
    keeps every stored row, resumes after the stored maximum; the loop makes at most
    \<open>max_batches\<close> requests, sleeps between every two, moves its cursor forward when the
    exchange honours \<open>since\<close>; a fetch error ends the loop but never the run, which
    returns a well-formed table; an empty stored file ignores the \<open>since\<close> hint.
  \<^item> Validator (C17--C19) and the stages together (C21--C24): errors, the duplicate and
    OHLC counters; a regularized table validates clean, the two gap counts agree, valid
    candles stay valid, a downloaded table always regularizes.
  \<^item> Formatting (C20, C26): every price of the bot's price reply reads back as the
    candle's value rounded half to even at its printed precision (two decimals, four for
    the volume), built on the round trip of \<open>f"{x:.kf}"\<close> (\<open>fmt_fixed_roundtrip\<close>); \<open>str()\<close> of the
    pandas timestamp at \<open>_utc_ms(dt)\<close> prints every valid UTC \<open>datetime\<close> back, which
    rests on \<open>civil_from_days\<close> inverting \<open>days_from_civil\<close> on every valid date
    (\<open>civil_from_days_days_from_civil\<close>, proved by splitting the year of an era into
    centuries, four-year cycles and years).
  \<^item> Indicators (C25, C27): RSI lies in \<open>[0, 100)\<close> (over the reals; in float64 it
    reaches \<open>100.0\<close> when the average loss is 0 and the gain large); the Hurst fit
    recovers the exponent of an exact power law. The guards of the Hurst estimator and
    the closed form of the recursive EWM are lemmas of \<open>Indicators\<close>.
  \<^item> Features (C29--C35): no feature column looks ahead; labels are the log
    returns to the row exactly \<open>h\<close> hours later on an hourly table; a row surviving
    \<open>dropna\<close> has index at least 255 and 24 rows after it; the float64 split
    indices are within one of the exact fractions for \<open>n < 2^40\<close>; the split is ordered
    from four rows on. The Bollinger bands, the manifest, the schema of 63 distinct
    columns (\<open>dropna_schema\<close>), the duplicate \<open>vol_w\<close> columns,
    the split's boundary cases and the weekly time encodings are lemmas of
    \<open>Features\<close>.
  \<^item> Bot (C32, C33, C36): the candle the bot reports is a row with the largest
    timestamp whatever the file's order, and an empty file raises \<open>IndexError\<close>;
    every main-menu button is answered exactly once and acknowledged whenever the raw
    file has rows; the bot starts exactly when \<open>TELEGRAM_TOKEN\<close> is a token padded with
    whitespace that passes aiogram's format check and does not hold the placeholder.
    Without the raw file the data buttons are never acknowledged
    (\<open>data_callbacks_unanswered\<close>).
  \<^item> Logs (C28, C37): a download prints one \<open>ERROR\<close> line exactly when a fetch failed
    and always ends with the saved-table lines; the regularizer's five lines report the
    validator's gap count, the grid size and the span from the raw minimum to the last
    grid point. The lemmas of \<open>StageLogs\<close> show that each logged stage computes what
    its \<open>Pipeline\<close> model computes and that after \<open>setup_logger\<close> every call of the
    stages is printed exactly once (they log at \<open>INFO\<close> and \<open>ERROR\<close>).
  \<^item> Composition (C38, C40): after the stages run in order, the bot and the feature
    stage both read the downloader's table, not the regularized one, which goes to
    \<open>..._fixed_fixed.parquet\<close> by default.

  \<^bold>\<open>Bounds and fuel.\<close> No fuel is used: \<open>fetch_loop\<close> terminates by its measure,
  \<open>str_replace\<close> by the length of the scanned string. The float64 model of the split is
  exact for \<open>n < 2^53\<close>; its error bound is proved for \<open>n < 2^40\<close> (over a hundred million years of
  hourly rows), where the rounding error \<open>2^40\<close> is below one unit of the quotient.

  \<^bold>\<open>Not modelled.\<close> Network access (\<open>ccxt\<close>) is the exchange parameter of the
  downloader and the registry of \<open>make_exchange\<close> the map from names to exchanges
  (\<open>load_markets\<close> is part of building one); the ISO-date
  parsing of \<open>since\<close> is left out because \<open>main\<close> never passes a hint (the model takes
  the hint in milliseconds); file I/O is the store, directory creation has no effect on
  it. Of the logging, the line loguru formats around a message (time, level name,
  module, colours) and the text of a caught exception (\<open>LExc\<close>; the exchange's failure
  carries none) are not modelled; \<open>datetime.fromtimestamp\<close> of a whole-millisecond
  cursor prints as \<open>fmt_timestamp\<close> does. The
  bot's Russian texts are constants, not their characters; mplfinance's drawing is the
  chart record it receives (its behaviour on an empty frame is not modelled); Telegram
  and aiogram are the list of polled updates. Strings are 8-bit: \<open>str.strip\<close> removes
  the ASCII whitespace only. Float64 is \<open>real\<close> in the indicators and the printed
  values (only the split indices, where truncation decides a row, are modelled
  bit-exactly); \<open>np.log(0) = -inf\<close> is read as NaN (a valid candle has a positive
  close). \<open>utc_ms\<close> takes whole seconds, as every datetime the code builds has.
\<close>

section \<open>Properties across stages\<close>

lemma validate_Inr_wf:
  assumes "wf_table t" "validate (Some t) tf = Inr rep"
  shows "duplicates rep = 0"
proof -
  have "distinct (map timestamp_utc t)" using assms(1) by (rule wf_table_distinct)
  then have "length t - card (timestamp_utc ` set t) = 0"
    by (metis distinct_card diff_self_eq_0 length_map set_map)
  with assms show ?thesis
    by (simp add: validate_Inr wf_table_sorted_id count_duplicated_distinct)
qed

text \<open>
  C21 (a regularized table passes the validator's structural checks, spec sections 4.2
  and 4.4): validating the regularizer's output at \<open>"1h"\<close> reports no duplicate
  timestamp, no gap, and as many rows as the grid spanning the input has.
\<close>

theorem regularized_table_validates_clean:
  assumes "fix_hourly_gaps df = Inr (out, missing)"
    and "validate (Some out) ''1h'' = Inr rep"
  shows "duplicates rep = 0 \<and> gaps_1h rep = Some 0 \<and> rows rep = grid_count (ts_min df) (ts_max df)"
proof -
  have g: "out \<noteq> []" "wf_table out" "date_range (ts_min out) (ts_max out) = map timestamp_utc out"
    using fix_hourly_gaps_out_grid [OF assms(1)] by simp_all
  note f = fix_hourly_gaps_facts [OF assms(1)]
  have "length out = grid_count (ts_min df) (ts_max df)"
    using f(3) f(4) by (metis length_map length_date_range not_less)
  moreover have "filter (\<lambda>g. g \<notin> timestamp_utc ` set out) (map timestamp_utc out) = []"
    by (simp add: filter_empty_conv)
  ultimately show ?thesis
    using assms(2) g validate_Inr_wf [OF g(2) assms(2)] by (simp add: validate_Inr)
qed

theorem regularized_table_validates_clean_witness:
  "duplicates (projr (validate (Some spec_example_fixed) ''1h'')) = 0 \<and>
   gaps_1h (projr (validate (Some spec_example_fixed) ''1h'')) = Some 0"
proof -
  have run: "validate (Some spec_example_fixed) ''1h'' = Inr (projr (validate (Some spec_example_fixed) ''1h''))"
    by code_simp
  from regularized_table_validates_clean [OF fix_hourly_gaps_spec_example run] show ?thesis by simp
qed

text \<open>
  C22 (the two gap counts agree): on a table the regularizer accepts, the validator's
  \<open>propuski_1h\<close> counter equals the regularizer's missing count.
\<close>

theorem validator_gaps_eq_missing:
  assumes "fix_hourly_gaps df = Inr (out, missing)"
    and "validate (Some df) ''1h'' = Inr rep"
  shows "gaps_1h rep = Some missing"
  using assms by (simp add: fix_hourly_gaps_Inr_iff validate_Inr lookup_sort_by_ts_None)

theorem validator_gaps_eq_missing_witness:
  "gaps_1h (projr (validate (Some spec_example_raw) ''1h'')) = Some 2"
proof -
  have run: "validate (Some spec_example_raw) ''1h'' = Inr (projr (validate (Some spec_example_raw) ''1h''))"
    by code_simp
  from validator_gaps_eq_missing [OF fix_hourly_gaps_spec_example run] show ?thesis .
qed

text \<open>
  C23 (regularization keeps candles valid): if every raw row is a valid candle (positive
  prices, non-negative volume, consistent high and low), the validator finds no OHLC or
  sign violation in the regularized table: the synthesised flat candles are valid too.
\<close>

theorem regularized_valid_table_has_no_violations:
  assumes "fix_hourly_gaps df = Inr (out, missing)"
    and "\<forall>r \<in> set df. candle_valid r"
    and "validate (Some out) tf = Inr rep"
  shows "invalid_high rep = 0 \<and> invalid_low rep = 0 \<and> negative_prices rep = 0 \<and>
         negative_volume rep = 0"
proof -
  have "\<forall>r \<in> set out. candle_valid r" by (rule fix_hourly_gaps_valid_rows [OF assms(1,2)])
  with assms(3) show ?thesis
    by (auto simp: validate_Inr candle_valid_def filter_empty_conv not_less)
qed

theorem regularized_valid_table_has_no_violations_witness:
  "invalid_high (projr (validate (Some spec_example_fixed) ''1h'')) = 0 \<and>
   negative_prices (projr (validate (Some spec_example_fixed) ''1h'')) = 0"
proof -
  have run: "validate (Some spec_example_fixed) ''1h'' = Inr (projr (validate (Some spec_example_fixed) ''1h''))"
    by code_simp
  have "\<forall>r \<in> set spec_example_raw. candle_valid r"
    by (simp add: spec_example_raw_def candle_valid_def)
  from regularized_valid_table_has_no_violations [OF fix_hourly_gaps_spec_example this run]
  show ?thesis by simp
qed

text \<open>
  C24 (the downloader feeds the regularizer): a non-empty table persisted by the
  downloader is always accepted by the regularizer; it can never fail on duplicate
  timestamps.
\<close>

theorem downloaded_table_regularizes:
  assumes "download_incremental exo rl existing since mb = Inr (t, tr)" and "t \<noteq> []"
  shows "\<exists>out missing. fix_hourly_gaps t = Inr (out, missing)"
proof -
  have "wf_table t"
    using assms(1) by (auto simp: download_incremental_def Let_def wf_table_merge_tables
        split: option.splits)
  then have "distinct (map timestamp_utc t)" by (rule wf_table_distinct)
  with assms(2) show ?thesis by (simp add: fix_hourly_gaps_Inr_iff)
qed

theorem downloaded_table_regularizes_witness:
  "\<exists>out missing. fix_hourly_gaps (fst (projr (download_incremental (Some no_new_data) None
      (Some spec_example_raw) None 10))) = Inr (out, missing)"
proof -
  let ?d = "download_incremental (Some no_new_data) None (Some spec_example_raw) None 10"
  have run: "?d = Inr (fst (projr ?d), snd (projr ?d))" by code_simp
  have "fst (projr ?d) \<noteq> []" by code_simp
  from downloaded_table_regularizes [OF run this] show ?thesis .
qed

text \<open>
  C38 (the bot reads the downloader's table): after download, gap fixing and feature
  building have run in order with a raw path containing \<open>.parquet\<close>, every read of
  the bot (\<open>load_df_last_n\<close>, hence the chart and the indicators) returns the tail of
  the downloader's table at \<open>data_raw_path\<close>, and the price reply shows that table's
  latest candle; the spec (section 5) says the bot reads the gap-fixed table.
\<close>

theorem bot_reads_downloaded_table:
  assumes "run_pipeline exs e fs = Inr (fs2, feats)"
    and "take 8 (drop i (data_raw_path (get_settings e))) = ''.parquet''"
  shows "\<exists>fs1 t. download_main exs e fs = Inr fs1 \<and> fs1 (data_raw_path (get_settings e)) = Some t \<and>
           (\<forall>n. load_df_last_n e fs2 n = Inr (drop (length t - n) (sort_by_ts t))) \<and>
           (t \<noteq> [] \<longrightarrow>
              price_now e fs2 = ([Answer (price_text (last (sort_by_ts t))) main_menu, AckCallback], None))"
proof -
  let ?p = "data_raw_path (get_settings e)"
  obtain fs1 out where d: "download_main exs e fs = Inr fs1"
    and fs2: "fs2 = fs1(fixed_path ?p := Some out)"
    using run_pipeline_Inr [OF assms(1)] by blast
  obtain t where t: "fs1 ?p = Some t"
    using d by (auto simp: download_main_def Let_def split: sum.splits)
  have "fs2 ?p = Some t" using fs2 fixed_path_changes [OF assms(2)] t by simp
  moreover have "t \<noteq> [] \<Longrightarrow>
      price_now e fs2 = ([Answer (price_text (last (sort_by_ts t))) main_menu, AckCallback], None)"
    using price_now_ok [where fs=fs2 and e=e] \<open>fs2 ?p = Some t\<close> by blast
  ultimately show ?thesis using d t by (auto simp: load_df_last_n_Inr)
qed

theorem bot_reads_downloaded_table_witness:
  "load_df_last_n empty_env
     (example_store(''data/raw/btcusdt_1h_fixed_fixed.parquet'' := Some spec_example_fixed)) 300 =
   Inr spec_example_raw"
proof -
  have p: "take 8 (drop 25 (data_raw_path (get_settings empty_env))) = ''.parquet''"
    using default_paths by simp
  obtain fs1 t where d: "download_main quiet_exchanges empty_env example_store = Inr fs1"
    and t: "fs1 (data_raw_path (get_settings empty_env)) = Some t"
    and l: "\<forall>n. load_df_last_n empty_env
              (example_store(''data/raw/btcusdt_1h_fixed_fixed.parquet'' := Some spec_example_fixed)) n =
            Inr (drop (length t - n) (sort_by_ts t))"
    using bot_reads_downloaded_table [OF example_run p] by blast
  have "fs1 = example_store" using d example_download by simp
  then have "t = spec_example_raw" using t default_paths by (simp add: example_store_def)
  moreover have "sort_by_ts spec_example_raw = spec_example_raw"
    by (simp add: spec_example_raw_def)
  ultimately show ?thesis using l by (simp add: spec_example_raw_def)
qed

end
